theory Spec2Isabelle
  imports Main "HOL-Library.Sublist"
begin

section \<open>Calendar dates\<close>

text \<open>
  The passport tool of \<^verbatim>\<open>app.py\<close> computes with values of Python's
  \<^verbatim>\<open>datetime.date\<close>. A date is a year, a month and a day of the proleptic
  Gregorian calendar; the constructor accepts the years 1 to 9999 and raises
  \<^verbatim>\<open>ValueError\<close> on any field out of range. Adding a \<^verbatim>\<open>timedelta\<close> goes
  through the ordinal of the date (day 1 is 0001-01-01) and raises
  \<^verbatim>\<open>OverflowError\<close> when the result leaves the range. The definitions below follow
  the algorithms of the standard library (\<^verbatim>\<open>_is_leap\<close>, \<^verbatim>\<open>_days_before_year\<close>,
  \<^verbatim>\<open>_days_in_month\<close>, \<^verbatim>\<open>_days_before_month\<close>, \<^verbatim>\<open>_ymd2ord\<close>,
  \<^verbatim>\<open>_ord2ymd\<close>, \<^verbatim>\<open>_check_date_fields\<close>), with every raise as a value.
\<close>

datatype py_error = ValueError | OverflowError | KeyError

record date =
  year :: int
  month :: int
  day :: int

definition MINYEAR :: int where
  "MINYEAR = 1"

definition MAXYEAR :: int where
  "MAXYEAR = 9999"

definition is_leap :: "int \<Rightarrow> bool" where
  "is_leap y = (y mod 4 = 0 \<and> (y mod 100 \<noteq> 0 \<or> y mod 400 = 0))"

definition DAYS_IN_MONTH :: "int list" where
  "DAYS_IN_MONTH = [-1, 31, 28, 31, 30, 31, 30, 31, 31, 30, 31, 30, 31]"

definition DAYS_BEFORE_MONTH :: "int list" where
  "DAYS_BEFORE_MONTH = [-1, 0, 31, 59, 90, 120, 151, 181, 212, 243, 273, 304, 334]"

definition days_before_year :: "int \<Rightarrow> int" where
  "days_before_year y = (let y1 = y - 1 in y1 * 365 + y1 div 4 - y1 div 100 + y1 div 400)"

text \<open>The two table lookups are only made with a month between 1 and 12.\<close>

definition days_in_month :: "int \<Rightarrow> int \<Rightarrow> int" where
  "days_in_month y m = (if m = 2 \<and> is_leap y then 29 else DAYS_IN_MONTH ! nat m)"

definition days_before_month :: "int \<Rightarrow> int \<Rightarrow> int" where
  "days_before_month y m =
     DAYS_BEFORE_MONTH ! nat m + (if m > 2 \<and> is_leap y then 1 else 0)"

definition ymd2ord :: "int \<Rightarrow> int \<Rightarrow> int \<Rightarrow> int" where
  "ymd2ord y m d = days_before_year y + days_before_month y m + d"

definition DI400Y :: int where
  "DI400Y = 146097"

definition DI100Y :: int where
  "DI100Y = 36524"

definition DI4Y :: int where
  "DI4Y = 1461"

definition MAXORDINAL :: int where
  "MAXORDINAL = 3652059"

text \<open>
  \<^verbatim>\<open>_ord2ymd\<close>: the ordinal is cut into 400-year, 100-year, 4-year and 1-year cycles.
  The end of the function, which finds the month and the day from the 0-based day of the
  year, is \<open>month_day\<close>: the month is estimated by \<^verbatim>\<open>(n + 50) >> 5\<close> and
  corrected downwards when the estimate is too large.
\<close>

definition month_day :: "bool \<Rightarrow> int \<Rightarrow> int \<times> int" where
  "month_day leapyear n =
     (let m = (n + 50) div 32;
          preceding = DAYS_BEFORE_MONTH ! nat m + (if m > 2 \<and> leapyear then 1 else 0)
      in if preceding > n
         then let m = m - 1;
                  preceding = preceding
                    - (DAYS_IN_MONTH ! nat m + (if m = 2 \<and> leapyear then 1 else 0))
              in (m, n - preceding + 1)
         else (m, n - preceding + 1))"

definition ord2ymd :: "int \<Rightarrow> int \<times> int \<times> int" where
  "ord2ymd n0 =
     (let n = n0 - 1;
          n400 = n div DI400Y; n = n mod DI400Y;
          y = n400 * 400 + 1;
          n100 = n div DI100Y; n = n mod DI100Y;
          n4 = n div DI4Y; n = n mod DI4Y;
          n1 = n div 365; n = n mod 365;
          y = y + n100 * 100 + n4 * 4 + n1
      in if n1 = 4 \<or> n100 = 4 then (y - 1, 12, 31)
         else
           let leapyear = (n1 = 3 \<and> (n4 \<noteq> 24 \<or> n100 = 3))
           in case month_day leapyear n of (m, d) \<Rightarrow> (y, m, d))"

text \<open>
  The constructor \<^verbatim>\<open>date(y, m, d)\<close>, which \<^verbatim>\<open>d.replace\<close> calls as well. The
  arguments are converted to C integers first, which raises \<^verbatim>\<open>OverflowError\<close> for
  an argument out of their range; then come the checks of \<^verbatim>\<open>_check_date_fields\<close>,
  which raise \<^verbatim>\<open>ValueError\<close>.
\<close>

definition c_int :: "int \<Rightarrow> bool" where
  "c_int x = (- 2147483648 \<le> x \<and> x \<le> 2147483647)"

definition date_new :: "int \<Rightarrow> int \<Rightarrow> int \<Rightarrow> py_error + date" where
  "date_new y m d =
     (if \<not> (c_int y \<and> c_int m \<and> c_int d) then Inl OverflowError
      else if \<not> (MINYEAR \<le> y \<and> y \<le> MAXYEAR) then Inl ValueError
      else if \<not> (1 \<le> m \<and> m \<le> 12) then Inl ValueError
      else if \<not> (1 \<le> d \<and> d \<le> days_in_month y m) then Inl ValueError
      else Inr \<lparr>year = y, month = m, day = d\<rparr>)"

text \<open>The values of type \<^verbatim>\<open>date\<close> that Python can hold.\<close>

definition valid_date :: "date \<Rightarrow> bool" where
  "valid_date d =
     (MINYEAR \<le> year d \<and> year d \<le> MAXYEAR \<and> 1 \<le> month d \<and> month d \<le> 12
      \<and> 1 \<le> day d \<and> day d \<le> days_in_month (year d) (month d))"

text \<open>Dates compare as the tuples (year, month, day).\<close>

definition date_lt :: "date \<Rightarrow> date \<Rightarrow> bool" where
  "date_lt a b =
     (year a < year b \<or> (year a = year b \<and>
        (month a < month b \<or> (month a = month b \<and> day a < day b))))"

definition date_le :: "date \<Rightarrow> date \<Rightarrow> bool" where
  "date_le a b = (date_lt a b \<or> a = b)"

definition toordinal :: "date \<Rightarrow> int" where
  "toordinal d = ymd2ord (year d) (month d) (day d)"

definition fromordinal :: "int \<Rightarrow> py_error + date" where
  "fromordinal n = (case ord2ymd n of (y, m, d) \<Rightarrow> date_new y m d)"

text \<open>\<^verbatim>\<open>d + timedelta(days=k)\<close> and \<^verbatim>\<open>(a - b).days\<close>.\<close>

definition date_add_days :: "date \<Rightarrow> int \<Rightarrow> py_error + date" where
  "date_add_days d k =
     (let n = toordinal d + k
      in if 0 < n \<and> n \<le> MAXORDINAL then fromordinal n else Inl OverflowError)"

definition days_between :: "date \<Rightarrow> date \<Rightarrow> int" where
  "days_between a b = toordinal a - toordinal b"


section \<open>The passport tool\<close>

text \<open>
  \<^verbatim>\<open>safe_add_years\<close>: \<^verbatim>\<open>d.replace(year=d.year + years)\<close> builds a new date and
  raises \<^verbatim>\<open>ValueError\<close> when it does not exist; the handler then builds 28 February of
  the same year, which raises again when the year itself is out of range. An
  \<^verbatim>\<open>OverflowError\<close> of the first call is not caught.
\<close>

definition safe_add_years :: "date \<Rightarrow> int \<Rightarrow> py_error + date" where
  "safe_add_years d years =
     (case date_new (year d + years) (month d) (day d) of
        Inr r \<Rightarrow> Inr r
      | Inl e \<Rightarrow> if e = ValueError then date_new (year d + years) 2 28 else Inl e)"

text \<open>The stage is 14, 20, 45 or \<^verbatim>\<open>None\<close>.\<close>

definition current_passport_stage :: "date \<Rightarrow> date \<Rightarrow> py_error + int option" where
  "current_passport_stage birth issue =
     (case safe_add_years birth 14 of Inl e \<Rightarrow> Inl e | Inr d14 \<Rightarrow>
      case safe_add_years birth 20 of Inl e \<Rightarrow> Inl e | Inr d20 \<Rightarrow>
      case safe_add_years birth 45 of Inl e \<Rightarrow> Inl e | Inr d45 \<Rightarrow>
        Inr (if date_le d45 issue then Some 45
             else if date_le d20 issue \<and> date_lt issue d45 then Some 20
             else if date_le d14 issue \<and> date_lt issue d20 then Some 14
             else None))"

text \<open>
  The four labels of \<^verbatim>\<open>classify_passport_stage_text\<close> are Russian sentences; a Python
  string is represented by the bytes of its UTF-8 encoding.
\<close>

definition label_unknown :: string where
  "label_unknown =
     [CHR 0xD0, CHR 0x9D, CHR 0xD0, CHR 0xB5] @
     '' '' @
     [CHR 0xD1, CHR 0x83, CHR 0xD0, CHR 0xB4, CHR 0xD0, CHR 0xB0, CHR 0xD0, CHR 0xBB] @
     [CHR 0xD0, CHR 0xBE, CHR 0xD1, CHR 0x81, CHR 0xD1, CHR 0x8C] @
     '' '' @
     [CHR 0xD0, CHR 0xBE, CHR 0xD0, CHR 0xB4, CHR 0xD0, CHR 0xBD, CHR 0xD0, CHR 0xBE] @
     [CHR 0xD0, CHR 0xB7, CHR 0xD0, CHR 0xBD, CHR 0xD0, CHR 0xB0, CHR 0xD1, CHR 0x87] @
     [CHR 0xD0, CHR 0xBD, CHR 0xD0, CHR 0xBE] @
     '' '' @
     [CHR 0xD0, CHR 0xBE, CHR 0xD0, CHR 0xBF, CHR 0xD1, CHR 0x80, CHR 0xD0, CHR 0xB5] @
     [CHR 0xD0, CHR 0xB4, CHR 0xD0, CHR 0xB5, CHR 0xD0, CHR 0xBB, CHR 0xD0, CHR 0xB8] @
     [CHR 0xD1, CHR 0x82, CHR 0xD1, CHR 0x8C] @
     '' ('' @
     [CHR 0xD0, CHR 0xBF, CHR 0xD1, CHR 0x80, CHR 0xD0, CHR 0xBE, CHR 0xD0, CHR 0xB2] @
     [CHR 0xD0, CHR 0xB5, CHR 0xD1, CHR 0x80, CHR 0xD1, CHR 0x8C, CHR 0xD1, CHR 0x82] @
     [CHR 0xD0, CHR 0xB5] @
     '' '' @
     [CHR 0xD0, CHR 0xB2, CHR 0xD0, CHR 0xB2, CHR 0xD0, CHR 0xBE, CHR 0xD0, CHR 0xB4] @
     '')''"

definition label_14 :: string where
  "label_14 =
     [CHR 0xD0, CHR 0x9F, CHR 0xD0, CHR 0xB5, CHR 0xD1, CHR 0x80, CHR 0xD0, CHR 0xB2] @
     [CHR 0xD0, CHR 0xB8, CHR 0xD1, CHR 0x87, CHR 0xD0, CHR 0xBD, CHR 0xD0, CHR 0xBE] @
     [CHR 0xD0, CHR 0xB5] @
     '' '' @
     [CHR 0xD0, CHR 0xBF, CHR 0xD0, CHR 0xBE, CHR 0xD0, CHR 0xBB, CHR 0xD1, CHR 0x83] @
     [CHR 0xD1, CHR 0x87, CHR 0xD0, CHR 0xB5, CHR 0xD0, CHR 0xBD, CHR 0xD0, CHR 0xB8] @
     [CHR 0xD0, CHR 0xB5] @
     '' '' @
     [CHR 0xD0, CHR 0xB2] @
     '' 14 '' @
     [CHR 0xD0, CHR 0xBB, CHR 0xD0, CHR 0xB5, CHR 0xD1, CHR 0x82]"

definition label_20 :: string where
  "label_20 =
     [CHR 0xD0, CHR 0x9E, CHR 0xD0, CHR 0xB1, CHR 0xD0, CHR 0xBC, CHR 0xD0, CHR 0xB5] @
     [CHR 0xD0, CHR 0xBD] @
     '' '' @
     [CHR 0xD0, CHR 0xB2] @
     '' 20 '' @
     [CHR 0xD0, CHR 0xBB, CHR 0xD0, CHR 0xB5, CHR 0xD1, CHR 0x82]"

definition label_45 :: string where
  "label_45 =
     [CHR 0xD0, CHR 0x9E, CHR 0xD0, CHR 0xB1, CHR 0xD0, CHR 0xBC, CHR 0xD0, CHR 0xB5] @
     [CHR 0xD0, CHR 0xBD] @
     '' '' @
     [CHR 0xD0, CHR 0xB2] @
     '' 45 '' @
     [CHR 0xD0, CHR 0xBB, CHR 0xD0, CHR 0xB5, CHR 0xD1, CHR 0x82]"

definition classify_passport_stage_text :: "int option \<Rightarrow> string" where
  "classify_passport_stage_text stage =
     (if stage = Some 14 then label_14
      else if stage = Some 20 then label_20
      else if stage = Some 45 then label_45
      else label_unknown)"

text \<open>The dictionary returned by \<^verbatim>\<open>compute_status\<close> always has the same five keys.\<close>

record status_report =
  stage_label :: string
  next_change :: "date option"
  deadline :: "date option"
  status_kind :: string
  days_left :: "int option"

definition no_more_report :: "string \<Rightarrow> status_report" where
  "no_more_report label =
     \<lparr>stage_label = label, next_change = None, deadline = None,
      status_kind = ''no_more'', days_left = None\<rparr>"

definition compute_status :: "date \<Rightarrow> date \<Rightarrow> date \<Rightarrow> py_error + status_report" where
  "compute_status birth issue today =
     (case safe_add_years birth 20 of Inl e \<Rightarrow> Inl e | Inr d20 \<Rightarrow>
      case safe_add_years birth 45 of Inl e \<Rightarrow> Inl e | Inr d45 \<Rightarrow>
      case current_passport_stage birth issue of Inl e \<Rightarrow> Inl e | Inr stage \<Rightarrow>
        let stage_label = classify_passport_stage_text stage;
            age_next_change =
              (if date_lt today d20 then Some d20
               else if date_lt today d45 then Some d45
               else None)
        in if stage = Some 45 then Inr (no_more_report stage_label)
           else
             let next_change =
                   (if stage = Some 20 then Some d45
                    else if stage = Some 14 then Some d20
                    else age_next_change)
             in case next_change of
                  None \<Rightarrow> Inr (no_more_report stage_label)
                | Some nc \<Rightarrow>
                    (case date_add_days nc 90 of Inl e \<Rightarrow> Inl e | Inr dl \<Rightarrow>
                       let (kind, dleft) =
                             (if date_lt dl today then (''invalid'', None)
                              else if date_le nc today then (''due'', Some (days_between dl today))
                              else (''ok'', Some (days_between nc today)))
                       in Inr \<lparr>stage_label = stage_label, next_change = Some nc,
                               deadline = Some dl, status_kind = kind, days_left = dleft\<rparr>))"

subsection \<open>Whole elapsed years\<close>

text \<open>
  \<^verbatim>\<open>relativedelta(dt1, dt2).years\<close> of \<^verbatim>\<open>dateutil\<close>: the difference in months of the
  two year-month pairs is corrected, one month at a time, until \<^verbatim>\<open>dt2\<close> plus that many
  months no longer passes \<^verbatim>\<open>dt1\<close>; the years are the whole dozens of months.
  \<open>rd_set_months\<close> is \<^verbatim>\<open>_set_months\<close> (it returns the years and the months),
  \<open>rd_add\<close> is \<^verbatim>\<open>__radd__\<close> for a delta of years and months only (the day is cut to
  the length of the month), \<open>rd_adjust\<close> is the \<^verbatim>\<open>while\<close> loop of the constructor.
\<close>

definition rd_set_months :: "int \<Rightarrow> int \<times> int" where
  "rd_set_months months =
     (if \<bar>months\<bar> > 11
      then let s = (if months < 0 then - 1 else 1);
               dv = (months * s) div 12;
               md = (months * s) mod 12
           in (dv * s, md * s)
      else (0, months))"

definition rd_add :: "int \<times> int \<Rightarrow> date \<Rightarrow> py_error + date" where
  "rd_add delta dt =
     (case delta of (years, months) \<Rightarrow>
        let y = year dt + years;
            m = month dt;
            (y, m) =
              (if months \<noteq> 0
               then let m = m + months
                    in if m > 12 then (y + 1, m - 12)
                       else if m < 1 then (y - 1, m + 12)
                       else (y, m)
               else (y, m))
        in if \<not> (1 \<le> m \<and> m \<le> 12) then Inl ValueError
           else date_new y m (min (days_in_month y m) (day dt)))"

function rd_adjust :: "bool \<Rightarrow> date \<Rightarrow> date \<Rightarrow> int \<Rightarrow> py_error + int" where
  "rd_adjust up dt1 dt2 months =
     (case rd_add (rd_set_months months) dt2 of
        Inl e \<Rightarrow> Inl e
      | Inr dtm \<Rightarrow>
          if (if up then date_lt dtm dt1 else date_lt dt1 dtm)
          then rd_adjust up dt1 dt2 (months + (if up then 1 else - 1))
          else Inr months)"
  by pat_completeness auto

definition relativedelta_years :: "date \<Rightarrow> date \<Rightarrow> py_error + int" where
  "relativedelta_years dt1 dt2 =
     (let months = (year dt1 - year dt2) * 12 + (month dt1 - month dt2)
      in case rd_adjust (date_lt dt1 dt2) dt1 dt2 months of
           Inl e \<Rightarrow> Inl e
         | Inr months \<Rightarrow> Inr (fst (rd_set_months months)))"

subsection \<open>Validation\<close>

text \<open>
  \<^verbatim>\<open>MIN_BIRTH\<close> and \<^verbatim>\<open>MIN_ISSUE\<close> are fixed dates. \<^verbatim>\<open>MAX_BIRTH\<close> and
  \<^verbatim>\<open>MAX_ISSUE\<close> are set to \<^verbatim>\<open>date.today()\<close> when the module is loaded; they are the
  two fields of \<open>globals\<close>. The argument \<^verbatim>\<open>today\<close> of \<^verbatim>\<open>validate_inputs\<close> is a
  third value.
\<close>

definition MIN_BIRTH :: date where
  "MIN_BIRTH = \<lparr>year = 1900, month = 1, day = 1\<rparr>"

definition MIN_ISSUE :: date where
  "MIN_ISSUE = \<lparr>year = 1900, month = 1, day = 1\<rparr>"

record globals =
  MAX_BIRTH :: date
  MAX_ISSUE :: date

text \<open>
  The seven messages, in the order of the checks. The two range messages print their
  bounds with \<^verbatim>\<open>strftime\<close>; they carry the two dates.
\<close>

datatype message =
    BirthInFuture
  | IssueInFuture
  | IssueBeforeBirth
  | Under14
  | IssueBefore14
  | BirthOutOfRange date date
  | IssueOutOfRange date date

definition validate_inputs :: "globals \<Rightarrow> date \<Rightarrow> date \<Rightarrow> date \<Rightarrow> py_error + message list" where
  "validate_inputs g birth issue today =
     (let errs = [];
          errs = (if date_lt today birth then errs @ [BirthInFuture] else errs);
          errs = (if date_lt today issue then errs @ [IssueInFuture] else errs);
          errs = (if date_lt issue birth then errs @ [IssueBeforeBirth] else errs)
      in case relativedelta_years today birth of Inl e \<Rightarrow> Inl e | Inr years \<Rightarrow>
           let errs = (if years < 14 then errs @ [Under14] else errs)
           in case safe_add_years birth 14 of Inl e \<Rightarrow> Inl e | Inr d14 \<Rightarrow>
                let errs = (if date_lt issue d14 then errs @ [IssueBefore14] else errs);
                    errs = (if \<not> (date_le MIN_BIRTH birth \<and> date_le birth (MAX_BIRTH g))
                            then errs @ [BirthOutOfRange MIN_BIRTH (MAX_BIRTH g)] else errs);
                    errs = (if \<not> (date_le MIN_ISSUE issue \<and> date_le issue (MAX_ISSUE g))
                            then errs @ [IssueOutOfRange MIN_ISSUE (MAX_ISSUE g)] else errs)
                in Inr errs)"

text \<open>
  The rules as the specification lists them: each rule is a condition that must hold and
  the message of its violation. The elapsed years and the date \<open>d14\<close> are the results
  of the two library calls; \<open>max_birth\<close> and \<open>max_issue\<close> are the upper bounds of the
  two range rules. \<open>violated\<close> keeps the messages of the rules that do not hold, and
  \<open>validate_spec\<close> is the reading of the specification, where both bounds are
  \<^verbatim>\<open>today\<close>.
\<close>

definition validation_rules ::
    "date \<Rightarrow> date \<Rightarrow> date \<Rightarrow> date \<Rightarrow> date \<Rightarrow> int \<Rightarrow> date \<Rightarrow> (bool \<times> message) list" where
  "validation_rules max_birth max_issue birth issue today years d14 =
     [(date_le birth today, BirthInFuture),
      (date_le issue today, IssueInFuture),
      (date_le birth issue, IssueBeforeBirth),
      (years \<ge> 14, Under14),
      (date_le d14 issue, IssueBefore14),
      (date_le MIN_BIRTH birth \<and> date_le birth max_birth, BirthOutOfRange MIN_BIRTH max_birth),
      (date_le MIN_ISSUE issue \<and> date_le issue max_issue, IssueOutOfRange MIN_ISSUE max_issue)]"

definition violated :: "(bool \<times> message) list \<Rightarrow> message list" where
  "violated rules = map snd (filter (\<lambda>r. \<not> fst r) rules)"

definition validate_spec :: "date \<Rightarrow> date \<Rightarrow> date \<Rightarrow> int \<Rightarrow> date \<Rightarrow> message list" where
  "validate_spec birth issue today years d14 =
     violated (validation_rules today today birth issue today years d14)"

section \<open>The compliance template tool\<close>

text \<open>
  The texts of \<^verbatim>\<open>intro_texts\<close>, \<^verbatim>\<open>closing_texts\<close> and \<^verbatim>\<open>blocks\<close>, and the two
  placeholders of \<^verbatim>\<open>compliance_app\<close>, as the UTF-8 bytes of the literals.
\<close>

definition intro_Russian :: string where
  "intro_Russian =
     [CHR 0xD0, CHR 0x94, CHR 0xD0, CHR 0xBE, CHR 0xD0, CHR 0xB1, CHR 0xD1, CHR 0x80] @
     [CHR 0xD1, CHR 0x8B, CHR 0xD0, CHR 0xB9] @
     '' '' @
     [CHR 0xD0, CHR 0xB4, CHR 0xD0, CHR 0xB5, CHR 0xD0, CHR 0xBD, CHR 0xD1, CHR 0x8C] @
     '',\<newline>\<newline>'' @
     [CHR 0xD0, CHR 0xB2] @
     '' '' @
     [CHR 0xD1, CHR 0x81, CHR 0xD0, CHR 0xBE, CHR 0xD0, CHR 0xBE, CHR 0xD1, CHR 0x82] @
     [CHR 0xD0, CHR 0xB2, CHR 0xD0, CHR 0xB5, CHR 0xD1, CHR 0x82, CHR 0xD1, CHR 0x81] @
     [CHR 0xD1, CHR 0x82, CHR 0xD0, CHR 0xB2, CHR 0xD0, CHR 0xB8, CHR 0xD0, CHR 0xB8] @
     '' '' @
     [CHR 0xD1, CHR 0x81] @
     '' '' @
     [CHR 0xD1, CHR 0x82, CHR 0xD1, CHR 0x80, CHR 0xD0, CHR 0xB5, CHR 0xD0, CHR 0xB1] @
     [CHR 0xD0, CHR 0xBE, CHR 0xD0, CHR 0xB2, CHR 0xD0, CHR 0xB0, CHR 0xD0, CHR 0xBD] @
     [CHR 0xD0, CHR 0xB8, CHR 0xD1, CHR 0x8F, CHR 0xD0, CHR 0xBC, CHR 0xD0, CHR 0xB8] @
     '' '' @
     [CHR 0xD1, CHR 0x80, CHR 0xD0, CHR 0xB5, CHR 0xD0, CHR 0xB3, CHR 0xD1, CHR 0x83] @
     [CHR 0xD0, CHR 0xBB, CHR 0xD1, CHR 0x8F, CHR 0xD1, CHR 0x82, CHR 0xD0, CHR 0xBE] @
     [CHR 0xD1, CHR 0x80, CHR 0xD0, CHR 0xB0] @
     '' FSC '' @
     [CHR 0xD0, CHR 0x91, CHR 0xD0, CHR 0xB5, CHR 0xD0, CHR 0xBB, CHR 0xD0, CHR 0xB8] @
     [CHR 0xD0, CHR 0xB7, CHR 0xD0, CHR 0xB0] @
     '' '' @
     [CHR 0xD0, CHR 0xB8] @
     '' '' @
     [CHR 0xD0, CHR 0xB7, CHR 0xD0, CHR 0xB0, CHR 0xD0, CHR 0xBA, CHR 0xD0, CHR 0xBE] @
     [CHR 0xD0, CHR 0xBD, CHR 0xD0, CHR 0xBE, CHR 0xD0, CHR 0xB4, CHR 0xD0, CHR 0xB0] @
     [CHR 0xD1, CHR 0x82, CHR 0xD0, CHR 0xB5, CHR 0xD0, CHR 0xBB, CHR 0xD1, CHR 0x8C] @
     [CHR 0xD1, CHR 0x81, CHR 0xD1, CHR 0x82, CHR 0xD0, CHR 0xB2, CHR 0xD0, CHR 0xBE] @
     [CHR 0xD0, CHR 0xBC] @
     '' '' @
     [CHR 0xD0, CHR 0xBF, CHR 0xD0, CHR 0xBE] @
     '' '' @
     [CHR 0xD0, CHR 0xB1, CHR 0xD0, CHR 0xBE, CHR 0xD1, CHR 0x80, CHR 0xD1, CHR 0x8C] @
     [CHR 0xD0, CHR 0xB1, CHR 0xD0, CHR 0xB5] @
     '' '' @
     [CHR 0xD1, CHR 0x81] @
     '' '' @
     [CHR 0xD0, CHR 0xBE, CHR 0xD1, CHR 0x82, CHR 0xD0, CHR 0xBC, CHR 0xD1, CHR 0x8B] @
     [CHR 0xD0, CHR 0xB2, CHR 0xD0, CHR 0xB0, CHR 0xD0, CHR 0xBD, CHR 0xD0, CHR 0xB8] @
     [CHR 0xD0, CHR 0xB5, CHR 0xD0, CHR 0xBC] @
     '' '' @
     [CHR 0xD0, CHR 0xB4, CHR 0xD0, CHR 0xB5, CHR 0xD0, CHR 0xBD, CHR 0xD0, CHR 0xB5] @
     [CHR 0xD0, CHR 0xB6, CHR 0xD0, CHR 0xBD, CHR 0xD1, CHR 0x8B, CHR 0xD1, CHR 0x85] @
     '' '' @
     [CHR 0xD1, CHR 0x81, CHR 0xD1, CHR 0x80, CHR 0xD0, CHR 0xB5, CHR 0xD0, CHR 0xB4] @
     [CHR 0xD1, CHR 0x81, CHR 0xD1, CHR 0x82, CHR 0xD0, CHR 0xB2] @
     '' RoboForex Ltd '' @
     [CHR 0xD0, CHR 0xBE, CHR 0xD0, CHR 0xB1, CHR 0xD1, CHR 0x8F, CHR 0xD0, CHR 0xB7] @
     [CHR 0xD0, CHR 0xB0, CHR 0xD0, CHR 0xBD, CHR 0xD0, CHR 0xB0] @
     '' '' @
     [CHR 0xD0, CHR 0xBD, CHR 0xD0, CHR 0xB0] @
     '' '' @
     [CHR 0xD1, CHR 0x80, CHR 0xD0, CHR 0xB5, CHR 0xD0, CHR 0xB3, CHR 0xD1, CHR 0x83] @
     [CHR 0xD0, CHR 0xBB, CHR 0xD1, CHR 0x8F, CHR 0xD1, CHR 0x80, CHR 0xD0, CHR 0xBD] @
     [CHR 0xD0, CHR 0xBE, CHR 0xD0, CHR 0xB9] @
     '' '' @
     [CHR 0xD0, CHR 0xBE, CHR 0xD1, CHR 0x81, CHR 0xD0, CHR 0xBD, CHR 0xD0, CHR 0xBE] @
     [CHR 0xD0, CHR 0xB2, CHR 0xD0, CHR 0xB5] @
     '' '' @
     [CHR 0xD0, CHR 0xBE, CHR 0xD1, CHR 0x81, CHR 0xD1, CHR 0x83, CHR 0xD1, CHR 0x89] @
     [CHR 0xD0, CHR 0xB5, CHR 0xD1, CHR 0x81, CHR 0xD1, CHR 0x82, CHR 0xD0, CHR 0xB2] @
     [CHR 0xD0, CHR 0xBB, CHR 0xD1, CHR 0x8F, CHR 0xD1, CHR 0x82, CHR 0xD1, CHR 0x8C] @
     '' '' @
     [CHR 0xD0, CHR 0xBF, CHR 0xD0, CHR 0xBE, CHR 0xD1, CHR 0x81, CHR 0xD1, CHR 0x82] @
     [CHR 0xD0, CHR 0xBE, CHR 0xD1, CHR 0x8F, CHR 0xD0, CHR 0xBD, CHR 0xD0, CHR 0xBD] @
     [CHR 0xD1, CHR 0x83, CHR 0xD1, CHR 0x8E] @
     '' '' @
     [CHR 0xD0, CHR 0xBF, CHR 0xD1, CHR 0x80, CHR 0xD0, CHR 0xBE, CHR 0xD0, CHR 0xB2] @
     [CHR 0xD0, CHR 0xB5, CHR 0xD1, CHR 0x80, CHR 0xD0, CHR 0xBA, CHR 0xD1, CHR 0x83] @
     '' '' @
     [CHR 0xD0, CHR 0xB8] @
     '' '' @
     [CHR 0xD0, CHR 0xBC, CHR 0xD0, CHR 0xBE, CHR 0xD0, CHR 0xBD, CHR 0xD0, CHR 0xB8] @
     [CHR 0xD1, CHR 0x82, CHR 0xD0, CHR 0xBE, CHR 0xD1, CHR 0x80, CHR 0xD0, CHR 0xB8] @
     [CHR 0xD0, CHR 0xBD, CHR 0xD0, CHR 0xB3] @
     '' '' @
     [CHR 0xD0, CHR 0xBB, CHR 0xD0, CHR 0xB8, CHR 0xD1, CHR 0x87, CHR 0xD0, CHR 0xBD] @
     [CHR 0xD0, CHR 0xBE, CHR 0xD0, CHR 0xB9] @
     '' '' @
     [CHR 0xD0, CHR 0xB8, CHR 0xD0, CHR 0xBD, CHR 0xD1, CHR 0x84, CHR 0xD0, CHR 0xBE] @
     [CHR 0xD1, CHR 0x80, CHR 0xD0, CHR 0xBC, CHR 0xD0, CHR 0xB0, CHR 0xD1, CHR 0x86] @
     [CHR 0xD0, CHR 0xB8, CHR 0xD0, CHR 0xB8] @
     '' '' @
     [CHR 0xD1, CHR 0x81, CHR 0xD0, CHR 0xB2, CHR 0xD0, CHR 0xBE, CHR 0xD0, CHR 0xB8] @
     [CHR 0xD1, CHR 0x85] @
     '' '' @
     [CHR 0xD0, CHR 0xBA, CHR 0xD0, CHR 0xBB, CHR 0xD0, CHR 0xB8, CHR 0xD0, CHR 0xB5] @
     [CHR 0xD0, CHR 0xBD, CHR 0xD1, CHR 0x82, CHR 0xD0, CHR 0xBE, CHR 0xD0, CHR 0xB2] @
     ''.''"

definition intro_English :: string where
  "intro_English =
     ''Hello,\<newline>\<newline>in accordance with the requirements of the FSC Belize regulator and anti-money laundering legislation, RoboForex Ltd is obliged to regularly verify and monitor the personal information of its clients.''"

definition closing_Russian :: string where
  "closing_Russian =
     [CHR 0xD0, CHR 0x9C, CHR 0xD1, CHR 0x8B] @
     '' '' @
     [CHR 0xD1, CHR 0x86, CHR 0xD0, CHR 0xB5, CHR 0xD0, CHR 0xBD, CHR 0xD0, CHR 0xB8] @
     [CHR 0xD0, CHR 0xBC] @
     '' '' @
     [CHR 0xD0, CHR 0xB2, CHR 0xD0, CHR 0xB0, CHR 0xD1, CHR 0x88, CHR 0xD0, CHR 0xB5] @
     '' '' @
     [CHR 0xD1, CHR 0x81, CHR 0xD0, CHR 0xBE, CHR 0xD1, CHR 0x82, CHR 0xD1, CHR 0x80] @
     [CHR 0xD1, CHR 0x83, CHR 0xD0, CHR 0xB4, CHR 0xD0, CHR 0xBD, CHR 0xD0, CHR 0xB8] @
     [CHR 0xD1, CHR 0x87, CHR 0xD0, CHR 0xB5, CHR 0xD1, CHR 0x81, CHR 0xD1, CHR 0x82] @
     [CHR 0xD0, CHR 0xB2, CHR 0xD0, CHR 0xBE] @
     ''.\<newline>\<newline>'' @
     [CHR 0xD0, CHR 0x95, CHR 0xD1, CHR 0x81, CHR 0xD0, CHR 0xBB, CHR 0xD0, CHR 0xB8] @
     '' '' @
     [CHR 0xD1, CHR 0x83] @
     '' '' @
     [CHR 0xD0, CHR 0xB2, CHR 0xD0, CHR 0xB0, CHR 0xD1, CHR 0x81] @
     '' '' @
     [CHR 0xD0, CHR 0xB5, CHR 0xD1, CHR 0x81, CHR 0xD1, CHR 0x82, CHR 0xD1, CHR 0x8C] @
     '' '' @
     [CHR 0xD0, CHR 0xBA, CHR 0xD0, CHR 0xB0, CHR 0xD0, CHR 0xBA, CHR 0xD0, CHR 0xB8] @
     [CHR 0xD0, CHR 0xB5] @
     ''-'' @
     [CHR 0xD0, CHR 0xBB, CHR 0xD0, CHR 0xB8, CHR 0xD0, CHR 0xB1, CHR 0xD0, CHR 0xBE] @
     '' '' @
     [CHR 0xD0, CHR 0xB2, CHR 0xD0, CHR 0xBE, CHR 0xD0, CHR 0xBF, CHR 0xD1, CHR 0x80] @
     [CHR 0xD0, CHR 0xBE, CHR 0xD1, CHR 0x81, CHR 0xD1, CHR 0x8B] @
     '', '' @
     [CHR 0xD0, CHR 0xBF, CHR 0xD0, CHR 0xBE, CHR 0xD0, CHR 0xB6, CHR 0xD0, CHR 0xB0] @
     [CHR 0xD0, CHR 0xBB, CHR 0xD1, CHR 0x83, CHR 0xD0, CHR 0xB9, CHR 0xD1, CHR 0x81] @
     [CHR 0xD1, CHR 0x82, CHR 0xD0, CHR 0xB0] @
     '', '' @
     [CHR 0xD1, CHR 0x81, CHR 0xD0, CHR 0xB2, CHR 0xD1, CHR 0x8F, CHR 0xD0, CHR 0xB6] @
     [CHR 0xD0, CHR 0xB8, CHR 0xD1, CHR 0x82, CHR 0xD0, CHR 0xB5, CHR 0xD1, CHR 0x81] @
     [CHR 0xD1, CHR 0x8C] @
     '' '' @
     [CHR 0xD1, CHR 0x81] @
     '' '' @
     [CHR 0xD0, CHR 0xBD, CHR 0xD0, CHR 0xB0, CHR 0xD0, CHR 0xBC, CHR 0xD0, CHR 0xB8] @
     ''.\<newline>\<newline>'' @
     [CHR 0xD0, CHR 0xA1] @
     '' '' @
     [CHR 0xD1, CHR 0x83, CHR 0xD0, CHR 0xB2, CHR 0xD0, CHR 0xB0, CHR 0xD0, CHR 0xB6] @
     [CHR 0xD0, CHR 0xB5, CHR 0xD0, CHR 0xBD, CHR 0xD0, CHR 0xB8, CHR 0xD0, CHR 0xB5] @
     [CHR 0xD0, CHR 0xBC] @
     '',''"

definition closing_English :: string where
  "closing_English =
     ''We appreciate your cooperation.\<newline>\<newline>If you have any questions, please contact us.\<newline>\<newline>Best regards,''"

definition SOF_Russian_lead :: string where
  "SOF_Russian_lead =
     [CHR 0xD0, CHR 0x92] @
     '' '' @
     [CHR 0xD1, CHR 0x81, CHR 0xD0, CHR 0xB2, CHR 0xD1, CHR 0x8F, CHR 0xD0, CHR 0xB7] @
     [CHR 0xD0, CHR 0xB8] @
     '' '' @
     [CHR 0xD1, CHR 0x81] @
     '' '' @
     [CHR 0xD1, CHR 0x8D, CHR 0xD1, CHR 0x82, CHR 0xD0, CHR 0xB8, CHR 0xD0, CHR 0xBC] @
     '', '' @
     [CHR 0xD0, CHR 0xBC, CHR 0xD1, CHR 0x8B] @
     '' '' @
     [CHR 0xD0, CHR 0xBF, CHR 0xD1, CHR 0x80, CHR 0xD0, CHR 0xBE, CHR 0xD1, CHR 0x81] @
     [CHR 0xD0, CHR 0xB8, CHR 0xD0, CHR 0xBC] @
     '' '' @
     [CHR 0xD0, CHR 0xB2, CHR 0xD0, CHR 0xB0, CHR 0xD1, CHR 0x81] @
     '' '' @
     [CHR 0xD0, CHR 0xBF, CHR 0xD1, CHR 0x80, CHR 0xD0, CHR 0xB5, CHR 0xD0, CHR 0xB4] @
     [CHR 0xD0, CHR 0xBE, CHR 0xD1, CHR 0x81, CHR 0xD1, CHR 0x82, CHR 0xD0, CHR 0xB0] @
     [CHR 0xD0, CHR 0xB2, CHR 0xD0, CHR 0xB8, CHR 0xD1, CHR 0x82, CHR 0xD1, CHR 0x8C] @
     '' '' @
     [CHR 0xD0, CHR 0xB8, CHR 0xD0, CHR 0xBD, CHR 0xD1, CHR 0x84, CHR 0xD0, CHR 0xBE] @
     [CHR 0xD1, CHR 0x80, CHR 0xD0, CHR 0xBC, CHR 0xD0, CHR 0xB0, CHR 0xD1, CHR 0x86] @
     [CHR 0xD0, CHR 0xB8, CHR 0xD1, CHR 0x8E] @
     '' '' @
     [CHR 0xD0, CHR 0xBE, CHR 0xD0, CHR 0xB1] @
     '' '' @
     [CHR 0xD0, CHR 0xB8, CHR 0xD1, CHR 0x81, CHR 0xD1, CHR 0x82, CHR 0xD0, CHR 0xBE] @
     [CHR 0xD1, CHR 0x87, CHR 0xD0, CHR 0xBD, CHR 0xD0, CHR 0xB8, CHR 0xD0, CHR 0xBA] @
     [CHR 0xD0, CHR 0xB5] @
     '' '' @
     [CHR 0xD1, CHR 0x81, CHR 0xD1, CHR 0x80, CHR 0xD0, CHR 0xB5, CHR 0xD0, CHR 0xB4] @
     [CHR 0xD1, CHR 0x81, CHR 0xD1, CHR 0x82, CHR 0xD0, CHR 0xB2] @
     '', '' @
     [CHR 0xD0, CHR 0xBA, CHR 0xD0, CHR 0xBE, CHR 0xD1, CHR 0x82, CHR 0xD0, CHR 0xBE] @
     [CHR 0xD1, CHR 0x80, CHR 0xD1, CHR 0x8B, CHR 0xD0, CHR 0xB5] @
     '' '' @
     [CHR 0xD0, CHR 0xB1, CHR 0xD1, CHR 0x8B, CHR 0xD0, CHR 0xBB, CHR 0xD0, CHR 0xB8] @
     '' '' @
     [CHR 0xD0, CHR 0xB7, CHR 0xD0, CHR 0xB0, CHR 0xD1, CHR 0x87, CHR 0xD0, CHR 0xB8] @
     [CHR 0xD1, CHR 0x81, CHR 0xD0, CHR 0xBB, CHR 0xD0, CHR 0xB5, CHR 0xD0, CHR 0xBD] @
     [CHR 0xD1, CHR 0x8B] @
     '' '' @
     [CHR 0xD0, CHR 0xBD, CHR 0xD0, CHR 0xB0] @
     '' '' @
     [CHR 0xD0, CHR 0xB2, CHR 0xD0, CHR 0xB0, CHR 0xD1, CHR 0x88, CHR 0xD0, CHR 0xB8] @
     '' '' @
     [CHR 0xD1, CHR 0x82, CHR 0xD0, CHR 0xBE, CHR 0xD1, CHR 0x80, CHR 0xD0, CHR 0xB3] @
     [CHR 0xD0, CHR 0xBE, CHR 0xD0, CHR 0xB2, CHR 0xD1, CHR 0x8B, CHR 0xD0, CHR 0xB5] @
     '' '' @
     [CHR 0xD1, CHR 0x81, CHR 0xD1, CHR 0x87, CHR 0xD0, CHR 0xB5, CHR 0xD1, CHR 0x82] @
     [CHR 0xD0, CHR 0xB0] @
     '' '' @
     [CHR 0xD0, CHR 0xB2] @
     '' RoboForex Ltd.''"

definition SOF_Russian_add :: string where
  "SOF_Russian_add =
     [CHR 0xD0, CHR 0xA2, CHR 0xD0, CHR 0xB0, CHR 0xD0, CHR 0xBA, CHR 0xD0, CHR 0xB6] @
     [CHR 0xD0, CHR 0xB5] @
     '', '' @
     [CHR 0xD0, CHR 0xBF, CHR 0xD0, CHR 0xBE, CHR 0xD0, CHR 0xB6, CHR 0xD0, CHR 0xB0] @
     [CHR 0xD0, CHR 0xBB, CHR 0xD1, CHR 0x83, CHR 0xD0, CHR 0xB9, CHR 0xD1, CHR 0x81] @
     [CHR 0xD1, CHR 0x82, CHR 0xD0, CHR 0xB0] @
     '', '' @
     [CHR 0xD0, CHR 0xBF, CHR 0xD1, CHR 0x80, CHR 0xD0, CHR 0xB5, CHR 0xD0, CHR 0xB4] @
     [CHR 0xD0, CHR 0xBE, CHR 0xD1, CHR 0x81, CHR 0xD1, CHR 0x82, CHR 0xD0, CHR 0xB0] @
     [CHR 0xD0, CHR 0xB2, CHR 0xD1, CHR 0x8C, CHR 0xD1, CHR 0x82, CHR 0xD0, CHR 0xB5] @
     '' '' @
     [CHR 0xD0, CHR 0xB8, CHR 0xD0, CHR 0xBD, CHR 0xD1, CHR 0x84, CHR 0xD0, CHR 0xBE] @
     [CHR 0xD1, CHR 0x80, CHR 0xD0, CHR 0xBC, CHR 0xD0, CHR 0xB0, CHR 0xD1, CHR 0x86] @
     [CHR 0xD0, CHR 0xB8, CHR 0xD1, CHR 0x8E] @
     '' '' @
     [CHR 0xD0, CHR 0xBE, CHR 0xD0, CHR 0xB1] @
     '' '' @
     [CHR 0xD0, CHR 0xB8, CHR 0xD1, CHR 0x81, CHR 0xD1, CHR 0x82, CHR 0xD0, CHR 0xBE] @
     [CHR 0xD1, CHR 0x87, CHR 0xD0, CHR 0xBD, CHR 0xD0, CHR 0xB8, CHR 0xD0, CHR 0xBA] @
     [CHR 0xD0, CHR 0xB5] @
     '' '' @
     [CHR 0xD1, CHR 0x81, CHR 0xD1, CHR 0x80, CHR 0xD0, CHR 0xB5, CHR 0xD0, CHR 0xB4] @
     [CHR 0xD1, CHR 0x81, CHR 0xD1, CHR 0x82, CHR 0xD0, CHR 0xB2] @
     '', '' @
     [CHR 0xD0, CHR 0xBA, CHR 0xD0, CHR 0xBE, CHR 0xD1, CHR 0x82, CHR 0xD0, CHR 0xBE] @
     [CHR 0xD1, CHR 0x80, CHR 0xD1, CHR 0x8B, CHR 0xD0, CHR 0xB5] @
     '' '' @
     [CHR 0xD0, CHR 0xB1, CHR 0xD1, CHR 0x8B, CHR 0xD0, CHR 0xBB, CHR 0xD0, CHR 0xB8] @
     '' '' @
     [CHR 0xD0, CHR 0xB7, CHR 0xD0, CHR 0xB0, CHR 0xD1, CHR 0x87, CHR 0xD0, CHR 0xB8] @
     [CHR 0xD1, CHR 0x81, CHR 0xD0, CHR 0xBB, CHR 0xD0, CHR 0xB5, CHR 0xD0, CHR 0xBD] @
     [CHR 0xD1, CHR 0x8B] @
     '' '' @
     [CHR 0xD0, CHR 0xBD, CHR 0xD0, CHR 0xB0] @
     '' '' @
     [CHR 0xD0, CHR 0xB2, CHR 0xD0, CHR 0xB0, CHR 0xD1, CHR 0x88, CHR 0xD0, CHR 0xB8] @
     '' '' @
     [CHR 0xD1, CHR 0x82, CHR 0xD0, CHR 0xBE, CHR 0xD1, CHR 0x80, CHR 0xD0, CHR 0xB3] @
     [CHR 0xD0, CHR 0xBE, CHR 0xD0, CHR 0xB2, CHR 0xD1, CHR 0x8B, CHR 0xD0, CHR 0xB5] @
     '' '' @
     [CHR 0xD1, CHR 0x81, CHR 0xD1, CHR 0x87, CHR 0xD0, CHR 0xB5, CHR 0xD1, CHR 0x82] @
     [CHR 0xD0, CHR 0xB0] @
     '' '' @
     [CHR 0xD0, CHR 0xB2] @
     '' RoboForex Ltd.''"

definition SOF_Russian_final :: string where
  "SOF_Russian_final =
     [CHR 0xD0, CHR 0x9F, CHR 0xD0, CHR 0xBE, CHR 0xD0, CHR 0xBC, CHR 0xD0, CHR 0xB8] @
     [CHR 0xD0, CHR 0xBC, CHR 0xD0, CHR 0xBE] @
     '' '' @
     [CHR 0xD1, CHR 0x8D, CHR 0xD1, CHR 0x82, CHR 0xD0, CHR 0xBE, CHR 0xD0, CHR 0xB3] @
     [CHR 0xD0, CHR 0xBE] @
     '', '' @
     [CHR 0xD0, CHR 0xBF, CHR 0xD0, CHR 0xBE, CHR 0xD0, CHR 0xB6, CHR 0xD0, CHR 0xB0] @
     [CHR 0xD0, CHR 0xBB, CHR 0xD1, CHR 0x83, CHR 0xD0, CHR 0xB9, CHR 0xD1, CHR 0x81] @
     [CHR 0xD1, CHR 0x82, CHR 0xD0, CHR 0xB0] @
     '', '' @
     [CHR 0xD0, CHR 0xBF, CHR 0xD1, CHR 0x80, CHR 0xD0, CHR 0xB5, CHR 0xD0, CHR 0xB4] @
     [CHR 0xD0, CHR 0xBE, CHR 0xD1, CHR 0x81, CHR 0xD1, CHR 0x82, CHR 0xD0, CHR 0xB0] @
     [CHR 0xD0, CHR 0xB2, CHR 0xD1, CHR 0x8C, CHR 0xD1, CHR 0x82, CHR 0xD0, CHR 0xB5] @
     '' '' @
     [CHR 0xD0, CHR 0xB8, CHR 0xD0, CHR 0xBD, CHR 0xD1, CHR 0x84, CHR 0xD0, CHR 0xBE] @
     [CHR 0xD1, CHR 0x80, CHR 0xD0, CHR 0xBC, CHR 0xD0, CHR 0xB0, CHR 0xD1, CHR 0x86] @
     [CHR 0xD0, CHR 0xB8, CHR 0xD1, CHR 0x8E] @
     '' '' @
     [CHR 0xD0, CHR 0xBE, CHR 0xD0, CHR 0xB1] @
     '' '' @
     [CHR 0xD0, CHR 0xB8, CHR 0xD1, CHR 0x81, CHR 0xD1, CHR 0x82, CHR 0xD0, CHR 0xBE] @
     [CHR 0xD1, CHR 0x87, CHR 0xD0, CHR 0xBD, CHR 0xD0, CHR 0xB8, CHR 0xD0, CHR 0xBA] @
     [CHR 0xD0, CHR 0xB5] @
     '' '' @
     [CHR 0xD1, CHR 0x81, CHR 0xD1, CHR 0x80, CHR 0xD0, CHR 0xB5, CHR 0xD0, CHR 0xB4] @
     [CHR 0xD1, CHR 0x81, CHR 0xD1, CHR 0x82, CHR 0xD0, CHR 0xB2] @
     '', '' @
     [CHR 0xD0, CHR 0xBA, CHR 0xD0, CHR 0xBE, CHR 0xD1, CHR 0x82, CHR 0xD0, CHR 0xBE] @
     [CHR 0xD1, CHR 0x80, CHR 0xD1, CHR 0x8B, CHR 0xD0, CHR 0xB5] @
     '' '' @
     [CHR 0xD0, CHR 0xB1, CHR 0xD1, CHR 0x8B, CHR 0xD0, CHR 0xBB, CHR 0xD0, CHR 0xB8] @
     '' '' @
     [CHR 0xD0, CHR 0xB7, CHR 0xD0, CHR 0xB0, CHR 0xD1, CHR 0x87, CHR 0xD0, CHR 0xB8] @
     [CHR 0xD1, CHR 0x81, CHR 0xD0, CHR 0xBB, CHR 0xD0, CHR 0xB5, CHR 0xD0, CHR 0xBD] @
     [CHR 0xD1, CHR 0x8B] @
     '' '' @
     [CHR 0xD0, CHR 0xBD, CHR 0xD0, CHR 0xB0] @
     '' '' @
     [CHR 0xD0, CHR 0xB2, CHR 0xD0, CHR 0xB0, CHR 0xD1, CHR 0x88, CHR 0xD0, CHR 0xB8] @
     '' '' @
     [CHR 0xD1, CHR 0x82, CHR 0xD0, CHR 0xBE, CHR 0xD1, CHR 0x80, CHR 0xD0, CHR 0xB3] @
     [CHR 0xD0, CHR 0xBE, CHR 0xD0, CHR 0xB2, CHR 0xD1, CHR 0x8B, CHR 0xD0, CHR 0xB5] @
     '' '' @
     [CHR 0xD1, CHR 0x81, CHR 0xD1, CHR 0x87, CHR 0xD0, CHR 0xB5, CHR 0xD1, CHR 0x82] @
     [CHR 0xD0, CHR 0xB0] @
     '' '' @
     [CHR 0xD0, CHR 0xB2] @
     '' RoboForex Ltd.''"

definition SOF_Russian_rest :: string where
  "SOF_Russian_rest =
     ''\<newline>\<newline>'' @
     [CHR 0xD0, CHR 0x9F, CHR 0xD1, CHR 0x80, CHR 0xD0, CHR 0xB8, CHR 0xD0, CHR 0xBB] @
     [CHR 0xD0, CHR 0xB0, CHR 0xD0, CHR 0xB3, CHR 0xD0, CHR 0xB0, CHR 0xD0, CHR 0xB5] @
     [CHR 0xD0, CHR 0xBC] @
     '' '' @
     [CHR 0xD1, CHR 0x81, CHR 0xD0, CHR 0xBF, CHR 0xD0, CHR 0xB8, CHR 0xD1, CHR 0x81] @
     [CHR 0xD0, CHR 0xBE, CHR 0xD0, CHR 0xBA] @
     '' '' @
     [CHR 0xD0, CHR 0xB4, CHR 0xD0, CHR 0xBE, CHR 0xD0, CHR 0xBA, CHR 0xD1, CHR 0x83] @
     [CHR 0xD0, CHR 0xBC, CHR 0xD0, CHR 0xB5, CHR 0xD0, CHR 0xBD, CHR 0xD1, CHR 0x82] @
     [CHR 0xD0, CHR 0xBE, CHR 0xD0, CHR 0xB2] @
     '', '' @
     [CHR 0xD0, CHR 0xBA, CHR 0xD0, CHR 0xBE, CHR 0xD1, CHR 0x82, CHR 0xD0, CHR 0xBE] @
     [CHR 0xD1, CHR 0x80, CHR 0xD1, CHR 0x8B, CHR 0xD0, CHR 0xB5] @
     '' '' @
     [CHR 0xD0, CHR 0xBC, CHR 0xD0, CHR 0xBE, CHR 0xD0, CHR 0xB6, CHR 0xD0, CHR 0xBD] @
     [CHR 0xD0, CHR 0xBE] @
     '' '' @
     [CHR 0xD0, CHR 0xB8, CHR 0xD1, CHR 0x81, CHR 0xD0, CHR 0xBF, CHR 0xD0, CHR 0xBE] @
     [CHR 0xD0, CHR 0xBB, CHR 0xD1, CHR 0x8C, CHR 0xD0, CHR 0xB7, CHR 0xD0, CHR 0xBE] @
     [CHR 0xD0, CHR 0xB2, CHR 0xD0, CHR 0xB0, CHR 0xD1, CHR 0x82, CHR 0xD1, CHR 0x8C] @
     '' '' @
     [CHR 0xD0, CHR 0xB4, CHR 0xD0, CHR 0xBB, CHR 0xD1, CHR 0x8F] @
     '' '' @
     [CHR 0xD0, CHR 0xBF, CHR 0xD1, CHR 0x80, CHR 0xD0, CHR 0xBE, CHR 0xD0, CHR 0xB2] @
     [CHR 0xD0, CHR 0xB5, CHR 0xD1, CHR 0x80, CHR 0xD0, CHR 0xBA, CHR 0xD0, CHR 0xB8] @
     '' '' @
     [CHR 0xD0, CHR 0xBF, CHR 0xD1, CHR 0x80, CHR 0xD0, CHR 0xBE, CHR 0xD0, CHR 0xB8] @
     [CHR 0xD1, CHR 0x81, CHR 0xD1, CHR 0x85, CHR 0xD0, CHR 0xBE, CHR 0xD0, CHR 0xB6] @
     [CHR 0xD0, CHR 0xB4, CHR 0xD0, CHR 0xB5, CHR 0xD0, CHR 0xBD, CHR 0xD0, CHR 0xB8] @
     [CHR 0xD1, CHR 0x8F] @
     '' '' @
     [CHR 0xD1, CHR 0x81, CHR 0xD1, CHR 0x80, CHR 0xD0, CHR 0xB5, CHR 0xD0, CHR 0xB4] @
     [CHR 0xD1, CHR 0x81, CHR 0xD1, CHR 0x82, CHR 0xD0, CHR 0xB2] @
     ''.\<newline>\<newline>'' @
     [CHR 0xD0, CHR 0x92, CHR 0xD1, CHR 0x8B] @
     '' '' @
     [CHR 0xD0, CHR 0xBC, CHR 0xD0, CHR 0xBE, CHR 0xD0, CHR 0xB6, CHR 0xD0, CHR 0xB5] @
     [CHR 0xD1, CHR 0x82, CHR 0xD0, CHR 0xB5] @
     '' '' @
     [CHR 0xD0, CHR 0xBF, CHR 0xD1, CHR 0x80, CHR 0xD0, CHR 0xB5, CHR 0xD0, CHR 0xB4] @
     [CHR 0xD0, CHR 0xBE, CHR 0xD1, CHR 0x81, CHR 0xD1, CHR 0x82, CHR 0xD0, CHR 0xB0] @
     [CHR 0xD0, CHR 0xB2, CHR 0xD0, CHR 0xB8, CHR 0xD1, CHR 0x82, CHR 0xD1, CHR 0x8C] @
     '' '' @
     [CHR 0xD0, CHR 0xBD, CHR 0xD0, CHR 0xB0, CHR 0xD0, CHR 0xBC] @
     '' '' @
     [CHR 0xD0, CHR 0xBB, CHR 0xD1, CHR 0x8E, CHR 0xD0, CHR 0xB1, CHR 0xD1, CHR 0x8B] @
     [CHR 0xD0, CHR 0xB5] @
     '' '' @
     [CHR 0xD0, CHR 0xB4, CHR 0xD0, CHR 0xBE, CHR 0xD0, CHR 0xBA, CHR 0xD1, CHR 0x83] @
     [CHR 0xD0, CHR 0xBC, CHR 0xD0, CHR 0xB5, CHR 0xD0, CHR 0xBD, CHR 0xD1, CHR 0x82] @
     [CHR 0xD1, CHR 0x8B] @
     '', '' @
     [CHR 0xD1, CHR 0x82, CHR 0xD0, CHR 0xB0, CHR 0xD0, CHR 0xBA, CHR 0xD0, CHR 0xB8] @
     [CHR 0xD0, CHR 0xB5] @
     '' '' @
     [CHR 0xD0, CHR 0xBA, CHR 0xD0, CHR 0xB0, CHR 0xD0, CHR 0xBA] @
     '': '' @
     [CHR 0xD1, CHR 0x81, CHR 0xD0, CHR 0xBF, CHR 0xD1, CHR 0x80, CHR 0xD0, CHR 0xB0] @
     [CHR 0xD0, CHR 0xB2, CHR 0xD0, CHR 0xBA, CHR 0xD0, CHR 0xB8] @
     '' '' @
     [CHR 0xD0, CHR 0xBE] @
     '' '' @
     [CHR 0xD0, CHR 0xB7, CHR 0xD0, CHR 0xB0, CHR 0xD1, CHR 0x80, CHR 0xD0, CHR 0xBF] @
     [CHR 0xD0, CHR 0xBB, CHR 0xD0, CHR 0xB0, CHR 0xD1, CHR 0x82, CHR 0xD0, CHR 0xB5] @
     '', '' @
     [CHR 0xD0, CHR 0xBD, CHR 0xD0, CHR 0xB0, CHR 0xD0, CHR 0xBB, CHR 0xD0, CHR 0xBE] @
     [CHR 0xD0, CHR 0xB3, CHR 0xD0, CHR 0xBE, CHR 0xD0, CHR 0xB2, CHR 0xD1, CHR 0x8B] @
     [CHR 0xD0, CHR 0xB5] @
     '' '' @
     [CHR 0xD0, CHR 0xB4, CHR 0xD0, CHR 0xB5, CHR 0xD0, CHR 0xBA, CHR 0xD0, CHR 0xBB] @
     [CHR 0xD0, CHR 0xB0, CHR 0xD1, CHR 0x80, CHR 0xD0, CHR 0xB0, CHR 0xD1, CHR 0x86] @
     [CHR 0xD0, CHR 0xB8, CHR 0xD0, CHR 0xB8] @
     '', '' @
     [CHR 0xD0, CHR 0xB4, CHR 0xD0, CHR 0xBE, CHR 0xD1, CHR 0x85, CHR 0xD0, CHR 0xBE] @
     [CHR 0xD0, CHR 0xB4, CHR 0xD1, CHR 0x8B] @
     '' '' @
     [CHR 0xD0, CHR 0xBE, CHR 0xD1, CHR 0x82] @
     '' '' @
     [CHR 0xD0, CHR 0xB1, CHR 0xD0, CHR 0xB8, CHR 0xD0, CHR 0xB7, CHR 0xD0, CHR 0xBD] @
     [CHR 0xD0, CHR 0xB5, CHR 0xD1, CHR 0x81, CHR 0xD0, CHR 0xB0] @
     '', '' @
     [CHR 0xD0, CHR 0xBF, CHR 0xD1, CHR 0x80, CHR 0xD0, CHR 0xBE, CHR 0xD0, CHR 0xB4] @
     [CHR 0xD0, CHR 0xB0, CHR 0xD0, CHR 0xB6, CHR 0xD0, CHR 0xB8] @
     '' '' @
     [CHR 0xD0, CHR 0xB8, CHR 0xD0, CHR 0xBC, CHR 0xD1, CHR 0x83, CHR 0xD1, CHR 0x89] @
     [CHR 0xD0, CHR 0xB5, CHR 0xD1, CHR 0x81, CHR 0xD1, CHR 0x82, CHR 0xD0, CHR 0xB2] @
     [CHR 0xD0, CHR 0xB0] @
     '' '' @
     [CHR 0xD0, CHR 0xB8] @
     '' '' @
     [CHR 0xD1, CHR 0x82] @
     ''. '' @
     [CHR 0xD0, CHR 0xB4] @
     ''. '' @
     [CHR 0xD0, CHR 0xB8, CHR 0xD0, CHR 0xBB, CHR 0xD0, CHR 0xB8] @
     '' '' @
     [CHR 0xD0, CHR 0xBB, CHR 0xD1, CHR 0x8E, CHR 0xD0, CHR 0xB1, CHR 0xD0, CHR 0xBE] @
     [CHR 0xD0, CHR 0xB9] @
     '' '' @
     [CHR 0xD0, CHR 0xB4, CHR 0xD1, CHR 0x80, CHR 0xD1, CHR 0x83, CHR 0xD0, CHR 0xB3] @
     [CHR 0xD0, CHR 0xBE, CHR 0xD0, CHR 0xB9] @
     '' '' @
     [CHR 0xD0, CHR 0xB4, CHR 0xD0, CHR 0xBE, CHR 0xD0, CHR 0xBA, CHR 0xD1, CHR 0x83] @
     [CHR 0xD0, CHR 0xBC, CHR 0xD0, CHR 0xB5, CHR 0xD0, CHR 0xBD, CHR 0xD1, CHR 0x82] @
     '', '' @
     [CHR 0xD1, CHR 0x83, CHR 0xD0, CHR 0xBA, CHR 0xD0, CHR 0xB0, CHR 0xD0, CHR 0xB7] @
     [CHR 0xD0, CHR 0xB0, CHR 0xD0, CHR 0xBD, CHR 0xD0, CHR 0xBD, CHR 0xD1, CHR 0x8B] @
     [CHR 0xD0, CHR 0xB9] @
     '' '' @
     [CHR 0xD0, CHR 0xB2] @
     '' '' @
     [CHR 0xD0, CHR 0xBF, CHR 0xD1, CHR 0x80, CHR 0xD0, CHR 0xB8, CHR 0xD0, CHR 0xBB] @
     [CHR 0xD0, CHR 0xB0, CHR 0xD0, CHR 0xB3, CHR 0xD0, CHR 0xB0, CHR 0xD0, CHR 0xB5] @
     [CHR 0xD0, CHR 0xBC, CHR 0xD0, CHR 0xBE, CHR 0xD0, CHR 0xBC] @
     '' '' @
     [CHR 0xD0, CHR 0xB4, CHR 0xD0, CHR 0xBE, CHR 0xD0, CHR 0xBA, CHR 0xD1, CHR 0x83] @
     [CHR 0xD0, CHR 0xBC, CHR 0xD0, CHR 0xB5, CHR 0xD0, CHR 0xBD, CHR 0xD1, CHR 0x82] @
     [CHR 0xD0, CHR 0xB5] @
     ''.''"

definition SOF_English_lead :: string where
  "SOF_English_lead =
     ''In this regard, we ask you to provide information on the source of funds credited to your trading accounts with RoboForex Ltd.''"

definition SOF_English_add :: string where
  "SOF_English_add =
     ''Additionally, please provide information on the source of funds credited to your trading accounts with RoboForex Ltd.''"

definition SOF_English_final :: string where
  "SOF_English_final =
     ''Moreover, please provide information on the source of funds credited to your trading accounts with RoboForex Ltd.''"

definition SOF_English_rest :: string where
  "SOF_English_rest =
     ''\<newline>\<newline>Attached is a list of documents that can be used to verify the origin of funds.\<newline>\<newline>You can provide us with any documents, such as salary certificates, tax returns, business income, property sales, etc., or any other document specified in the attached document.''"

definition ID_Russian_lead :: string where
  "ID_Russian_lead =
     [CHR 0xD0, CHR 0x92] @
     '' '' @
     [CHR 0xD1, CHR 0x81, CHR 0xD0, CHR 0xB2, CHR 0xD1, CHR 0x8F, CHR 0xD0, CHR 0xB7] @
     [CHR 0xD0, CHR 0xB8] @
     '' '' @
     [CHR 0xD1, CHR 0x81] @
     '' '' @
     [CHR 0xD1, CHR 0x8D, CHR 0xD1, CHR 0x82, CHR 0xD0, CHR 0xB8, CHR 0xD0, CHR 0xBC] @
     '', '' @
     [CHR 0xD0, CHR 0xBC, CHR 0xD1, CHR 0x8B] @
     '' '' @
     [CHR 0xD0, CHR 0xBF, CHR 0xD1, CHR 0x80, CHR 0xD0, CHR 0xBE, CHR 0xD1, CHR 0x81] @
     [CHR 0xD0, CHR 0xB8, CHR 0xD0, CHR 0xBC] @
     '' '' @
     [CHR 0xD0, CHR 0xB2, CHR 0xD0, CHR 0xB0, CHR 0xD1, CHR 0x81] @
     '' '' @
     [CHR 0xD0, CHR 0xBF, CHR 0xD1, CHR 0x80, CHR 0xD0, CHR 0xB5, CHR 0xD0, CHR 0xB4] @
     [CHR 0xD0, CHR 0xBE, CHR 0xD1, CHR 0x81, CHR 0xD1, CHR 0x82, CHR 0xD0, CHR 0xB0] @
     [CHR 0xD0, CHR 0xB2, CHR 0xD0, CHR 0xB8, CHR 0xD1, CHR 0x82, CHR 0xD1, CHR 0x8C] @
     '' '' @
     [CHR 0xD1, CHR 0x81, CHR 0xD0, CHR 0xBA, CHR 0xD0, CHR 0xB0, CHR 0xD0, CHR 0xBD] @
     '' '' @
     [CHR 0xD0, CHR 0xB8, CHR 0xD0, CHR 0xBB, CHR 0xD0, CHR 0xB8] @
     '' '' @
     [CHR 0xD1, CHR 0x84, CHR 0xD0, CHR 0xBE, CHR 0xD1, CHR 0x82, CHR 0xD0, CHR 0xBE] @
     '' '' @
     [CHR 0xD0, CHR 0xB0, CHR 0xD0, CHR 0xBA, CHR 0xD1, CHR 0x82, CHR 0xD1, CHR 0x83] @
     [CHR 0xD0, CHR 0xB0, CHR 0xD0, CHR 0xBB, CHR 0xD1, CHR 0x8C, CHR 0xD0, CHR 0xBD] @
     [CHR 0xD0, CHR 0xBE, CHR 0xD0, CHR 0xB3, CHR 0xD0, CHR 0xBE] @
     '' '' @
     [CHR 0xD0, CHR 0xBF, CHR 0xD0, CHR 0xB0, CHR 0xD1, CHR 0x81, CHR 0xD0, CHR 0xBF] @
     [CHR 0xD0, CHR 0xBE, CHR 0xD1, CHR 0x80, CHR 0xD1, CHR 0x82, CHR 0xD0, CHR 0xB0] @
     '', '' @
     [CHR 0xD1, CHR 0x83, CHR 0xD0, CHR 0xB4, CHR 0xD0, CHR 0xBE, CHR 0xD1, CHR 0x81] @
     [CHR 0xD1, CHR 0x82, CHR 0xD0, CHR 0xBE, CHR 0xD0, CHR 0xB2, CHR 0xD0, CHR 0xB5] @
     [CHR 0xD1, CHR 0x80, CHR 0xD1, CHR 0x8F, CHR 0xD1, CHR 0x8E, CHR 0xD1, CHR 0x89] @
     [CHR 0xD0, CHR 0xB5, CHR 0xD0, CHR 0xB3, CHR 0xD0, CHR 0xBE] @
     '' '' @
     [CHR 0xD0, CHR 0xB2, CHR 0xD0, CHR 0xB0, CHR 0xD1, CHR 0x88, CHR 0xD1, CHR 0x83] @
     '' '' @
     [CHR 0xD0, CHR 0xBB, CHR 0xD0, CHR 0xB8, CHR 0xD1, CHR 0x87, CHR 0xD0, CHR 0xBD] @
     [CHR 0xD0, CHR 0xBE, CHR 0xD1, CHR 0x81, CHR 0xD1, CHR 0x82, CHR 0xD1, CHR 0x8C] @
     ''.''"

definition ID_Russian_add :: string where
  "ID_Russian_add =
     [CHR 0xD0, CHR 0xA2, CHR 0xD0, CHR 0xB0, CHR 0xD0, CHR 0xBA, CHR 0xD0, CHR 0xB6] @
     [CHR 0xD0, CHR 0xB5] @
     '', '' @
     [CHR 0xD0, CHR 0xBF, CHR 0xD0, CHR 0xBE, CHR 0xD0, CHR 0xB6, CHR 0xD0, CHR 0xB0] @
     [CHR 0xD0, CHR 0xBB, CHR 0xD1, CHR 0x83, CHR 0xD0, CHR 0xB9, CHR 0xD1, CHR 0x81] @
     [CHR 0xD1, CHR 0x82, CHR 0xD0, CHR 0xB0] @
     '', '' @
     [CHR 0xD0, CHR 0xBF, CHR 0xD1, CHR 0x80, CHR 0xD0, CHR 0xB5, CHR 0xD0, CHR 0xB4] @
     [CHR 0xD0, CHR 0xBE, CHR 0xD1, CHR 0x81, CHR 0xD1, CHR 0x82, CHR 0xD0, CHR 0xB0] @
     [CHR 0xD0, CHR 0xB2, CHR 0xD1, CHR 0x8C, CHR 0xD1, CHR 0x82, CHR 0xD0, CHR 0xB5] @
     '' '' @
     [CHR 0xD1, CHR 0x81, CHR 0xD0, CHR 0xBA, CHR 0xD0, CHR 0xB0, CHR 0xD0, CHR 0xBD] @
     '' '' @
     [CHR 0xD0, CHR 0xB8, CHR 0xD0, CHR 0xBB, CHR 0xD0, CHR 0xB8] @
     '' '' @
     [CHR 0xD1, CHR 0x84, CHR 0xD0, CHR 0xBE, CHR 0xD1, CHR 0x82, CHR 0xD0, CHR 0xBE] @
     '' '' @
     [CHR 0xD0, CHR 0xB0, CHR 0xD0, CHR 0xBA, CHR 0xD1, CHR 0x82, CHR 0xD1, CHR 0x83] @
     [CHR 0xD0, CHR 0xB0, CHR 0xD0, CHR 0xBB, CHR 0xD1, CHR 0x8C, CHR 0xD0, CHR 0xBD] @
     [CHR 0xD0, CHR 0xBE, CHR 0xD0, CHR 0xB3, CHR 0xD0, CHR 0xBE] @
     '' '' @
     [CHR 0xD0, CHR 0xBF, CHR 0xD0, CHR 0xB0, CHR 0xD1, CHR 0x81, CHR 0xD0, CHR 0xBF] @
     [CHR 0xD0, CHR 0xBE, CHR 0xD1, CHR 0x80, CHR 0xD1, CHR 0x82, CHR 0xD0, CHR 0xB0] @
     '', '' @
     [CHR 0xD1, CHR 0x83, CHR 0xD0, CHR 0xB4, CHR 0xD0, CHR 0xBE, CHR 0xD1, CHR 0x81] @
     [CHR 0xD1, CHR 0x82, CHR 0xD0, CHR 0xBE, CHR 0xD0, CHR 0xB2, CHR 0xD0, CHR 0xB5] @
     [CHR 0xD1, CHR 0x80, CHR 0xD1, CHR 0x8F, CHR 0xD1, CHR 0x8E, CHR 0xD1, CHR 0x89] @
     [CHR 0xD0, CHR 0xB5, CHR 0xD0, CHR 0xB3, CHR 0xD0, CHR 0xBE] @
     '' '' @
     [CHR 0xD0, CHR 0xB2, CHR 0xD0, CHR 0xB0, CHR 0xD1, CHR 0x88, CHR 0xD1, CHR 0x83] @
     '' '' @
     [CHR 0xD0, CHR 0xBB, CHR 0xD0, CHR 0xB8, CHR 0xD1, CHR 0x87, CHR 0xD0, CHR 0xBD] @
     [CHR 0xD0, CHR 0xBE, CHR 0xD1, CHR 0x81, CHR 0xD1, CHR 0x82, CHR 0xD1, CHR 0x8C] @
     ''.''"

definition ID_Russian_final :: string where
  "ID_Russian_final =
     [CHR 0xD0, CHR 0x9F, CHR 0xD0, CHR 0xBE, CHR 0xD0, CHR 0xBC, CHR 0xD0, CHR 0xB8] @
     [CHR 0xD0, CHR 0xBC, CHR 0xD0, CHR 0xBE] @
     '' '' @
     [CHR 0xD1, CHR 0x8D, CHR 0xD1, CHR 0x82, CHR 0xD0, CHR 0xBE, CHR 0xD0, CHR 0xB3] @
     [CHR 0xD0, CHR 0xBE] @
     '', '' @
     [CHR 0xD0, CHR 0xBF, CHR 0xD0, CHR 0xBE, CHR 0xD0, CHR 0xB6, CHR 0xD0, CHR 0xB0] @
     [CHR 0xD0, CHR 0xBB, CHR 0xD1, CHR 0x83, CHR 0xD0, CHR 0xB9, CHR 0xD1, CHR 0x81] @
     [CHR 0xD1, CHR 0x82, CHR 0xD0, CHR 0xB0] @
     '', '' @
     [CHR 0xD0, CHR 0xBF, CHR 0xD1, CHR 0x80, CHR 0xD0, CHR 0xB5, CHR 0xD0, CHR 0xB4] @
     [CHR 0xD0, CHR 0xBE, CHR 0xD1, CHR 0x81, CHR 0xD1, CHR 0x82, CHR 0xD0, CHR 0xB0] @
     [CHR 0xD0, CHR 0xB2, CHR 0xD1, CHR 0x8C, CHR 0xD1, CHR 0x82, CHR 0xD0, CHR 0xB5] @
     '' '' @
     [CHR 0xD1, CHR 0x81, CHR 0xD0, CHR 0xBA, CHR 0xD0, CHR 0xB0, CHR 0xD0, CHR 0xBD] @
     '' '' @
     [CHR 0xD0, CHR 0xB8, CHR 0xD0, CHR 0xBB, CHR 0xD0, CHR 0xB8] @
     '' '' @
     [CHR 0xD1, CHR 0x84, CHR 0xD0, CHR 0xBE, CHR 0xD1, CHR 0x82, CHR 0xD0, CHR 0xBE] @
     '' '' @
     [CHR 0xD0, CHR 0xB0, CHR 0xD0, CHR 0xBA, CHR 0xD1, CHR 0x82, CHR 0xD1, CHR 0x83] @
     [CHR 0xD0, CHR 0xB0, CHR 0xD0, CHR 0xBB, CHR 0xD1, CHR 0x8C, CHR 0xD0, CHR 0xBD] @
     [CHR 0xD0, CHR 0xBE, CHR 0xD0, CHR 0xB3, CHR 0xD0, CHR 0xBE] @
     '' '' @
     [CHR 0xD0, CHR 0xBF, CHR 0xD0, CHR 0xB0, CHR 0xD1, CHR 0x81, CHR 0xD0, CHR 0xBF] @
     [CHR 0xD0, CHR 0xBE, CHR 0xD1, CHR 0x80, CHR 0xD1, CHR 0x82, CHR 0xD0, CHR 0xB0] @
     '', '' @
     [CHR 0xD1, CHR 0x83, CHR 0xD0, CHR 0xB4, CHR 0xD0, CHR 0xBE, CHR 0xD1, CHR 0x81] @
     [CHR 0xD1, CHR 0x82, CHR 0xD0, CHR 0xBE, CHR 0xD0, CHR 0xB2, CHR 0xD0, CHR 0xB5] @
     [CHR 0xD1, CHR 0x80, CHR 0xD1, CHR 0x8F, CHR 0xD1, CHR 0x8E, CHR 0xD1, CHR 0x89] @
     [CHR 0xD0, CHR 0xB5, CHR 0xD0, CHR 0xB3, CHR 0xD0, CHR 0xBE] @
     '' '' @
     [CHR 0xD0, CHR 0xB2, CHR 0xD0, CHR 0xB0, CHR 0xD1, CHR 0x88, CHR 0xD1, CHR 0x83] @
     '' '' @
     [CHR 0xD0, CHR 0xBB, CHR 0xD0, CHR 0xB8, CHR 0xD1, CHR 0x87, CHR 0xD0, CHR 0xBD] @
     [CHR 0xD0, CHR 0xBE, CHR 0xD1, CHR 0x81, CHR 0xD1, CHR 0x82, CHR 0xD1, CHR 0x8C] @
     ''.''"

definition ID_Russian_rest :: string where
  "ID_Russian_rest =
     ''''"

definition ID_English_lead :: string where
  "ID_English_lead =
     ''In this regard, we ask you to provide a scan or photo of your valid passport or another identity document.''"

definition ID_English_add :: string where
  "ID_English_add =
     ''Additionally, please provide a scan or photo of your valid passport or another identity document.''"

definition ID_English_final :: string where
  "ID_English_final =
     ''Moreover, please provide a scan or photo of your valid passport or another identity document.''"

definition ID_English_rest :: string where
  "ID_English_rest =
     ''''"

definition UB_Russian_lead :: string where
  "UB_Russian_lead =
     [CHR 0xD0, CHR 0x92] @
     '' '' @
     [CHR 0xD1, CHR 0x81, CHR 0xD0, CHR 0xB2, CHR 0xD1, CHR 0x8F, CHR 0xD0, CHR 0xB7] @
     [CHR 0xD0, CHR 0xB8] @
     '' '' @
     [CHR 0xD1, CHR 0x81] @
     '' '' @
     [CHR 0xD1, CHR 0x8D, CHR 0xD1, CHR 0x82, CHR 0xD0, CHR 0xB8, CHR 0xD0, CHR 0xBC] @
     '', '' @
     [CHR 0xD0, CHR 0xBC, CHR 0xD1, CHR 0x8B] @
     '' '' @
     [CHR 0xD0, CHR 0xBF, CHR 0xD1, CHR 0x80, CHR 0xD0, CHR 0xBE, CHR 0xD1, CHR 0x81] @
     [CHR 0xD0, CHR 0xB8, CHR 0xD0, CHR 0xBC] @
     '' '' @
     [CHR 0xD0, CHR 0xB2, CHR 0xD0, CHR 0xB0, CHR 0xD1, CHR 0x81] @
     '' '' @
     [CHR 0xD0, CHR 0xBF, CHR 0xD1, CHR 0x80, CHR 0xD0, CHR 0xB5, CHR 0xD0, CHR 0xB4] @
     [CHR 0xD0, CHR 0xBE, CHR 0xD1, CHR 0x81, CHR 0xD1, CHR 0x82, CHR 0xD0, CHR 0xB0] @
     [CHR 0xD0, CHR 0xB2, CHR 0xD0, CHR 0xB8, CHR 0xD1, CHR 0x82, CHR 0xD1, CHR 0x8C] @
     '' '' @
     [CHR 0xD1, CHR 0x81, CHR 0xD1, CHR 0x87, CHR 0xD1, CHR 0x91, CHR 0xD1, CHR 0x82] @
     '' '' @
     [CHR 0xD0, CHR 0xB7, CHR 0xD0, CHR 0xB0] @
     '' '' @
     [CHR 0xD0, CHR 0xBA, CHR 0xD0, CHR 0xBE, CHR 0xD0, CHR 0xBC, CHR 0xD0, CHR 0xBC] @
     [CHR 0xD1, CHR 0x83, CHR 0xD0, CHR 0xBD, CHR 0xD0, CHR 0xB0, CHR 0xD0, CHR 0xBB] @
     [CHR 0xD1, CHR 0x8C, CHR 0xD0, CHR 0xBD, CHR 0xD1, CHR 0x8B, CHR 0xD0, CHR 0xB5] @
     '' '' @
     [CHR 0xD1, CHR 0x83, CHR 0xD1, CHR 0x81, CHR 0xD0, CHR 0xBB, CHR 0xD1, CHR 0x83] @
     [CHR 0xD0, CHR 0xB3, CHR 0xD0, CHR 0xB8] @
     '' '' @
     [CHR 0xD0, CHR 0xB8, CHR 0xD0, CHR 0xBB, CHR 0xD0, CHR 0xB8] @
     '' '' @
     [CHR 0xD0, CHR 0xB1, CHR 0xD0, CHR 0xB0, CHR 0xD0, CHR 0xBD, CHR 0xD0, CHR 0xBA] @
     [CHR 0xD0, CHR 0xBE, CHR 0xD0, CHR 0xB2, CHR 0xD1, CHR 0x81, CHR 0xD0, CHR 0xBA] @
     [CHR 0xD1, CHR 0x83, CHR 0xD1, CHR 0x8E] @
     '' '' @
     [CHR 0xD0, CHR 0xB2, CHR 0xD1, CHR 0x8B, CHR 0xD0, CHR 0xBF, CHR 0xD0, CHR 0xB8] @
     [CHR 0xD1, CHR 0x81, CHR 0xD0, CHR 0xBA, CHR 0xD1, CHR 0x83] @
     '' '' @
     [CHR 0xD0, CHR 0xB4, CHR 0xD0, CHR 0xBB, CHR 0xD1, CHR 0x8F] @
     '' '' @
     [CHR 0xD0, CHR 0xBF, CHR 0xD0, CHR 0xBE, CHR 0xD0, CHR 0xB4, CHR 0xD1, CHR 0x82] @
     [CHR 0xD0, CHR 0xB2, CHR 0xD0, CHR 0xB5, CHR 0xD1, CHR 0x80, CHR 0xD0, CHR 0xB6] @
     [CHR 0xD0, CHR 0xB4, CHR 0xD0, CHR 0xB5, CHR 0xD0, CHR 0xBD, CHR 0xD0, CHR 0xB8] @
     [CHR 0xD1, CHR 0x8F] @
     '' '' @
     [CHR 0xD0, CHR 0xB2, CHR 0xD0, CHR 0xB0, CHR 0xD1, CHR 0x88, CHR 0xD0, CHR 0xB5] @
     [CHR 0xD0, CHR 0xB3, CHR 0xD0, CHR 0xBE] @
     '' '' @
     [CHR 0xD0, CHR 0xB0, CHR 0xD0, CHR 0xB4, CHR 0xD1, CHR 0x80, CHR 0xD0, CHR 0xB5] @
     [CHR 0xD1, CHR 0x81, CHR 0xD0, CHR 0xB0] @
     '' '' @
     [CHR 0xD0, CHR 0xBF, CHR 0xD1, CHR 0x80, CHR 0xD0, CHR 0xBE, CHR 0xD0, CHR 0xB6] @
     [CHR 0xD0, CHR 0xB8, CHR 0xD0, CHR 0xB2, CHR 0xD0, CHR 0xB0, CHR 0xD0, CHR 0xBD] @
     [CHR 0xD0, CHR 0xB8, CHR 0xD1, CHR 0x8F] @
     ''.''"

definition UB_Russian_add :: string where
  "UB_Russian_add =
     [CHR 0xD0, CHR 0xA2, CHR 0xD0, CHR 0xB0, CHR 0xD0, CHR 0xBA, CHR 0xD0, CHR 0xB6] @
     [CHR 0xD0, CHR 0xB5] @
     '', '' @
     [CHR 0xD0, CHR 0xBF, CHR 0xD0, CHR 0xBE, CHR 0xD0, CHR 0xB6, CHR 0xD0, CHR 0xB0] @
     [CHR 0xD0, CHR 0xBB, CHR 0xD1, CHR 0x83, CHR 0xD0, CHR 0xB9, CHR 0xD1, CHR 0x81] @
     [CHR 0xD1, CHR 0x82, CHR 0xD0, CHR 0xB0] @
     '', '' @
     [CHR 0xD0, CHR 0xBF, CHR 0xD1, CHR 0x80, CHR 0xD0, CHR 0xB5, CHR 0xD0, CHR 0xB4] @
     [CHR 0xD0, CHR 0xBE, CHR 0xD1, CHR 0x81, CHR 0xD1, CHR 0x82, CHR 0xD0, CHR 0xB0] @
     [CHR 0xD0, CHR 0xB2, CHR 0xD1, CHR 0x8C, CHR 0xD1, CHR 0x82, CHR 0xD0, CHR 0xB5] @
     '' '' @
     [CHR 0xD1, CHR 0x81, CHR 0xD1, CHR 0x87, CHR 0xD1, CHR 0x91, CHR 0xD1, CHR 0x82] @
     '' '' @
     [CHR 0xD0, CHR 0xB7, CHR 0xD0, CHR 0xB0] @
     '' '' @
     [CHR 0xD0, CHR 0xBA, CHR 0xD0, CHR 0xBE, CHR 0xD0, CHR 0xBC, CHR 0xD0, CHR 0xBC] @
     [CHR 0xD1, CHR 0x83, CHR 0xD0, CHR 0xBD, CHR 0xD0, CHR 0xB0, CHR 0xD0, CHR 0xBB] @
     [CHR 0xD1, CHR 0x8C, CHR 0xD0, CHR 0xBD, CHR 0xD1, CHR 0x8B, CHR 0xD0, CHR 0xB5] @
     '' '' @
     [CHR 0xD1, CHR 0x83, CHR 0xD1, CHR 0x81, CHR 0xD0, CHR 0xBB, CHR 0xD1, CHR 0x83] @
     [CHR 0xD0, CHR 0xB3, CHR 0xD0, CHR 0xB8] @
     '' '' @
     [CHR 0xD0, CHR 0xB8, CHR 0xD0, CHR 0xBB, CHR 0xD0, CHR 0xB8] @
     '' '' @
     [CHR 0xD0, CHR 0xB1, CHR 0xD0, CHR 0xB0, CHR 0xD0, CHR 0xBD, CHR 0xD0, CHR 0xBA] @
     [CHR 0xD0, CHR 0xBE, CHR 0xD0, CHR 0xB2, CHR 0xD1, CHR 0x81, CHR 0xD0, CHR 0xBA] @
     [CHR 0xD1, CHR 0x83, CHR 0xD1, CHR 0x8E] @
     '' '' @
     [CHR 0xD0, CHR 0xB2, CHR 0xD1, CHR 0x8B, CHR 0xD0, CHR 0xBF, CHR 0xD0, CHR 0xB8] @
     [CHR 0xD1, CHR 0x81, CHR 0xD0, CHR 0xBA, CHR 0xD1, CHR 0x83] @
     '' '' @
     [CHR 0xD0, CHR 0xB4, CHR 0xD0, CHR 0xBB, CHR 0xD1, CHR 0x8F] @
     '' '' @
     [CHR 0xD0, CHR 0xBF, CHR 0xD0, CHR 0xBE, CHR 0xD0, CHR 0xB4, CHR 0xD1, CHR 0x82] @
     [CHR 0xD0, CHR 0xB2, CHR 0xD0, CHR 0xB5, CHR 0xD1, CHR 0x80, CHR 0xD0, CHR 0xB6] @
     [CHR 0xD0, CHR 0xB4, CHR 0xD0, CHR 0xB5, CHR 0xD0, CHR 0xBD, CHR 0xD0, CHR 0xB8] @
     [CHR 0xD1, CHR 0x8F] @
     '' '' @
     [CHR 0xD0, CHR 0xB2, CHR 0xD0, CHR 0xB0, CHR 0xD1, CHR 0x88, CHR 0xD0, CHR 0xB5] @
     [CHR 0xD0, CHR 0xB3, CHR 0xD0, CHR 0xBE] @
     '' '' @
     [CHR 0xD0, CHR 0xB0, CHR 0xD0, CHR 0xB4, CHR 0xD1, CHR 0x80, CHR 0xD0, CHR 0xB5] @
     [CHR 0xD1, CHR 0x81, CHR 0xD0, CHR 0xB0] @
     '' '' @
     [CHR 0xD0, CHR 0xBF, CHR 0xD1, CHR 0x80, CHR 0xD0, CHR 0xBE, CHR 0xD0, CHR 0xB6] @
     [CHR 0xD0, CHR 0xB8, CHR 0xD0, CHR 0xB2, CHR 0xD0, CHR 0xB0, CHR 0xD0, CHR 0xBD] @
     [CHR 0xD0, CHR 0xB8, CHR 0xD1, CHR 0x8F] @
     ''.''"

definition UB_Russian_final :: string where
  "UB_Russian_final =
     [CHR 0xD0, CHR 0x9F, CHR 0xD0, CHR 0xBE, CHR 0xD0, CHR 0xBC, CHR 0xD0, CHR 0xB8] @
     [CHR 0xD0, CHR 0xBC, CHR 0xD0, CHR 0xBE] @
     '' '' @
     [CHR 0xD1, CHR 0x8D, CHR 0xD1, CHR 0x82, CHR 0xD0, CHR 0xBE, CHR 0xD0, CHR 0xB3] @
     [CHR 0xD0, CHR 0xBE] @
     '', '' @
     [CHR 0xD0, CHR 0xBF, CHR 0xD0, CHR 0xBE, CHR 0xD0, CHR 0xB6, CHR 0xD0, CHR 0xB0] @
     [CHR 0xD0, CHR 0xBB, CHR 0xD1, CHR 0x83, CHR 0xD0, CHR 0xB9, CHR 0xD1, CHR 0x81] @
     [CHR 0xD1, CHR 0x82, CHR 0xD0, CHR 0xB0] @
     '', '' @
     [CHR 0xD0, CHR 0xBF, CHR 0xD1, CHR 0x80, CHR 0xD0, CHR 0xB5, CHR 0xD0, CHR 0xB4] @
     [CHR 0xD0, CHR 0xBE, CHR 0xD1, CHR 0x81, CHR 0xD1, CHR 0x82, CHR 0xD0, CHR 0xB0] @
     [CHR 0xD0, CHR 0xB2, CHR 0xD1, CHR 0x8C, CHR 0xD1, CHR 0x82, CHR 0xD0, CHR 0xB5] @
     '' '' @
     [CHR 0xD1, CHR 0x81, CHR 0xD1, CHR 0x87, CHR 0xD1, CHR 0x91, CHR 0xD1, CHR 0x82] @
     '' '' @
     [CHR 0xD0, CHR 0xB7, CHR 0xD0, CHR 0xB0] @
     '' '' @
     [CHR 0xD0, CHR 0xBA, CHR 0xD0, CHR 0xBE, CHR 0xD0, CHR 0xBC, CHR 0xD0, CHR 0xBC] @
     [CHR 0xD1, CHR 0x83, CHR 0xD0, CHR 0xBD, CHR 0xD0, CHR 0xB0, CHR 0xD0, CHR 0xBB] @
     [CHR 0xD1, CHR 0x8C, CHR 0xD0, CHR 0xBD, CHR 0xD1, CHR 0x8B, CHR 0xD0, CHR 0xB5] @
     '' '' @
     [CHR 0xD1, CHR 0x83, CHR 0xD1, CHR 0x81, CHR 0xD0, CHR 0xBB, CHR 0xD1, CHR 0x83] @
     [CHR 0xD0, CHR 0xB3, CHR 0xD0, CHR 0xB8] @
     '' '' @
     [CHR 0xD0, CHR 0xB8, CHR 0xD0, CHR 0xBB, CHR 0xD0, CHR 0xB8] @
     '' '' @
     [CHR 0xD0, CHR 0xB1, CHR 0xD0, CHR 0xB0, CHR 0xD0, CHR 0xBD, CHR 0xD0, CHR 0xBA] @
     [CHR 0xD0, CHR 0xBE, CHR 0xD0, CHR 0xB2, CHR 0xD1, CHR 0x81, CHR 0xD0, CHR 0xBA] @
     [CHR 0xD1, CHR 0x83, CHR 0xD1, CHR 0x8E] @
     '' '' @
     [CHR 0xD0, CHR 0xB2, CHR 0xD1, CHR 0x8B, CHR 0xD0, CHR 0xBF, CHR 0xD0, CHR 0xB8] @
     [CHR 0xD1, CHR 0x81, CHR 0xD0, CHR 0xBA, CHR 0xD1, CHR 0x83] @
     '' '' @
     [CHR 0xD0, CHR 0xB4, CHR 0xD0, CHR 0xBB, CHR 0xD1, CHR 0x8F] @
     '' '' @
     [CHR 0xD0, CHR 0xBF, CHR 0xD0, CHR 0xBE, CHR 0xD0, CHR 0xB4, CHR 0xD1, CHR 0x82] @
     [CHR 0xD0, CHR 0xB2, CHR 0xD0, CHR 0xB5, CHR 0xD1, CHR 0x80, CHR 0xD0, CHR 0xB6] @
     [CHR 0xD0, CHR 0xB4, CHR 0xD0, CHR 0xB5, CHR 0xD0, CHR 0xBD, CHR 0xD0, CHR 0xB8] @
     [CHR 0xD1, CHR 0x8F] @
     '' '' @
     [CHR 0xD0, CHR 0xB2, CHR 0xD0, CHR 0xB0, CHR 0xD1, CHR 0x88, CHR 0xD0, CHR 0xB5] @
     [CHR 0xD0, CHR 0xB3, CHR 0xD0, CHR 0xBE] @
     '' '' @
     [CHR 0xD0, CHR 0xB0, CHR 0xD0, CHR 0xB4, CHR 0xD1, CHR 0x80, CHR 0xD0, CHR 0xB5] @
     [CHR 0xD1, CHR 0x81, CHR 0xD0, CHR 0xB0] @
     '' '' @
     [CHR 0xD0, CHR 0xBF, CHR 0xD1, CHR 0x80, CHR 0xD0, CHR 0xBE, CHR 0xD0, CHR 0xB6] @
     [CHR 0xD0, CHR 0xB8, CHR 0xD0, CHR 0xB2, CHR 0xD0, CHR 0xB0, CHR 0xD0, CHR 0xBD] @
     [CHR 0xD0, CHR 0xB8, CHR 0xD1, CHR 0x8F] @
     ''.''"

definition UB_Russian_rest :: string where
  "UB_Russian_rest =
     ''''"

definition UB_English_lead :: string where
  "UB_English_lead =
     ''In this regard, we ask you to provide a utility bill or a bank statement to confirm your residential address.''"

definition UB_English_add :: string where
  "UB_English_add =
     ''Additionally, please provide a utility bill or a bank statement to confirm your residential address.''"

definition UB_English_final :: string where
  "UB_English_final =
     ''Moreover, please provide a utility bill or a bank statement to confirm your residential address.''"

definition UB_English_rest :: string where
  "UB_English_rest =
     ''''"



record segment =
  seg_lead :: string
  seg_add :: string
  seg_final :: string
  seg_rest :: string

definition intro_texts :: "string \<rightharpoonup> string" where
  "intro_texts = [''Russian'' \<mapsto> intro_Russian, ''English'' \<mapsto> intro_English]"

definition closing_texts :: "string \<rightharpoonup> string" where
  "closing_texts = [''Russian'' \<mapsto> closing_Russian, ''English'' \<mapsto> closing_English]"

text \<open>
  Every entry of \<^verbatim>\<open>blocks\<close> has the four keys \<^verbatim>\<open>lead\<close>, \<^verbatim>\<open>add\<close>, \<^verbatim>\<open>final\<close> and
  \<^verbatim>\<open>rest\<close>: the innermost dictionaries are records, and the default of
  \<^verbatim>\<open>seg.get("rest", "")\<close> is never used.
\<close>

definition blocks :: "string \<rightharpoonup> (string \<rightharpoonup> segment)" where
  "blocks =
     [''SOF'' \<mapsto>
        [''Russian'' \<mapsto> \<lparr>seg_lead = SOF_Russian_lead, seg_add = SOF_Russian_add,
                          seg_final = SOF_Russian_final, seg_rest = SOF_Russian_rest\<rparr>,
         ''English'' \<mapsto> \<lparr>seg_lead = SOF_English_lead, seg_add = SOF_English_add,
                          seg_final = SOF_English_final, seg_rest = SOF_English_rest\<rparr>],
      ''ID'' \<mapsto>
        [''Russian'' \<mapsto> \<lparr>seg_lead = ID_Russian_lead, seg_add = ID_Russian_add,
                          seg_final = ID_Russian_final, seg_rest = ID_Russian_rest\<rparr>,
         ''English'' \<mapsto> \<lparr>seg_lead = ID_English_lead, seg_add = ID_English_add,
                          seg_final = ID_English_final, seg_rest = ID_English_rest\<rparr>],
      ''UB'' \<mapsto>
        [''Russian'' \<mapsto> \<lparr>seg_lead = UB_Russian_lead, seg_add = UB_Russian_add,
                          seg_final = UB_Russian_final, seg_rest = UB_Russian_rest\<rparr>,
         ''English'' \<mapsto> \<lparr>seg_lead = UB_English_lead, seg_add = UB_English_add,
                          seg_final = UB_English_final, seg_rest = UB_English_rest\<rparr>]]"

definition PRIORITY :: "string list" where
  "PRIORITY = [''SOF'', ''ID'', ''UB'']"

definition sort_by_priority :: "string list \<Rightarrow> string list" where
  "sort_by_priority keys = [k \<leftarrow> PRIORITY. k \<in> set keys]"

subsection \<open>String operations\<close>

text \<open>
  \<^verbatim>\<open>str.strip()\<close> removes the whitespace characters of Unicode from both ends. In
  UTF-8 they are the ten ASCII characters and fifteen sequences of two or three bytes.
\<close>

definition WHITESPACE :: "string list" where
  "WHITESPACE =
     [[CHR 0x09], [CHR 0x0A], [CHR 0x0B], [CHR 0x0C], [CHR 0x0D],
      [CHR 0x1C], [CHR 0x1D], [CHR 0x1E], [CHR 0x1F], [CHR 0x20],
      [CHR 0xC2, CHR 0x85], [CHR 0xC2, CHR 0xA0], [CHR 0xE1, CHR 0x9A, CHR 0x80],
      [CHR 0xE2, CHR 0x80, CHR 0x80], [CHR 0xE2, CHR 0x80, CHR 0x81],
      [CHR 0xE2, CHR 0x80, CHR 0x82], [CHR 0xE2, CHR 0x80, CHR 0x83],
      [CHR 0xE2, CHR 0x80, CHR 0x84], [CHR 0xE2, CHR 0x80, CHR 0x85],
      [CHR 0xE2, CHR 0x80, CHR 0x86], [CHR 0xE2, CHR 0x80, CHR 0x87],
      [CHR 0xE2, CHR 0x80, CHR 0x88], [CHR 0xE2, CHR 0x80, CHR 0x89],
      [CHR 0xE2, CHR 0x80, CHR 0x8A], [CHR 0xE2, CHR 0x80, CHR 0xA8],
      [CHR 0xE2, CHR 0x80, CHR 0xA9], [CHR 0xE2, CHR 0x80, CHR 0xAF],
      [CHR 0xE2, CHR 0x81, CHR 0x9F], [CHR 0xE3, CHR 0x80, CHR 0x80]]"

function strip_left :: "string list \<Rightarrow> string \<Rightarrow> string" where
  "strip_left ws s =
     (case find (\<lambda>w. w \<noteq> [] \<and> prefix w s) ws of
        None \<Rightarrow> s
      | Some w \<Rightarrow> strip_left ws (drop (length w) s))"
  by pat_completeness auto

definition strip :: "string \<Rightarrow> string" where
  "strip s = rev (strip_left (map rev WHITESPACE) (rev (strip_left WHITESPACE s)))"

fun str_join :: "string \<Rightarrow> string list \<Rightarrow> string" where
  "str_join sep [] = []"
| "str_join sep [x] = x"
| "str_join sep (x # y # ys) = x @ sep @ str_join sep (y # ys)"

text \<open>
  \<^verbatim>\<open>s.replace(old, new)\<close> replaces the occurrences of \<^verbatim>\<open>old\<close> from left to right,
  without overlap; an empty \<^verbatim>\<open>old\<close> matches before every character and at the end.
\<close>

function replace_scan :: "string \<Rightarrow> string \<Rightarrow> string \<Rightarrow> string" where
  "replace_scan old new [] = []"
| "replace_scan old new (c # s) =
     (if old \<noteq> [] \<and> prefix old (c # s)
      then new @ replace_scan old new (drop (length old) (c # s))
      else c # replace_scan old new s)"
  by pat_completeness auto

definition str_replace :: "string \<Rightarrow> string \<Rightarrow> string \<Rightarrow> string" where
  "str_replace old new s =
     (if old = [] then new @ concat (map (\<lambda>c. c # new) s) else replace_scan old new s)"

subsection \<open>Composition\<close>

text \<open>
  The loop of \<^verbatim>\<open>render_middle_adaptive\<close> over \<^verbatim>\<open>enumerate(ordered)\<close>: \<open>i\<close> is the
  index, \<open>parts\<close> the list built so far. A missing key raises \<^verbatim>\<open>KeyError\<close>.
\<close>

fun render_loop :: "string \<Rightarrow> nat \<Rightarrow> string list \<Rightarrow> string list \<Rightarrow> py_error + string list" where
  "render_loop lang i [] parts = Inr parts"
| "render_loop lang i (r # rs) parts =
     (case blocks r of
        None \<Rightarrow> Inl KeyError
      | Some by_lang \<Rightarrow>
          (case by_lang lang of
             None \<Rightarrow> Inl KeyError
           | Some seg \<Rightarrow>
               let first_sentence =
                     (if i = 0 then seg_lead seg
                      else if i = 1 then seg_add seg
                      else seg_final seg)
               in render_loop lang (i + 1) rs (parts @ [strip (first_sentence @ seg_rest seg)])))"

definition render_middle_adaptive :: "string \<Rightarrow> string list \<Rightarrow> py_error + string" where
  "render_middle_adaptive lang reqs =
     (case render_loop lang 0 (sort_by_priority reqs) [] of
        Inl e \<Rightarrow> Inl e
      | Inr parts \<Rightarrow> Inr (str_join ''\<newline>\<newline>'' parts))"

text \<open>
  The text that \<^verbatim>\<open>compliance_app\<close> shows: \<open>compose_text\<close> is the two lines that build
  the message from a selection, \<open>compliance_app_text\<close> adds the placeholder shown for
  an empty selection.
\<close>

definition compose_text :: "string \<Rightarrow> string list \<Rightarrow> py_error + string" where
  "compose_text language selected_parts =
     (case render_middle_adaptive language selected_parts of
        Inl e \<Rightarrow> Inl e
      | Inr middle_text \<Rightarrow>
          (case intro_texts language of
             None \<Rightarrow> Inl KeyError
           | Some intro \<Rightarrow>
               (case closing_texts language of
                  None \<Rightarrow> Inl KeyError
                | Some closing \<Rightarrow>
                    Inr (strip (intro @ ''\<newline>\<newline>'' @ middle_text
                                  @ ''\<newline>\<newline>'' @ closing)))))"


text \<open>
  The composition as the specification describes it, for an ordered list of categories:
  the block at position \<open>i\<close> is the sentence chosen by \<open>i\<close> followed by the trailing
  text, trimmed; the blocks are joined by a blank line between the intro and the closing.
\<close>

definition sentence_at :: "nat \<Rightarrow> segment \<Rightarrow> string" where
  "sentence_at i seg = (if i = 0 then seg_lead seg else if i = 1 then seg_add seg else seg_final seg)"

definition compose_spec :: "string \<Rightarrow> string \<Rightarrow> (string \<Rightarrow> segment) \<Rightarrow> string list \<Rightarrow> string" where
  "compose_spec intro closing seg ordered =
     strip (intro @ ''\<newline>\<newline>''
            @ str_join ''\<newline>\<newline>''
                (map (\<lambda>(i, r). strip (sentence_at i (seg r) @ seg_rest (seg r)))
                   (zip [0 ..< length ordered] ordered))
            @ ''\<newline>\<newline>'' @ closing)"

subsection \<open>Escaping\<close>

definition js_escape :: "string \<Rightarrow> string" where
  "js_escape s =
     str_replace [CHR 0x0A] [CHR 0x5C, CHR ''n'']
       (str_replace [CHR 0x0D] []
          (str_replace ''${'' [CHR 0x5C, CHR ''$'', CHR ''{'']
             (str_replace [CHR 0x60] [CHR 0x5C, CHR 0x60]
                (str_replace [CHR 0x5C] [CHR 0x5C, CHR 0x5C] s))))"

text \<open>
  One pass over the input: what each character, and each pair \<^verbatim>\<open>${\<close>, of the input
  becomes.
\<close>

fun js_escape_pass :: "string \<Rightarrow> string" where
  "js_escape_pass [] = []"
| "js_escape_pass (c # s) =
     (if c = CHR ''$'' \<and> (case s of [] \<Rightarrow> False | d # _ \<Rightarrow> d = CHR ''{'')
      then [CHR 0x5C, CHR ''$'', CHR ''{''] @ js_escape_pass (tl s)
      else if c = CHR 0x5C then [CHR 0x5C, CHR 0x5C] @ js_escape_pass s
      else if c = CHR 0x60 then [CHR 0x5C, CHR 0x60] @ js_escape_pass s
      else if c = CHR 0x0D then js_escape_pass s
      else if c = CHR 0x0A then [CHR 0x5C, CHR ''n''] @ js_escape_pass s
      else c # js_escape_pass s)"

text \<open>
  Two intermediate forms of \<open>js_escape\<close>: \<open>esc_quote\<close> is what the first two
  replacements make of one character, \<open>escape_dollar\<close> is the text after the third.
\<close>

definition esc_quote :: "char \<Rightarrow> string" where
  "esc_quote c =
     (if c = CHR 0x5C then [CHR 0x5C, CHR 0x5C]
      else if c = CHR 0x60 then [CHR 0x5C, CHR 0x60]
      else [c])"

fun escape_dollar :: "string \<Rightarrow> string" where
  "escape_dollar [] = []"
| "escape_dollar (c # s) =
     (if c = CHR ''$'' \<and> (case s of [] \<Rightarrow> False | d # _ \<Rightarrow> d = CHR ''{'')
      then [CHR 0x5C, CHR ''$'', CHR ''{''] @ escape_dollar (tl s)
      else esc_quote c @ escape_dollar s)"

section \<open>Notions used by the statements\<close>

text \<open>
  Adding years as the specification words it: the same month and day in the new year,
  and 28 February when the date is 29 February and the new year is not a leap year.
\<close>

definition clamp_add_years :: "date \<Rightarrow> int \<Rightarrow> date" where
  "clamp_add_years d n =
     \<lparr>year = year d + n, month = month d,
      day = (if month d = 2 \<and> day d = 29 \<and> \<not> is_leap (year d + n) then 28 else day d)\<rparr>"

text \<open>
  The entry of \<^verbatim>\<open>blocks\<close> for a language and a category, and the empty entry where the
  table has none.
\<close>

definition segment_of :: "string \<Rightarrow> string \<Rightarrow> segment" where
  "segment_of lang r =
     (case blocks r of
        None \<Rightarrow> \<lparr>seg_lead = [], seg_add = [], seg_final = [], seg_rest = []\<rparr>
      | Some by_lang \<Rightarrow>
          (case by_lang lang of
             None \<Rightarrow> \<lparr>seg_lead = [], seg_add = [], seg_final = [], seg_rest = []\<rparr>
           | Some seg \<Rightarrow> seg))"

text \<open>
  The stage that the thresholds give to an issue date, and the next change date that
  steps 2 to 4 of the specification choose from the stage, the thresholds and today.
\<close>

definition stage_of :: "date \<Rightarrow> date \<Rightarrow> date \<Rightarrow> date \<Rightarrow> int option" where
  "stage_of d14 d20 d45 issue =
     (if date_lt issue d14 then None
      else if date_lt issue d20 then Some 14
      else if date_lt issue d45 then Some 20
      else Some 45)"

definition chosen_next_change :: "int option \<Rightarrow> date \<Rightarrow> date \<Rightarrow> date \<Rightarrow> date option" where
  "chosen_next_change stage d20 d45 today =
     (if stage = Some 45 then None
      else if stage = Some 20 then Some d45
      else if stage = Some 14 then Some d20
      else if date_lt today d20 then Some d20
      else if date_lt today d45 then Some d45
      else None)"



text \<open>A triple is the year, month and day of the date with ordinal \<open>n\<close>.\<close>

definition ymd_ok :: "int \<Rightarrow> int \<times> int \<times> int \<Rightarrow> bool" where
  "ymd_ok n t = (case t of (y, m, d) \<Rightarrow>
     1 \<le> y \<and> 1 \<le> m \<and> m \<le> 12 \<and> 1 \<le> d \<and> d \<le> days_in_month y m \<and> ymd2ord y m d = n)"

section \<open>Termination\<close>

termination strip_left
  by (relation "measure (\<lambda>(ws, s). length s)") (auto simp: find_Some_iff prefix_def)

termination replace_scan
  by (relation "measure (\<lambda>(old, new, s). length s)") (auto simp: prefix_def)

declare strip_left.simps [simp del]

lemma rd_set_months_sum:
  assumes "rd_set_months months = (y, m)"
  shows "y * 12 + m = months \<and> - 11 \<le> m \<and> m \<le> 11"
proof (cases "\<bar>months\<bar> > 11")
  case False
  with assms show ?thesis by (auto simp: rd_set_months_def)
next
  case True
  show ?thesis
  proof (cases "months < 0")
    case neg: True
    define a where "a = - months"
    have y: "y = - (a div 12)" and m: "m = - (a mod 12)"
      using assms True neg by (simp_all add: rd_set_months_def Let_def a_def)
    have "a div 12 * 12 + a mod 12 = a" by simp
    moreover have "0 \<le> a mod 12" "a mod 12 < 12" by simp_all
    ultimately show ?thesis unfolding y m a_def by linarith
  next
    case pos: False
    have y: "y = months div 12" and m: "m = months mod 12"
      using assms True pos by (simp_all add: rd_set_months_def Let_def)
    have "months div 12 * 12 + months mod 12 = months" by simp
    moreover have "0 \<le> months mod 12" "months mod 12 < 12" by simp_all
    ultimately show ?thesis unfolding y m by linarith
  qed
qed

lemma rd_add_index:
  assumes "rd_add (rd_set_months months) dt = Inr r"
  shows "12 * year r + month r = 12 * year dt + month dt + months \<and> 1 \<le> month r \<and> month r \<le> 12"
proof -
  obtain y m where ym: "rd_set_months months = (y, m)" by (cases "rd_set_months months")
  have s: "y * 12 + m = months" using rd_set_months_sum [OF ym] by simp
  show ?thesis
    using assms s unfolding ym rd_add_def Let_def date_new_def
    by (auto split: if_splits)
qed

termination rd_adjust
proof (relation "measure (\<lambda>(up, dt1, dt2, months).
    if up then nat (12 * year dt1 + 13 - (12 * year dt2 + month dt2 + months))
    else nat (12 * year dt2 + month dt2 + months - 12 * year dt1))", goal_cases)
  case 1
  show ?case by simp
next
  case (2 up dt1 dt2 months dtm)
  have i: "12 * year dtm + month dtm = 12 * year dt2 + month dt2 + months"
    "1 \<le> month dtm" "month dtm \<le> 12"
    using rd_add_index [OF 2(1)] by simp_all
  show ?case
  proof (cases up)
    case True
    with 2(2) have "year dtm \<le> year dt1" by (auto simp: date_lt_def)
    with i True show ?thesis by simp
  next
    case False
    with 2(2) have "year dt1 \<le> year dtm" by (auto simp: date_lt_def)
    with i False show ?thesis by simp
  qed
qed

declare rd_adjust.simps [simp del]

section \<open>The cycles of the calendar\<close>

lemma div_eqI: "a = b * q + r \<Longrightarrow> 0 \<le> r \<Longrightarrow> r < b \<Longrightarrow> (a::int) div b = q"
  by (rule int_div_pos_eq)

lemma mod_eqI: "a = b * q + r \<Longrightarrow> 0 \<le> r \<Longrightarrow> r < b \<Longrightarrow> (a::int) mod b = r"
  by (rule int_mod_pos_eq)

lemma days_before_year_cycles:
  assumes "0 \<le> c100" "c100 \<le> 3" "0 \<le> c4" "c4 \<le> 24" "0 \<le> c1" "c1 \<le> 3"
  shows "days_before_year (400 * c400 + 100 * c100 + 4 * c4 + c1 + 1)
           = 146097 * c400 + 36524 * c100 + 1461 * c4 + 365 * c1"
proof -
  let ?y = "400 * c400 + 100 * c100 + 4 * c4 + c1"
  have d4: "?y div 4 = 100 * c400 + 25 * c100 + c4"
    using assms by (intro div_eqI [where r = c1]) auto
  have d100: "?y div 100 = 4 * c400 + c100"
    using assms by (intro div_eqI [where r = "4 * c4 + c1"]) auto
  have d400: "?y div 400 = c400"
    using assms by (intro div_eqI [where r = "100 * c100 + 4 * c4 + c1"]) auto
  show ?thesis
    unfolding days_before_year_def Let_def using d4 d100 d400 by simp
qed

lemma is_leap_cycles:
  assumes "0 \<le> c100" "c100 \<le> 3" "0 \<le> c4" "c4 \<le> 24" "0 \<le> c1" "c1 \<le> 3"
  shows "is_leap (400 * c400 + 100 * c100 + 4 * c4 + c1 + 1)
           \<longleftrightarrow> (c1 = 3 \<and> (c4 \<noteq> 24 \<or> c100 = 3))"
proof -
  let ?y = "400 * c400 + 100 * c100 + 4 * c4 + c1 + 1"
  show ?thesis
  proof (cases "c1 = 3")
    case False
    have "?y mod 4 = c1 + 1"
      using assms False by (intro mod_eqI [where q = "100 * c400 + 25 * c100 + c4"]) auto
    with False assms show ?thesis by (auto simp: is_leap_def)
  next
    case c1: True
    have m4: "?y mod 4 = 0"
      using assms c1 by (intro mod_eqI [where q = "100 * c400 + 25 * c100 + c4 + 1"]) auto
    show ?thesis
    proof (cases "c4 = 24")
      case False
      have "?y mod 100 = 4 * c4 + 4"
        using assms c1 False by (intro mod_eqI [where q = "4 * c400 + c100"]) auto
      with False assms c1 m4 show ?thesis by (auto simp: is_leap_def)
    next
      case c4: True
      have m100: "?y mod 100 = 0"
        using assms c1 c4 by (intro mod_eqI [where q = "4 * c400 + c100 + 1"]) auto
      show ?thesis
      proof (cases "c100 = 3")
        case False
        have "?y mod 400 = 100 * c100 + 100"
          using assms c1 c4 False by (intro mod_eqI [where q = "c400"]) auto
        with False assms c1 c4 m4 m100 show ?thesis by (auto simp: is_leap_def)
      next
        case True
        have "?y mod 400 = 0"
          using assms c1 c4 True by (intro mod_eqI [where q = "c400 + 1"]) auto
        with True assms c1 c4 m4 m100 show ?thesis by (auto simp: is_leap_def)
      qed
    qed
  qed
qed

lemma div32_cases:
  assumes "0 \<le> k" "k < 365"
  shows "1 \<le> (k + 50) div 32 \<and> (k + 50) div 32 \<le> (12::int)"
  using assms by presburger

lemma div32_bounds: "(x::int) div 32 = j \<Longrightarrow> 32 * j \<le> x \<and> x < 32 * j + 32"
  by presburger

lemma int_1_12: "1 \<le> (m::int) \<Longrightarrow> m \<le> 12 \<Longrightarrow>
   m = 1 \<or> m = 2 \<or> m = 3 \<or> m = 4 \<or> m = 5 \<or> m = 6 \<or> m = 7 \<or> m = 8 \<or> m = 9 \<or> m = 10 \<or> m = 11 \<or> m = 12"
  by arith

lemma month_day_ok:
  assumes "0 \<le> k" "k < 365" "month_day (is_leap y) k = (m, d)"
  shows "1 \<le> m \<and> m \<le> 12 \<and> 1 \<le> d \<and> d \<le> days_in_month y m \<and> days_before_month y m + d = k + 1"
proof -
  define j where "j = (k + 50) div 32"
  have jb: "32 * j \<le> k + 50 \<and> k + 50 < 32 * j + 32"
    using div32_bounds [of "k + 50" j] by (simp add: j_def)
  have "1 \<le> j \<and> j \<le> 12" using div32_cases [OF assms(1,2)] by (simp add: j_def)
  then have "j = 1 \<or> j = 2 \<or> j = 3 \<or> j = 4 \<or> j = 5 \<or> j = 6 \<or> j = 7 \<or> j = 8 \<or> j = 9 \<or> j = 10 \<or> j = 11 \<or> j = 12"
    using int_1_12 by blast
  then show ?thesis
    using assms(3) jb assms(1,2) unfolding month_day_def Let_def j_def [symmetric]
    by (elim disjE) (auto simp: DAYS_BEFORE_MONTH_def DAYS_IN_MONTH_def days_in_month_def days_before_month_def split: if_splits)
qed

lemma div_step:
  assumes "0 < k"
  shows "(y::int) div k = (y - 1) div k + (if y mod k = 0 then 1 else 0)"
proof -
  define q where "q = (y - 1) div k"
  define r where "r = (y - 1) mod k"
  have y: "y = k * q + r + 1"
    unfolding q_def r_def by simp
  have r: "0 \<le> r" "r < k"
    using assms by (simp_all add: r_def)
  show ?thesis
  proof (cases "r + 1 = k")
    case True
    have e: "y = k * (q + 1) + 0"
      using y True by (simp add: algebra_simps)
    have "y div k = q + 1"
      by (rule div_eqI [OF e]) (use assms in simp_all)
    moreover have "y mod k = 0"
      by (rule mod_eqI [OF e]) (use assms in simp_all)
    ultimately show ?thesis by (simp add: q_def)
  next
    case False
    have e: "y = k * q + (r + 1)"
      using y by simp
    have b: "0 \<le> r + 1" "r + 1 < k"
      using r False by simp_all
    have "y div k = q"
      using e b by (rule div_eqI)
    moreover have "y mod k = r + 1"
      using e b by (rule mod_eqI)
    ultimately show ?thesis using r by (simp add: q_def)
  qed
qed

lemma mod_100_4: "(y::int) mod 100 = 0 \<Longrightarrow> y mod 4 = 0"
proof -
  assume "y mod 100 = 0"
  then have "100 dvd y" by (simp add: dvd_eq_mod_eq_0)
  moreover have "(4::int) dvd 100" by simp
  ultimately have "4 dvd y" using dvd_trans by blast
  then show ?thesis by (simp add: dvd_eq_mod_eq_0)
qed

lemma mod_400_100: "(y::int) mod 400 = 0 \<Longrightarrow> y mod 100 = 0"
proof -
  assume "y mod 400 = 0"
  then have "400 dvd y" by (simp add: dvd_eq_mod_eq_0)
  moreover have "(100::int) dvd 400" by simp
  ultimately have "100 dvd y" using dvd_trans by blast
  then show ?thesis by (simp add: dvd_eq_mod_eq_0)
qed

lemma days_before_year_step:
  "days_before_year (y + 1) = days_before_year y + (if is_leap y then 366 else 365)"
proof -
  define a where "a = (y - 1) div 4"
  define b where "b = (y - 1) div 100"
  define c where "c = (y - 1) div 400"
  have a: "y div 4 = a + (if y mod 4 = 0 then 1 else 0)"
    unfolding a_def by (rule div_step) simp
  have b: "y div 100 = b + (if y mod 100 = 0 then 1 else 0)"
    unfolding b_def by (rule div_step) simp
  have c: "y div 400 = c + (if y mod 400 = 0 then 1 else 0)"
    unfolding c_def by (rule div_step) simp
  have l: "days_before_year (y + 1) = y * 365 + y div 4 - y div 100 + y div 400"
    by (simp add: days_before_year_def Let_def)
  have r: "days_before_year y = (y - 1) * 365 + a - b + c"
    by (simp add: days_before_year_def Let_def a_def b_def c_def)
  show ?thesis
  proof (cases "y mod 4 = 0")
    case False
    then have "y mod 100 \<noteq> 0" "y mod 400 \<noteq> 0"
      using mod_100_4 [of y] mod_400_100 [of y] by auto
    with False show ?thesis
      unfolding l r a b c is_leap_def by (simp add: algebra_simps)
  next
    case m4: True
    show ?thesis
    proof (cases "y mod 100 = 0")
      case False
      then have "y mod 400 \<noteq> 0" using mod_400_100 [of y] by auto
      with False m4 show ?thesis
        unfolding l r a b c is_leap_def by (simp add: algebra_simps)
    next
      case True
      with m4 show ?thesis
        unfolding l r a b c is_leap_def by (simp add: algebra_simps)
    qed
  qed
qed

lemma days_before_year_mono:
  assumes "y \<le> y'"
  shows "days_before_year y \<le> days_before_year y'"
  using assms
proof (induction y' rule: int_ge_induct)
  case base
  show ?case by simp
next
  case (step i)
  have "days_before_year i \<le> days_before_year (i + 1)"
    unfolding days_before_year_step by simp
  with step show ?case by simp
qed

lemma days_before_month_step:
  assumes "1 \<le> m" "m < 12"
  shows "days_before_month y (m + 1) = days_before_month y m + days_in_month y m"
proof -
  have "m = 1 \<or> m = 2 \<or> m = 3 \<or> m = 4 \<or> m = 5 \<or> m = 6 \<or> m = 7 \<or> m = 8 \<or> m = 9 \<or> m = 10 \<or> m = 11"
    using assms by arith
  then show ?thesis
    by (elim disjE) (simp_all add: days_before_month_def days_in_month_def DAYS_BEFORE_MONTH_def DAYS_IN_MONTH_def)
qed

lemma days_before_month_mono:
  assumes "1 \<le> m" "m \<le> m'" "m' \<le> 12"
  shows "days_before_month y m \<le> days_before_month y m'"
  using assms(2,1,3)
proof (induction m' rule: int_ge_induct)
  case base
  show ?case by simp
next
  case (step i)
  have "0 \<le> days_in_month y i"
    using step int_1_12 [of i]
    by (auto simp: days_in_month_def DAYS_IN_MONTH_def)
  then show ?case using step days_before_month_step [of i y] by simp
qed

lemma days_before_month_12:
  "days_before_month y 12 + days_in_month y 12 = (if is_leap y then 366 else 365)"
  by (simp add: days_before_month_def days_in_month_def DAYS_BEFORE_MONTH_def DAYS_IN_MONTH_def)

lemma days_in_month_pos: "1 \<le> m \<Longrightarrow> m \<le> 12 \<Longrightarrow> 28 \<le> days_in_month y m"
  using int_1_12 [of m] by (auto simp: days_in_month_def DAYS_IN_MONTH_def)

lemma days_before_month_nonneg: "1 \<le> m \<Longrightarrow> m \<le> 12 \<Longrightarrow> 0 \<le> days_before_month y m"
  using int_1_12 [of m] by (auto simp: days_before_month_def DAYS_BEFORE_MONTH_def)

lemma day_of_year_bound:
  assumes "1 \<le> m" "m \<le> 12" "d \<le> days_in_month y m"
  shows "days_before_month y m + d \<le> (if is_leap y then 366 else 365)"
proof (cases "m = 12")
  case True
  with assms days_before_month_12 [of y] show ?thesis by (simp split: if_splits)
next
  case False
  then have "days_before_month y (m + 1) \<le> days_before_month y 12"
    using assms by (intro days_before_month_mono) auto
  moreover have "days_before_month y (m + 1) = days_before_month y m + days_in_month y m"
    using assms False by (intro days_before_month_step) auto
  moreover have "0 \<le> days_in_month y 12" by (simp add: days_in_month_def DAYS_IN_MONTH_def)
  ultimately show ?thesis using assms days_before_month_12 [of y] by (simp split: if_splits)
qed

section \<open>Dates and ordinals\<close>

lemma toordinal_strict_mono:
  assumes "valid_date a" "valid_date b" "date_lt a b"
  shows "toordinal a < toordinal b"
proof -
  from assms(3) consider
      (y) "year a < year b"
    | (m) "year a = year b" "month a < month b"
    | (d) "year a = year b" "month a = month b" "day a < day b"
    by (auto simp: date_lt_def)
  then show ?thesis
  proof cases
    case y
    have "toordinal a \<le> days_before_year (year a) + (if is_leap (year a) then 366 else 365)"
      using assms(1) day_of_year_bound [of "month a" "day a" "year a"]
      by (simp add: valid_date_def toordinal_def ymd2ord_def split: if_splits)
    also have "\<dots> = days_before_year (year a + 1)"
      by (simp add: days_before_year_step)
    also have "\<dots> \<le> days_before_year (year b)"
      using y by (intro days_before_year_mono) simp
    also have "\<dots> < toordinal b"
      using assms(2) days_before_month_nonneg [of "month b" "year b"]
      by (simp add: valid_date_def toordinal_def ymd2ord_def)
    finally show ?thesis .
  next
    case m
    have "days_before_month (year a) (month a) + day a
            \<le> days_before_month (year a) (month a) + days_in_month (year a) (month a)"
      using assms(1) by (simp add: valid_date_def)
    also have "\<dots> = days_before_month (year a) (month a + 1)"
      using assms(1,2) m by (simp add: days_before_month_step valid_date_def)
    also have "\<dots> \<le> days_before_month (year b) (month b)"
      using assms(1,2) m days_before_month_mono [of "month a + 1" "month b" "year a"]
      by (simp add: valid_date_def)
    finally show ?thesis
      using assms(2) m by (simp add: toordinal_def ymd2ord_def valid_date_def)
  next
    case d
    then show ?thesis by (simp add: toordinal_def ymd2ord_def)
  qed
qed

lemma date_trichotomy: "date_lt a b \<or> a = b \<or> date_lt b a"
  by (cases a; cases b) (auto simp: date_lt_def)

lemma date_lt_irrefl: "\<not> date_lt a a"
  by (simp add: date_lt_def)

lemma date_lt_asym: "date_lt a b \<Longrightarrow> \<not> date_lt b a"
  by (auto simp: date_lt_def)

lemma date_lt_trans: "date_lt a b \<Longrightarrow> date_lt b c \<Longrightarrow> date_lt a c"
  by (auto simp: date_lt_def)

lemma date_lt_iff_toordinal:
  assumes "valid_date a" "valid_date b"
  shows "date_lt a b \<longleftrightarrow> toordinal a < toordinal b"
  using toordinal_strict_mono [OF assms] toordinal_strict_mono [OF assms(2,1)]
    date_trichotomy [of a b] by auto

lemma date_le_iff_toordinal:
  assumes "valid_date a" "valid_date b"
  shows "date_le a b \<longleftrightarrow> toordinal a \<le> toordinal b"
  using toordinal_strict_mono [OF assms] toordinal_strict_mono [OF assms(2,1)]
    date_trichotomy [of a b] by (auto simp: date_le_def)

lemma days_in_month_le: "1 \<le> m \<Longrightarrow> m \<le> 12 \<Longrightarrow> days_in_month y m \<le> 31"
  using int_1_12 [of m] by (auto simp: days_in_month_def DAYS_IN_MONTH_def)

lemma date_new_Inr:
  "date_new y m d = Inr r \<longleftrightarrow>
     (1 \<le> y \<and> y \<le> 9999 \<and> 1 \<le> m \<and> m \<le> 12 \<and> 1 \<le> d \<and> d \<le> days_in_month y m
      \<and> r = \<lparr>year = y, month = m, day = d\<rparr>)"
proof
  assume "date_new y m d = Inr r"
  then show "1 \<le> y \<and> y \<le> 9999 \<and> 1 \<le> m \<and> m \<le> 12 \<and> 1 \<le> d \<and> d \<le> days_in_month y m
      \<and> r = \<lparr>year = y, month = m, day = d\<rparr>"
    by (auto simp: date_new_def MINYEAR_def MAXYEAR_def split: if_splits)
next
  assume a: "1 \<le> y \<and> y \<le> 9999 \<and> 1 \<le> m \<and> m \<le> 12 \<and> 1 \<le> d \<and> d \<le> days_in_month y m
      \<and> r = \<lparr>year = y, month = m, day = d\<rparr>"
  then have "d \<le> 31" using days_in_month_le [of m y] by simp
  with a show "date_new y m d = Inr r"
    by (simp add: date_new_def c_int_def MINYEAR_def MAXYEAR_def)
qed

lemma date_new_Inl:
  "date_new y m d = Inl e \<longleftrightarrow>
     (e = OverflowError \<and> \<not> (c_int y \<and> c_int m \<and> c_int d)
      \<or> e = ValueError \<and> c_int y \<and> c_int m \<and> c_int d
        \<and> \<not> (1 \<le> y \<and> y \<le> 9999 \<and> 1 \<le> m \<and> m \<le> 12 \<and> 1 \<le> d \<and> d \<le> days_in_month y m))"
  by (auto simp: date_new_def MINYEAR_def MAXYEAR_def)

lemma date_new_valid: "date_new y m d = Inr r \<Longrightarrow> valid_date r"
  by (auto simp: date_new_Inr valid_date_def MINYEAR_def MAXYEAR_def)

lemma valid_date_c_int:
  assumes "valid_date d"
  shows "c_int (year d)" and "c_int (month d)" and "c_int (day d)"
  using assms days_in_month_le [of "month d" "year d"]
  by (simp_all add: valid_date_def c_int_def MINYEAR_def MAXYEAR_def)

section \<open>From ordinals to dates\<close>

lemma cut_bounds:
  fixes n0 :: int
  assumes "0 \<le> n0"
  defines "q400 \<equiv> n0 div 146097" and "r \<equiv> n0 mod 146097"
  defines "q100 \<equiv> r div 36524" and "r1 \<equiv> r mod 36524"
  defines "q4 \<equiv> r1 div 1461" and "r2 \<equiv> r1 mod 1461"
  defines "q1 \<equiv> r2 div 365" and "r3 \<equiv> r2 mod 365"
  shows "n0 = 146097 * q400 + 36524 * q100 + 1461 * q4 + 365 * q1 + r3"
    and "0 \<le> q400" and "0 \<le> q100" and "q100 \<le> 4" and "0 \<le> q4" and "q4 \<le> 24"
    and "0 \<le> q1" and "q1 \<le> 4" and "0 \<le> r3" and "r3 < 365"
    and "q100 = 4 \<Longrightarrow> q4 = 0 \<and> q1 = 0 \<and> r3 = 0"
    and "q1 = 4 \<Longrightarrow> r3 = 0 \<and> q4 \<le> 23"
proof -
  have e400: "n0 = 146097 * q400 + r" by (simp add: q400_def r_def)
  have e100: "r = 36524 * q100 + r1" by (simp add: q100_def r1_def)
  have e4: "r1 = 1461 * q4 + r2" by (simp add: q4_def r2_def)
  have e1: "r2 = 365 * q1 + r3" by (simp add: q1_def r3_def)
  have br: "0 \<le> r" "r < 146097" by (simp_all add: r_def)
  have br1: "0 \<le> r1" "r1 < 36524" by (simp_all add: r1_def)
  have br2: "0 \<le> r2" "r2 < 1461" by (simp_all add: r2_def)
  show br3: "0 \<le> r3" "r3 < 365" by (simp_all add: r3_def)
  show "0 \<le> q400" using assms(1) by (simp add: q400_def pos_imp_zdiv_nonneg_iff)
  show bq100: "0 \<le> q100" using br(1) by (simp add: q100_def pos_imp_zdiv_nonneg_iff)
  show "q100 \<le> 4" using e100 br br1 by linarith
  show bq4: "0 \<le> q4" using br1(1) by (simp add: q4_def pos_imp_zdiv_nonneg_iff)
  show "q4 \<le> 24" using e4 br1 br2 by linarith
  show bq1: "0 \<le> q1" using br2(1) by (simp add: q1_def pos_imp_zdiv_nonneg_iff)
  show "q1 \<le> 4" using e1 br2 br3 by linarith
  show "n0 = 146097 * q400 + 36524 * q100 + 1461 * q4 + 365 * q1 + r3"
    using e400 e100 e4 e1 by linarith
  show "q4 = 0 \<and> q1 = 0 \<and> r3 = 0" if "q100 = 4"
    using that e100 br br1 e4 br2 e1 br3 bq4 bq1 by linarith
  show "r3 = 0 \<and> q4 \<le> 23" if "q1 = 4"
    using that e1 br2 br3 e4 br1 by linarith
qed

lemma cut_result:
  fixes q400 q100 q4 q1 r3 :: int
  assumes bq400: "0 \<le> q400" and bq100: "0 \<le> q100" "q100 \<le> 4" and bq4: "0 \<le> q4" "q4 \<le> 24"
    and bq1: "0 \<le> q1" "q1 \<le> 4" and br3: "0 \<le> r3" "r3 < 365"
    and s100: "q100 = 4 \<Longrightarrow> q4 = 0 \<and> q1 = 0 \<and> r3 = 0"
    and s1: "q1 = 4 \<Longrightarrow> r3 = 0 \<and> q4 \<le> 23"
  shows "ymd_ok (146097 * q400 + 36524 * q100 + 1461 * q4 + 365 * q1 + r3 + 1)
     (if q1 = 4 \<or> q100 = 4 then (q400 * 400 + 1 + q100 * 100 + q4 * 4 + q1 - 1, 12, 31)
      else case month_day (q1 = 3 \<and> (q4 \<noteq> 24 \<or> q100 = 3)) r3 of
             (m, d) \<Rightarrow> (q400 * 400 + 1 + q100 * 100 + q4 * 4 + q1, m, d))"
proof -
  consider (c100) "q100 = 4" | (c1) "q100 \<le> 3" "q1 = 4" | (reg) "q100 \<le> 3" "q1 \<le> 3"
    using bq100 bq1 by linarith
  then show ?thesis
  proof cases
    case c100
    then have z: "q4 = 0" "q1 = 0" "r3 = 0" using s100 by simp_all
    let ?y = "400 * q400 + 100 * 3 + 4 * 24 + 3 + 1"
    have leap: "is_leap ?y" by (subst is_leap_cycles) simp_all
    have dby: "days_before_year ?y = 146097 * q400 + 36524 * 3 + 1461 * 24 + 365 * 3"
      by (rule days_before_year_cycles) simp_all
    have "ymd2ord ?y 12 31 = 146097 * q400 + 36524 * 4 + 1"
      unfolding ymd2ord_def dby using leap
      by (simp add: days_before_month_def DAYS_BEFORE_MONTH_def)
    moreover have "31 \<le> days_in_month ?y 12" by (simp add: days_in_month_def DAYS_IN_MONTH_def)
    moreover have "1 \<le> ?y" using bq400 by simp
    ultimately have ok: "ymd_ok (146097 * q400 + 36524 * 4 + 1) (?y, 12, 31)"
      by (simp add: ymd_ok_def)
    have t: "(if q1 = 4 \<or> q100 = 4 then (q400 * 400 + 1 + q100 * 100 + q4 * 4 + q1 - 1, 12, 31)
      else case month_day (q1 = 3 \<and> (q4 \<noteq> 24 \<or> q100 = 3)) r3 of
             (m, d) \<Rightarrow> (q400 * 400 + 1 + q100 * 100 + q4 * 4 + q1, m, d)) = (?y, 12, 31)"
      using c100 z by simp
    have nn: "146097 * q400 + 36524 * q100 + 1461 * q4 + 365 * q1 + r3 + 1
      = 146097 * q400 + 36524 * 4 + 1"
      using c100 z by simp
    show ?thesis unfolding t nn by (rule ok)
  next
    case c1
    then have z: "r3 = 0" "q4 \<le> 23" using s1 by simp_all
    let ?y = "400 * q400 + 100 * q100 + 4 * q4 + 3 + 1"
    have leap: "is_leap ?y" using c1 z bq100 bq4 by (subst is_leap_cycles) simp_all
    have dby: "days_before_year ?y = 146097 * q400 + 36524 * q100 + 1461 * q4 + 365 * 3"
      using c1 z bq100 bq4 by (intro days_before_year_cycles) simp_all
    have "ymd2ord ?y 12 31 = 146097 * q400 + 36524 * q100 + 1461 * q4 + 365 * 4 + 1"
      unfolding ymd2ord_def dby using leap
      by (simp add: days_before_month_def DAYS_BEFORE_MONTH_def)
    moreover have "31 \<le> days_in_month ?y 12" by (simp add: days_in_month_def DAYS_IN_MONTH_def)
    moreover have "1 \<le> ?y" using bq400 bq100 bq4 by simp
    ultimately have ok: "ymd_ok (146097 * q400 + 36524 * q100 + 1461 * q4 + 365 * 4 + 1) (?y, 12, 31)"
      by (simp add: ymd_ok_def)
    have t: "(if q1 = 4 \<or> q100 = 4 then (q400 * 400 + 1 + q100 * 100 + q4 * 4 + q1 - 1, 12, 31)
      else case month_day (q1 = 3 \<and> (q4 \<noteq> 24 \<or> q100 = 3)) r3 of
             (m, d) \<Rightarrow> (q400 * 400 + 1 + q100 * 100 + q4 * 4 + q1, m, d)) = (?y, 12, 31)"
      using c1 by simp
    have nn: "146097 * q400 + 36524 * q100 + 1461 * q4 + 365 * q1 + r3 + 1
      = 146097 * q400 + 36524 * q100 + 1461 * q4 + 365 * 4 + 1"
      using c1 z by simp
    show ?thesis unfolding t nn by (rule ok)
  next
    case reg
    let ?y = "400 * q400 + 100 * q100 + 4 * q4 + q1 + 1"
    have leap: "is_leap ?y \<longleftrightarrow> (q1 = 3 \<and> (q4 \<noteq> 24 \<or> q100 = 3))"
      using reg bq100 bq4 bq1 by (intro is_leap_cycles) simp_all
    have dby: "days_before_year ?y = 146097 * q400 + 36524 * q100 + 1461 * q4 + 365 * q1"
      using reg bq100 bq4 bq1 by (intro days_before_year_cycles) simp_all
    obtain m d where md: "month_day (is_leap ?y) r3 = (m, d)" by (cases "month_day (is_leap ?y) r3")
    have k: "1 \<le> m \<and> m \<le> 12 \<and> 1 \<le> d \<and> d \<le> days_in_month ?y m \<and> days_before_month ?y m + d = r3 + 1"
      using br3 md by (rule month_day_ok)
    have "ymd2ord ?y m d = 146097 * q400 + 36524 * q100 + 1461 * q4 + 365 * q1 + r3 + 1"
      unfolding ymd2ord_def dby using k by simp
    moreover have "1 \<le> ?y" using bq400 bq100 bq4 bq1 by simp
    ultimately have ok: "ymd_ok (146097 * q400 + 36524 * q100 + 1461 * q4 + 365 * q1 + r3 + 1) (?y, m, d)"
      using k by (simp add: ymd_ok_def)
    have md': "month_day (q1 = 3 \<and> (q4 \<noteq> 24 \<or> q100 = 3)) r3 = (m, d)"
      using md leap by simp
    have t: "(if q1 = 4 \<or> q100 = 4 then (q400 * 400 + 1 + q100 * 100 + q4 * 4 + q1 - 1, 12, 31)
      else case month_day (q1 = 3 \<and> (q4 \<noteq> 24 \<or> q100 = 3)) r3 of
             (m, d) \<Rightarrow> (q400 * 400 + 1 + q100 * 100 + q4 * 4 + q1, m, d)) = (?y, m, d)"
      unfolding md' using reg by simp
    show ?thesis unfolding t by (rule ok)
  qed
qed

lemma ord2ymd_correct:
  assumes "1 \<le> n"
  shows "ymd_ok n (ord2ymd n)"
proof -
  have n0: "0 \<le> n - 1" using assms by simp
  note cb = cut_bounds [OF n0]
  have e: "n = n - 1 + 1" by simp
  show ?thesis
    unfolding ord2ymd_def Let_def DI400Y_def DI100Y_def DI4Y_def
    apply (subst e)
    apply (subst cb(1))
    apply (rule cut_result [OF cb(2-12)])
     apply assumption+
    done
qed

lemma days_before_year_10000: "days_before_year 10000 = 3652059"
  by (simp add: days_before_year_def)

lemma fromordinal_correct:
  assumes "1 \<le> n" "n \<le> MAXORDINAL"
  obtains d where "fromordinal n = Inr d" "valid_date d" "toordinal d = n"
proof -
  obtain y m d where o: "ord2ymd n = (y, m, d)" by (cases "ord2ymd n")
  have b: "1 \<le> y" "1 \<le> m" "m \<le> 12" "1 \<le> d" "d \<le> days_in_month y m"
    and e: "ymd2ord y m d = n"
    using ord2ymd_correct [OF assms(1)] by (simp_all add: o ymd_ok_def)
  have "y \<le> 9999"
  proof (rule ccontr)
    assume "\<not> y \<le> 9999"
    then have "days_before_year 10000 \<le> days_before_year y"
      by (intro days_before_year_mono) simp
    moreover have "days_before_year y < n"
      using e b days_before_month_nonneg [of m y] by (simp add: ymd2ord_def)
    ultimately show False using assms(2) by (simp add: days_before_year_10000 MAXORDINAL_def)
  qed
  then have "fromordinal n = Inr \<lparr>year = y, month = m, day = d\<rparr>"
    using o b by (simp add: fromordinal_def date_new_Inr)
  moreover have "valid_date \<lparr>year = y, month = m, day = d\<rparr>"
    using b \<open>y \<le> 9999\<close> by (simp add: valid_date_def MINYEAR_def MAXYEAR_def)
  moreover have "toordinal \<lparr>year = y, month = m, day = d\<rparr> = n"
    using e by (simp add: toordinal_def)
  ultimately show ?thesis by (rule that)
qed

section \<open>Adding years and the stage\<close>

lemma safe_add_years_Inr:
  assumes "safe_add_years d n = Inr r"
  shows "valid_date r" and "year r = year d + n" and "1 \<le> year d + n" and "year d + n \<le> 9999"
  using assms
  by (auto simp: safe_add_years_def date_new_Inr date_new_Inl valid_date_def MINYEAR_def MAXYEAR_def
      split: sum.splits if_splits)

lemma safe_add_years_Inl:
  assumes "safe_add_years d n = Inl e" "valid_date d" "c_int (year d + n)"
  shows "e = ValueError"
  using assms valid_date_c_int [OF assms(2)]
  by (auto simp: safe_add_years_def date_new_Inl c_int_def split: sum.splits if_splits)

lemma days_in_month_2: "28 \<le> days_in_month y 2"
  by (simp add: days_in_month_def DAYS_IN_MONTH_def)

lemma safe_add_years_total:
  assumes "valid_date d" "1 \<le> year d + n" "year d + n \<le> 9999"
  shows "\<exists>r. safe_add_years d n = Inr r"
proof (cases "date_new (year d + n) (month d) (day d)")
  case (Inr r)
  then show ?thesis by (simp add: safe_add_years_def)
next
  case (Inl e)
  have "c_int (year d + n)" using assms(2,3) by (simp add: c_int_def)
  then have e: "e = ValueError"
    using Inl valid_date_c_int [OF assms(1)] by (auto simp: date_new_Inl)
  have "date_new (year d + n) 2 28 = Inr \<lparr>year = year d + n, month = 2, day = 28\<rparr>"
    using assms days_in_month_2 [of "year d + n"] by (simp add: date_new_Inr)
  with Inl e show ?thesis by (simp add: safe_add_years_def)
qed

lemma safe_add_years_out_of_range:
  assumes "valid_date d" "c_int (year d + n)" "\<not> (1 \<le> year d + n \<and> year d + n \<le> 9999)"
  shows "safe_add_years d n = Inl ValueError"
proof -
  have "date_new (year d + n) (month d) (day d) = Inl ValueError"
    using assms valid_date_c_int [OF assms(1)] by (auto simp: date_new_Inl)
  moreover have "date_new (year d + n) 2 28 = Inl ValueError"
    using assms by (auto simp: date_new_Inl c_int_def)
  ultimately show ?thesis by (simp add: safe_add_years_def)
qed

lemma safe_add_years_feb29:
  assumes "month d = 2" "day d = 29" "\<not> is_leap (year d + n)"
    "1 \<le> year d + n" "year d + n \<le> 9999"
  shows "safe_add_years d n = Inr \<lparr>year = year d + n, month = 2, day = 28\<rparr>"
proof -
  have "days_in_month (year d + n) 2 = 28"
    using assms(3) by (simp add: days_in_month_def DAYS_IN_MONTH_def)
  then have "date_new (year d + n) (month d) (day d) = Inl ValueError"
    "date_new (year d + n) 2 28 = Inr \<lparr>year = year d + n, month = 2, day = 28\<rparr>"
    using assms by (simp_all add: date_new_Inl date_new_Inr c_int_def)
  then show ?thesis by (simp add: safe_add_years_def)
qed

lemma safe_add_years_value:
  assumes "valid_date d" "1 \<le> year d + n" "year d + n \<le> 9999"
  shows "safe_add_years d n = Inr (clamp_add_years d n)"
proof -
  have b: "1 \<le> month d" "month d \<le> 12" "1 \<le> day d" "day d \<le> days_in_month (year d) (month d)"
    using assms(1) by (simp_all add: valid_date_def)
  have other: "days_in_month (year d + n) (month d) = days_in_month (year d) (month d)"
    if "month d \<noteq> 2"
    using that by (simp add: days_in_month_def)
  have feb: "day d \<le> 29" "28 \<le> days_in_month (year d + n) 2"
    "is_leap (year d + n) \<Longrightarrow> days_in_month (year d + n) 2 = 29"
    "\<not> is_leap (year d + n) \<Longrightarrow> days_in_month (year d + n) 2 = 28"
    if "month d = 2"
    using that b by (simp_all add: days_in_month_def DAYS_IN_MONTH_def split: if_splits)
  show ?thesis
  proof (cases "month d = 2 \<and> day d = 29 \<and> \<not> is_leap (year d + n)")
    case True
    then show ?thesis
      using safe_add_years_feb29 [of d n] assms by (simp add: clamp_add_years_def)
  next
    case False
    have "day d \<le> days_in_month (year d + n) (month d)"
    proof (cases "month d = 2")
      case m: True
      show ?thesis
      proof (cases "is_leap (year d + n)")
        case True
        then show ?thesis using feb(1,3) [OF m] m by simp
      next
        case nl: False
        then have "day d \<noteq> 29" using False m by simp
        then show ?thesis using feb(1,4) [OF m] nl m by simp
      qed
    next
      case False
      then show ?thesis using other b by simp
    qed
    then have "date_new (year d + n) (month d) (day d)
        = Inr \<lparr>year = year d + n, month = month d, day = day d\<rparr>"
      using assms b by (simp add: date_new_Inr)
    then show ?thesis using False by (auto simp: safe_add_years_def clamp_add_years_def)
  qed
qed

lemma safe_add_years_lt:
  assumes "safe_add_years d a = Inr ra" "safe_add_years d b = Inr rb" "a < b"
  shows "date_lt ra rb"
  using safe_add_years_Inr(2) [OF assms(1)] safe_add_years_Inr(2) [OF assms(2)] assms(3)
  by (simp add: date_lt_def)

lemma date_le_trans: "date_le a b \<Longrightarrow> date_le b c \<Longrightarrow> date_le a c"
  using date_lt_trans by (auto simp: date_le_def)

lemma date_lt_le_trans: "date_lt a b \<Longrightarrow> date_le b c \<Longrightarrow> date_lt a c"
  using date_lt_trans by (auto simp: date_le_def)


lemma not_date_le: "\<not> date_le a b \<longleftrightarrow> date_lt b a"
  using date_trichotomy [of a b] date_lt_asym [of a b] date_lt_irrefl [of a]
  by (auto simp: date_le_def)

lemma not_date_lt: "\<not> date_lt a b \<longleftrightarrow> date_le b a"
  using date_trichotomy [of a b] date_lt_asym [of a b] date_lt_irrefl [of a]
  by (auto simp: date_le_def)

lemma current_passport_stage_thresholds:
  assumes "safe_add_years birth 14 = Inr d14" "safe_add_years birth 20 = Inr d20"
    "safe_add_years birth 45 = Inr d45"
  shows "date_lt d14 d20" and "date_lt d20 d45"
    and "current_passport_stage birth issue = Inr (stage_of d14 d20 d45 issue)"
proof -
  show a: "date_lt d14 d20" using assms(1,2) by (rule safe_add_years_lt) simp
  show b: "date_lt d20 d45" using assms(2,3) by (rule safe_add_years_lt) simp
  show "current_passport_stage birth issue = Inr (stage_of d14 d20 d45 issue)"
    using a b date_lt_trans [of issue d14 d20] date_lt_trans [of issue d20 d45]
    by (simp add: current_passport_stage_def stage_of_def assms not_date_le [symmetric]
        not_date_lt)
qed


lemmas date_eval =
  date_le_def date_lt_def date_new_def c_int_def MINYEAR_def MAXYEAR_def days_in_month_def
  DAYS_IN_MONTH_def is_leap_def valid_date_def safe_add_years_def

lemmas ordinal_eval =
  date_add_days_def days_between_def toordinal_def ymd2ord_def days_before_year_def
  days_before_month_def DAYS_BEFORE_MONTH_def MAXORDINAL_def fromordinal_def ord2ymd_def
  month_day_def DI400Y_def DI100Y_def DI4Y_def Let_def




section \<open>The status report\<close>

lemma toordinal_pos:
  assumes "valid_date d"
  shows "1 \<le> toordinal d"
proof -
  have "days_before_year 1 \<le> days_before_year (year d)"
    using assms by (intro days_before_year_mono) (simp add: valid_date_def MINYEAR_def)
  moreover have "days_before_year 1 = 0" by (simp add: days_before_year_def)
  moreover have "0 \<le> days_before_month (year d) (month d)"
    using assms by (intro days_before_month_nonneg) (simp_all add: valid_date_def)
  ultimately show ?thesis
    using assms by (simp add: toordinal_def ymd2ord_def valid_date_def)
qed

lemma toordinal_le_next_year:
  assumes "valid_date d"
  shows "toordinal d \<le> days_before_year (year d + 1)"
  using assms day_of_year_bound [of "month d" "day d" "year d"]
  by (simp add: toordinal_def ymd2ord_def valid_date_def days_before_year_step split: if_splits)

lemma date_add_days_Inr:
  assumes "date_add_days d k = Inr r"
  shows "valid_date r" and "toordinal r = toordinal d + k"
proof -
  have b: "1 \<le> toordinal d + k" "toordinal d + k \<le> MAXORDINAL" and f: "fromordinal (toordinal d + k) = Inr r"
    using assms by (auto simp: date_add_days_def Let_def split: if_splits)
  obtain r' where "fromordinal (toordinal d + k) = Inr r'" "valid_date r'" "toordinal r' = toordinal d + k"
    using fromordinal_correct [OF b] by blast
  with f show "valid_date r" and "toordinal r = toordinal d + k" by simp_all
qed

lemma date_add_days_cases:
  "(\<exists>r. date_add_days d k = Inr r \<and> 0 < toordinal d + k \<and> toordinal d + k \<le> MAXORDINAL)
   \<or> (date_add_days d k = Inl OverflowError \<and> \<not> (0 < toordinal d + k \<and> toordinal d + k \<le> MAXORDINAL))"
proof (cases "0 < toordinal d + k \<and> toordinal d + k \<le> MAXORDINAL")
  case True
  then have b: "1 \<le> toordinal d + k" "toordinal d + k \<le> MAXORDINAL" by simp_all
  obtain r' where "fromordinal (toordinal d + k) = Inr r'"
    using fromordinal_correct [OF b] by blast
  with True show ?thesis by (simp add: date_add_days_def Let_def)
next
  case False
  then have "date_add_days d k = Inl OverflowError"
    unfolding date_add_days_def Let_def by (simp only: if_False)
  with False show ?thesis by blast
qed

lemma date_add_days_later:
  assumes "valid_date d" "date_add_days d k = Inr r" "0 < k"
  shows "date_lt d r"
  using date_add_days_Inr [OF assms(2)] assms(1,3)
  by (simp add: date_lt_iff_toordinal)

lemma compute_status_unfold:
  assumes "safe_add_years birth 20 = Inr d20" "safe_add_years birth 45 = Inr d45"
    "current_passport_stage birth issue = Inr stage"
  shows "compute_status birth issue today =
    (case chosen_next_change stage d20 d45 today of
       None \<Rightarrow> Inr (no_more_report (classify_passport_stage_text stage))
     | Some nc \<Rightarrow>
         (case date_add_days nc 90 of
            Inl e \<Rightarrow> Inl e
          | Inr dl \<Rightarrow>
              Inr \<lparr>stage_label = classify_passport_stage_text stage, next_change = Some nc,
                    deadline = Some dl,
                    status_kind = (if date_lt dl today then ''invalid''
                                   else if date_le nc today then ''due'' else ''ok''),
                    days_left = (if date_lt dl today then None
                                 else if date_le nc today then Some (days_between dl today)
                                 else Some (days_between nc today))\<rparr>))"
  unfolding compute_status_def assms chosen_next_change_def
  by (simp add: Let_def split: sum.splits)

lemma chosen_next_change_cases:
  assumes "chosen_next_change stage d20 d45 today = Some nc"
  shows "nc = d20 \<or> nc = d45"
  using assms by (auto simp: chosen_next_change_def split: if_splits)

text \<open>
  Claim C1, as amended. For a well-formed birth date of a year up to 9954 and a
  well-formed today, the thresholds and the stage exist, and \<^verbatim>\<open>compute_status\<close> is
  decided by the next change date chosen from them. Without a next change date the report
  is the \<^verbatim>\<open>no_more\<close> report. With a next change date \<open>nc\<close>, when \<open>nc\<close> plus 90
  days is after 9999-12-31 the call raises \<^verbatim>\<open>OverflowError\<close>; otherwise the deadline
  \<open>dl\<close> is that date, it lies after \<open>nc\<close>, exactly one of three cases holds, and it
  decides the report: today after \<open>dl\<close> gives \<^verbatim>\<open>invalid\<close> with no days left; today
  from \<open>nc\<close> to \<open>dl\<close> gives \<^verbatim>\<open>due\<close> with the days from today to \<open>dl\<close>, which
  are not negative; today before \<open>nc\<close> gives \<^verbatim>\<open>ok\<close> with the days from today to
  \<open>nc\<close>, which are positive.
\<close>

theorem compute_status_classification:
  assumes "valid_date birth" "valid_date today" "year birth \<le> 9954"
  shows "\<exists>d20 d45 stage.
      safe_add_years birth 20 = Inr d20 \<and> safe_add_years birth 45 = Inr d45
    \<and> current_passport_stage birth issue = Inr stage
    \<and> (case chosen_next_change stage d20 d45 today of
          None \<Rightarrow>
            compute_status birth issue today
              = Inr (no_more_report (classify_passport_stage_text stage))
        | Some nc \<Rightarrow>
            (case date_add_days nc 90 of
               Inl e \<Rightarrow> e = OverflowError
                 \<and> compute_status birth issue today = Inl OverflowError
             | Inr dl \<Rightarrow>
                 date_lt nc dl
               \<and> (date_lt dl today \<or> date_le nc today \<and> date_le today dl
                    \<or> date_lt today nc)
               \<and> \<not> (date_lt dl today \<and> date_le today dl)
               \<and> \<not> (date_lt dl today \<and> date_lt today nc)
               \<and> \<not> (date_le nc today \<and> date_lt today nc)
               \<and> (date_lt dl today \<longrightarrow>
                    compute_status birth issue today
                      = Inr \<lparr>stage_label = classify_passport_stage_text stage,
                              next_change = Some nc, deadline = Some dl,
                              status_kind = ''invalid'', days_left = None\<rparr>)
               \<and> (date_le nc today \<and> date_le today dl \<longrightarrow>
                    compute_status birth issue today
                      = Inr \<lparr>stage_label = classify_passport_stage_text stage,
                              next_change = Some nc, deadline = Some dl,
                              status_kind = ''due'',
                              days_left = Some (days_between dl today)\<rparr>
                    \<and> 0 \<le> days_between dl today)
               \<and> (date_lt today nc \<longrightarrow>
                    compute_status birth issue today
                      = Inr \<lparr>stage_label = classify_passport_stage_text stage,
                              next_change = Some nc, deadline = Some dl,
                              status_kind = ''ok'',
                              days_left = Some (days_between nc today)\<rparr>
                    \<and> 0 < days_between nc today)))"
proof -
  have y: "1 \<le> year birth" using assms(1) by (simp add: valid_date_def MINYEAR_def)
  obtain d14 d20 d45 where d: "safe_add_years birth 14 = Inr d14"
    "safe_add_years birth 20 = Inr d20" "safe_add_years birth 45 = Inr d45"
    using safe_add_years_total [OF assms(1), of 14] safe_add_years_total [OF assms(1), of 20]
      safe_add_years_total [OF assms(1), of 45] assms(3) y by auto
  define stage where "stage = stage_of d14 d20 d45 issue"
  have st: "current_passport_stage birth issue = Inr stage"
    unfolding stage_def by (rule current_passport_stage_thresholds(3) [OF d])
  note cs = compute_status_unfold [OF d(2,3) st, of today]
  have v: "valid_date d20" "valid_date d45"
    using d(2,3) safe_add_years_Inr(1) by blast+
  have main: "case chosen_next_change stage d20 d45 today of
          None \<Rightarrow>
            compute_status birth issue today
              = Inr (no_more_report (classify_passport_stage_text stage))
        | Some nc \<Rightarrow>
            (case date_add_days nc 90 of
               Inl e \<Rightarrow> e = OverflowError
                 \<and> compute_status birth issue today = Inl OverflowError
             | Inr dl \<Rightarrow>
                 date_lt nc dl
               \<and> (date_lt dl today \<or> date_le nc today \<and> date_le today dl
                    \<or> date_lt today nc)
               \<and> \<not> (date_lt dl today \<and> date_le today dl)
               \<and> \<not> (date_lt dl today \<and> date_lt today nc)
               \<and> \<not> (date_le nc today \<and> date_lt today nc)
               \<and> (date_lt dl today \<longrightarrow>
                    compute_status birth issue today
                      = Inr \<lparr>stage_label = classify_passport_stage_text stage,
                              next_change = Some nc, deadline = Some dl,
                              status_kind = ''invalid'', days_left = None\<rparr>)
               \<and> (date_le nc today \<and> date_le today dl \<longrightarrow>
                    compute_status birth issue today
                      = Inr \<lparr>stage_label = classify_passport_stage_text stage,
                              next_change = Some nc, deadline = Some dl,
                              status_kind = ''due'',
                              days_left = Some (days_between dl today)\<rparr>
                    \<and> 0 \<le> days_between dl today)
               \<and> (date_lt today nc \<longrightarrow>
                    compute_status birth issue today
                      = Inr \<lparr>stage_label = classify_passport_stage_text stage,
                              next_change = Some nc, deadline = Some dl,
                              status_kind = ''ok'',
                              days_left = Some (days_between nc today)\<rparr>
                    \<and> 0 < days_between nc today))"
  proof (cases "chosen_next_change stage d20 d45 today")
    case None
    then show ?thesis by (simp add: cs)
  next
    case (Some nc)
    have vnc: "valid_date nc" using chosen_next_change_cases [OF Some] v by auto
    show ?thesis
    proof (cases "date_add_days nc 90")
      case (Inl e)
      then have "e = OverflowError" using date_add_days_cases [of nc 90] by auto
      then show ?thesis using Some Inl by (simp add: cs)
    next
      case (Inr dl)
      have vdl: "valid_date dl" and o: "toordinal dl = toordinal nc + 90"
        using date_add_days_Inr [OF Inr] by simp_all
      have 0: "date_lt nc dl" using vnc vdl o by (simp add: date_lt_iff_toordinal)
      have 1: "date_lt dl today \<longleftrightarrow> toordinal dl < toordinal today"
        using vdl assms(2) by (rule date_lt_iff_toordinal)
      have 2: "date_le nc today \<longleftrightarrow> toordinal nc \<le> toordinal today"
        using vnc assms(2) by (rule date_le_iff_toordinal)
      have 3: "date_le today dl \<longleftrightarrow> toordinal today \<le> toordinal dl"
        using assms(2) vdl by (rule date_le_iff_toordinal)
      have 4: "date_lt today nc \<longleftrightarrow> toordinal today < toordinal nc"
        using assms(2) vnc by (rule date_lt_iff_toordinal)
      show ?thesis
        using 0 o by (auto simp: Some Inr cs 1 2 3 4 days_between_def)
    qed
  qed
  show ?thesis using d(2,3) st main by blast
qed

theorem compute_status_classification_witness:
  "valid_date \<lparr>year = 1990, month = 1, day = 1\<rparr>
   \<and> valid_date \<lparr>year = 2024, month = 6, day = 1\<rparr>
   \<and> year \<lparr>year = 1990, month = 1, day = 1\<rparr> \<le> 9954
   \<and> compute_status \<lparr>year = 1990, month = 1, day = 1\<rparr> \<lparr>year = 2010, month = 1, day = 1\<rparr>
        \<lparr>year = 2024, month = 6, day = 1\<rparr>
      = Inr \<lparr>stage_label = label_20, next_change = Some \<lparr>year = 2035, month = 1, day = 1\<rparr>,
             deadline = Some \<lparr>year = 2035, month = 4, day = 1\<rparr>, status_kind = ''ok'',
             days_left = Some 3866\<rparr>
   \<and> date_lt \<lparr>year = 2024, month = 6, day = 1\<rparr> \<lparr>year = 2035, month = 1, day = 1\<rparr>
   \<and> 0 < days_between \<lparr>year = 2035, month = 1, day = 1\<rparr> \<lparr>year = 2024, month = 6, day = 1\<rparr>"
  using compute_status_classification [of "\<lparr>year = 1990, month = 1, day = 1\<rparr>"
      "\<lparr>year = 2024, month = 6, day = 1\<rparr>" "\<lparr>year = 2010, month = 1, day = 1\<rparr>"]
  by (simp add: compute_status_def current_passport_stage_def classify_passport_stage_text_def
      date_eval ordinal_eval)

theorem compute_status_classification_counterexample:
  "valid_date \<lparr>year = 9954, month = 12, day = 1\<rparr>
   \<and> valid_date \<lparr>year = 9975, month = 1, day = 1\<rparr>
   \<and> valid_date \<lparr>year = 9990, month = 1, day = 1\<rparr>
   \<and> current_passport_stage \<lparr>year = 9954, month = 12, day = 1\<rparr>
        \<lparr>year = 9975, month = 1, day = 1\<rparr> = Inr (Some 20)
   \<and> safe_add_years \<lparr>year = 9954, month = 12, day = 1\<rparr> 45
      = Inr \<lparr>year = 9999, month = 12, day = 1\<rparr>
   \<and> chosen_next_change (Some 20) \<lparr>year = 9974, month = 12, day = 1\<rparr>
        \<lparr>year = 9999, month = 12, day = 1\<rparr> \<lparr>year = 9990, month = 1, day = 1\<rparr>
      = Some \<lparr>year = 9999, month = 12, day = 1\<rparr>
   \<and> compute_status \<lparr>year = 9954, month = 12, day = 1\<rparr> \<lparr>year = 9975, month = 1, day = 1\<rparr>
        \<lparr>year = 9990, month = 1, day = 1\<rparr> = Inl OverflowError"
  by (simp add: compute_status_def current_passport_stage_def classify_passport_stage_text_def
      chosen_next_change_def date_eval ordinal_eval)

text \<open>
  Claim C2. Every report that \<^verbatim>\<open>compute_status\<close> returns satisfies the invariant of the
  record: with the status \<^verbatim>\<open>no_more\<close> there is neither a next change date nor a
  deadline; with the status \<^verbatim>\<open>invalid\<close> no days are left; and a deadline, when present,
  is the next change date plus 90 days.
\<close>

theorem compute_status_invariant:
  assumes "compute_status birth issue today = Inr r"
  shows "(status_kind r = ''no_more'' \<longrightarrow> next_change r = None \<and> deadline r = None)
     \<and> (status_kind r = ''invalid'' \<longrightarrow> days_left r = None)
     \<and> (\<forall>dl. deadline r = Some dl \<longrightarrow>
          (\<exists>nc. next_change r = Some nc \<and> date_add_days nc 90 = Inr dl))"
  using assms
  by (auto simp: compute_status_def Let_def no_more_report_def
      split: sum.splits option.splits if_splits prod.splits)

theorem compute_status_invariant_witness:
  "compute_status \<lparr>year = 1990, month = 1, day = 1\<rparr> \<lparr>year = 2010, month = 1, day = 1\<rparr>
        \<lparr>year = 2024, month = 6, day = 1\<rparr>
      = Inr \<lparr>stage_label = label_20, next_change = Some \<lparr>year = 2035, month = 1, day = 1\<rparr>,
             deadline = Some \<lparr>year = 2035, month = 4, day = 1\<rparr>, status_kind = ''ok'',
             days_left = Some 3866\<rparr>
   \<and> date_add_days \<lparr>year = 2035, month = 1, day = 1\<rparr> 90
      = Inr \<lparr>year = 2035, month = 4, day = 1\<rparr>"
  using compute_status_invariant [of "\<lparr>year = 1990, month = 1, day = 1\<rparr>"
      "\<lparr>year = 2010, month = 1, day = 1\<rparr>" "\<lparr>year = 2024, month = 6, day = 1\<rparr>"
      "\<lparr>stage_label = label_20, next_change = Some \<lparr>year = 2035, month = 1, day = 1\<rparr>,
        deadline = Some \<lparr>year = 2035, month = 4, day = 1\<rparr>, status_kind = ''ok'',
        days_left = Some 3866\<rparr>"]
  by (simp add: compute_status_def current_passport_stage_def classify_passport_stage_text_def
      date_eval ordinal_eval)

text \<open>
  Claim C3, as amended. For the birth date 1970-01-01, the issue date 1984-01-01 and today
  2020-01-01 the stage is 14, the next change date is 1990-01-01, the deadline is
  1990-04-01, the ninetieth day after it, and the status is \<^verbatim>\<open>invalid\<close>.
\<close>

theorem compute_status_example_2:
  "current_passport_stage \<lparr>year = 1970, month = 1, day = 1\<rparr>
     \<lparr>year = 1984, month = 1, day = 1\<rparr> = Inr (Some 14)
   \<and> compute_status \<lparr>year = 1970, month = 1, day = 1\<rparr> \<lparr>year = 1984, month = 1, day = 1\<rparr>
        \<lparr>year = 2020, month = 1, day = 1\<rparr>
      = Inr \<lparr>stage_label = label_14, next_change = Some \<lparr>year = 1990, month = 1, day = 1\<rparr>,
             deadline = Some \<lparr>year = 1990, month = 4, day = 1\<rparr>, status_kind = ''invalid'',
             days_left = None\<rparr>"
  by (simp add: compute_status_def current_passport_stage_def classify_passport_stage_text_def
      date_eval ordinal_eval)

theorem compute_status_example_2_counterexample:
  "compute_status \<lparr>year = 1970, month = 1, day = 1\<rparr> \<lparr>year = 1984, month = 1, day = 1\<rparr>
        \<lparr>year = 2020, month = 1, day = 1\<rparr>
      \<noteq> Inr \<lparr>stage_label = label_14, next_change = Some \<lparr>year = 1990, month = 1, day = 1\<rparr>,
             deadline = Some \<lparr>year = 1990, month = 3, day = 31\<rparr>, status_kind = ''invalid'',
             days_left = None\<rparr>
   \<and> date_add_days \<lparr>year = 1990, month = 1, day = 1\<rparr> 90
      \<noteq> Inr \<lparr>year = 1990, month = 3, day = 31\<rparr>"
  by (simp add: compute_status_def current_passport_stage_def classify_passport_stage_text_def
      date_eval ordinal_eval)

lemma compute_status_outcome:
  assumes d: "safe_add_years birth 14 = Inr d14" "safe_add_years birth 20 = Inr d20"
    "safe_add_years birth 45 = Inr d45"
  shows "(\<exists>r. compute_status birth issue today = Inr r)
     \<or> (compute_status birth issue today = Inl OverflowError
        \<and> (\<exists>nc. (nc = d20 \<or> nc = d45) \<and> MAXORDINAL < toordinal nc + 90))"
proof -
  obtain stage where st: "current_passport_stage birth issue = Inr stage"
    using current_passport_stage_thresholds(3) [OF d] by blast
  define label where "label = classify_passport_stage_text stage"
  define nxt where "nxt =
    (if stage = Some 20 then Some d45
     else if stage = Some 14 then Some d20
     else if date_lt today d20 then Some d20
     else if date_lt today d45 then Some d45
     else None)"
  define tail where "tail = (\<lambda>nc.
    case date_add_days nc 90 of Inl e \<Rightarrow> Inl e | Inr dl \<Rightarrow>
      let (kind, dleft) =
            (if date_lt dl today then (''invalid'', None)
             else if date_le nc today then (''due'', Some (days_between dl today))
             else (''ok'', Some (days_between nc today)))
      in Inr \<lparr>stage_label = label, next_change = Some nc,
              deadline = Some dl, status_kind = kind, days_left = dleft\<rparr>)"
  have cs: "compute_status birth issue today =
      (if stage = Some 45 then Inr (no_more_report label)
       else case nxt of None \<Rightarrow> Inr (no_more_report label) | Some nc \<Rightarrow> tail nc)"
    unfolding compute_status_def d st nxt_def tail_def label_def
    by (simp add: Let_def)
  have tl: "(\<exists>r. tail nc = Inr r)
      \<or> (tail nc = Inl OverflowError \<and> MAXORDINAL < toordinal nc + 90)"
    if "0 < toordinal nc + 90" for nc
    using date_add_days_cases [of nc 90] that
    by (auto simp: tail_def split: prod.splits)
  have v: "valid_date d20" "valid_date d45"
    using d(2,3) safe_add_years_Inr(1) by blast+
  have p: "0 < toordinal d20 + 90" "0 < toordinal d45 + 90"
    using toordinal_pos [OF v(1)] toordinal_pos [OF v(2)] by simp_all
  have nx: "nxt = None \<or> nxt = Some d20 \<or> nxt = Some d45"
    by (simp add: nxt_def)
  show ?thesis
  proof (cases "stage = Some 45")
    case True
    then show ?thesis by (simp add: cs)
  next
    case False
    from nx show ?thesis
    proof (elim disjE)
      assume "nxt = None"
      then show ?thesis using False by (simp add: cs)
    next
      assume n: "nxt = Some d20"
      have "compute_status birth issue today = tail d20"
        using False n by (simp add: cs)
      then show ?thesis using tl [OF p(1)] by auto
    next
      assume n: "nxt = Some d45"
      have "compute_status birth issue today = tail d45"
        using False n by (simp add: cs)
      then show ?thesis using tl [OF p(2)] by auto
    qed
  qed
qed

lemma date_add_days_in_range:
  assumes "valid_date d" "year d \<le> 9998"
  shows "toordinal d + 90 \<le> MAXORDINAL"
proof -
  have "toordinal d \<le> days_before_year (year d + 1)"
    using assms(1) by (rule toordinal_le_next_year)
  also have "\<dots> \<le> days_before_year 9999"
    using assms(2) by (intro days_before_year_mono) simp
  also have "\<dots> = 3651694" by (simp add: days_before_year_def)
  finally show ?thesis by (simp add: MAXORDINAL_def)
qed

text \<open>
  Claim C4, as amended. For a well-formed birth date of a year up to 9953, and any issue
  date and any today, \<^verbatim>\<open>compute_status\<close> returns a report: every case is covered, also
  the fallback of \<^verbatim>\<open>safe_add_years\<close> for 29 February. For a birth year from 9955 on the
  threshold of 45 years is after the year 9999 and the call raises \<^verbatim>\<open>ValueError\<close>; in
  the year 9954 it returns a report or raises \<^verbatim>\<open>OverflowError\<close>, when the next change
  date plus 90 days is after 9999-12-31.
\<close>

theorem compute_status_returns:
  assumes "valid_date birth"
  shows "(year birth \<le> 9953 \<longrightarrow> (\<exists>r. compute_status birth issue today = Inr r))
     \<and> (year birth = 9954 \<longrightarrow> (\<exists>r. compute_status birth issue today = Inr r)
           \<or> compute_status birth issue today = Inl OverflowError)
     \<and> (9955 \<le> year birth \<longrightarrow> compute_status birth issue today = Inl ValueError)"
proof (intro conjI impI)
  have b: "1 \<le> month birth" "month birth \<le> 12" "1 \<le> day birth" "1 \<le> year birth"
    using assms by (simp_all add: valid_date_def MINYEAR_def)
  have total: "\<exists>d14 d20 d45. safe_add_years birth 14 = Inr d14
      \<and> safe_add_years birth 20 = Inr d20 \<and> safe_add_years birth 45 = Inr d45"
    if "year birth \<le> 9954"
    using safe_add_years_total [OF assms, of 14] safe_add_years_total [OF assms, of 20]
      safe_add_years_total [OF assms, of 45] b that by auto
  {
    assume y: "year birth \<le> 9953"
    obtain d14 d20 d45 where d: "safe_add_years birth 14 = Inr d14"
      "safe_add_years birth 20 = Inr d20" "safe_add_years birth 45 = Inr d45"
      using total y by auto
    have "toordinal d20 + 90 \<le> MAXORDINAL" "toordinal d45 + 90 \<le> MAXORDINAL"
      using safe_add_years_Inr(1,2) [OF d(2)] safe_add_years_Inr(1,2) [OF d(3)] y
      by (auto intro!: date_add_days_in_range)
    then show "\<exists>r. compute_status birth issue today = Inr r"
      using compute_status_outcome [OF d, of issue today] by auto
  }
  {
    assume y: "year birth = 9954"
    obtain d14 d20 d45 where d: "safe_add_years birth 14 = Inr d14"
      "safe_add_years birth 20 = Inr d20" "safe_add_years birth 45 = Inr d45"
      using total y by auto
    show "(\<exists>r. compute_status birth issue today = Inr r)
       \<or> compute_status birth issue today = Inl OverflowError"
      using compute_status_outcome [OF d, of issue today] by auto
  }
  {
    assume y: "9955 \<le> year birth"
    have c: "c_int (year birth + 20)" "c_int (year birth + 45)"
      using assms by (simp_all add: c_int_def valid_date_def MINYEAR_def MAXYEAR_def)
    have 45: "safe_add_years birth 45 = Inl ValueError"
      using y assms c by (intro safe_add_years_out_of_range) simp_all
    show "compute_status birth issue today = Inl ValueError"
    proof (cases "safe_add_years birth 20")
      case (Inl e)
      then show ?thesis
        using safe_add_years_Inl [OF Inl assms c(1)] by (simp add: compute_status_def)
    next
      case (Inr d20)
      then show ?thesis using 45 by (simp add: compute_status_def)
    qed
  }
qed

theorem compute_status_returns_witness:
  "valid_date \<lparr>year = 1990, month = 1, day = 1\<rparr>
   \<and> year \<lparr>year = 1990, month = 1, day = 1\<rparr> \<le> 9953
   \<and> (\<exists>r. compute_status \<lparr>year = 1990, month = 1, day = 1\<rparr>
            \<lparr>year = 2010, month = 1, day = 1\<rparr> \<lparr>year = 2024, month = 6, day = 1\<rparr> = Inr r)"
  using compute_status_returns [of "\<lparr>year = 1990, month = 1, day = 1\<rparr>"
      "\<lparr>year = 2010, month = 1, day = 1\<rparr>" "\<lparr>year = 2024, month = 6, day = 1\<rparr>"]
  by (simp add: date_eval)

theorem compute_status_returns_counterexample:
  "valid_date \<lparr>year = 9960, month = 1, day = 1\<rparr>
   \<and> valid_date \<lparr>year = 9980, month = 1, day = 1\<rparr>
   \<and> valid_date \<lparr>year = 9990, month = 1, day = 1\<rparr>
   \<and> compute_status \<lparr>year = 9960, month = 1, day = 1\<rparr> \<lparr>year = 9980, month = 1, day = 1\<rparr>
        \<lparr>year = 9990, month = 1, day = 1\<rparr> = Inl ValueError"
  by (simp add: compute_status_def date_eval)

text \<open>
  Claim C6, as amended. For 29 February of a leap year and a number of years \<open>n\<close> such
  that the year \<open>year d + n\<close> is between 1 and 9999 and is not a leap year,
  \<^verbatim>\<open>safe_add_years\<close> returns 28 February of the year \<open>year d + n\<close> and raises no error.
\<close>

theorem safe_add_years_leap_day:
  assumes "valid_date d" "month d = 2" "day d = 29" "\<not> is_leap (year d + n)"
    "1 \<le> year d + n" "year d + n \<le> 9999"
  shows "safe_add_years d n = Inr \<lparr>year = year d + n, month = 2, day = 28\<rparr>"
  using assms(2-6) by (rule safe_add_years_feb29)

theorem safe_add_years_leap_day_witness:
  "valid_date \<lparr>year = 2000, month = 2, day = 29\<rparr> \<and> \<not> is_leap (2000 + 14)
   \<and> safe_add_years \<lparr>year = 2000, month = 2, day = 29\<rparr> 14
      = Inr \<lparr>year = 2014, month = 2, day = 28\<rparr>"
  using safe_add_years_leap_day [of "\<lparr>year = 2000, month = 2, day = 29\<rparr>" 14]
  by (simp add: valid_date_def MINYEAR_def MAXYEAR_def days_in_month_def is_leap_def)

theorem safe_add_years_leap_day_counterexample:
  "valid_date \<lparr>year = 9996, month = 2, day = 29\<rparr> \<and> is_leap 9996 \<and> \<not> is_leap (9996 + 5)
   \<and> safe_add_years \<lparr>year = 9996, month = 2, day = 29\<rparr> 5 = Inl ValueError"
  by (simp add: date_eval)

section \<open>Validation\<close>

lemma rd_add_result:
  assumes dt: "1 \<le> month dt" "month dt \<le> 12" "1 \<le> day dt"
    and k: "12 * Y + M = 12 * year dt + month dt + months"
    and b: "1 \<le> M" "M \<le> 12" "1 \<le> Y" "Y \<le> 9999"
  shows "rd_add (rd_set_months months) dt
    = Inr \<lparr>year = Y, month = M, day = min (days_in_month Y M) (day dt)\<rparr>"
proof -
  obtain y m where ym: "rd_set_months months = (y, m)" by (cases "rd_set_months months")
  have s: "y * 12 + m = months" "- 11 \<le> m" "m \<le> 11"
    using rd_set_months_sum [OF ym] by simp_all
  have u: "A = Y \<and> B = M" if "12 * A + B = 12 * Y + M" "1 \<le> B" "B \<le> 12" for A B
    using that b(1,2) by presburger
  have dn: "date_new Y M (min (days_in_month Y M) (day dt))
      = Inr \<lparr>year = Y, month = M, day = min (days_in_month Y M) (day dt)\<rparr>"
    using b dt(3) days_in_month_pos [of M Y] by (simp add: date_new_Inr)
  consider (zero) "m = 0" | (over) "m \<noteq> 0" "month dt + m > 12"
    | (under) "m \<noteq> 0" "month dt + m < 1"
    | (inside) "m \<noteq> 0" "1 \<le> month dt + m" "month dt + m \<le> 12"
    by linarith
  then show ?thesis
  proof cases
    case zero
    have "year dt + y = Y \<and> month dt = M"
      using k s zero dt by (intro u) simp_all
    then show ?thesis using zero dn b by (simp add: rd_add_def ym Let_def)
  next
    case over
    have "year dt + y + 1 = Y \<and> month dt + m - 12 = M"
      using k s over dt by (intro u) simp_all
    then show ?thesis using over dn b by (simp add: rd_add_def ym Let_def)
  next
    case under
    have "year dt + y - 1 = Y \<and> month dt + m + 12 = M"
      using k s under dt by (intro u) simp_all
    then show ?thesis using under dn b by (simp add: rd_add_def ym Let_def)
  next
    case inside
    have "year dt + y = Y \<and> month dt + m = M"
      using k s inside dt by (intro u) simp_all
    then show ?thesis using inside dn b by (simp add: rd_add_def ym Let_def)
  qed
qed

lemma rd_adjust_value:
  assumes v1: "valid_date dt1" and v2: "valid_date dt2"
    and m0: "m0 = (year dt1 - year dt2) * 12 + (month dt1 - month dt2)"
    and dtm0: "dtm0 = \<lparr>year = year dt1, month = month dt1,
      day = min (days_in_month (year dt1) (month dt1)) (day dt2)\<rparr>"
  shows "rd_adjust (date_lt dt1 dt2) dt1 dt2 m0 =
    Inr (m0 + (if date_lt dt1 dt2 then (if date_lt dtm0 dt1 then 1 else 0)
               else (if date_lt dt1 dtm0 then - 1 else 0)))"
proof -
  note m0_def = m0 and dtm0_def = dtm0
  have b1: "1 \<le> year dt1" "year dt1 \<le> 9999" "1 \<le> month dt1" "month dt1 \<le> 12"
    "1 \<le> day dt1" "day dt1 \<le> days_in_month (year dt1) (month dt1)"
    using v1 by (simp_all add: valid_date_def MINYEAR_def MAXYEAR_def)
  have b2: "1 \<le> year dt2" "year dt2 \<le> 9999" "1 \<le> month dt2" "month dt2 \<le> 12"
    "1 \<le> day dt2" "day dt2 \<le> days_in_month (year dt2) (month dt2)"
    using v2 by (simp_all add: valid_date_def MINYEAR_def MAXYEAR_def)
  have a0: "rd_add (rd_set_months m0) dt2 = Inr dtm0"
    unfolding dtm0_def using b1 b2 by (intro rd_add_result) (simp_all add: m0_def)
  have same: "dtm0 = dt2" if "year dt1 = year dt2" "month dt1 = month dt2"
    using that b2 by (simp add: dtm0_def min_def)
  show ?thesis
  proof (cases "date_lt dt1 dt2")
    case up: True
    show ?thesis
    proof (cases "date_lt dtm0 dt1")
      case DTM: False
      then have "rd_adjust True dt1 dt2 m0 = Inr m0"
        using a0 by (subst rd_adjust.simps) simp
      then show ?thesis using up DTM by simp
    next
      case DTM: True
      note True = DTM
      have ne: "\<not> (year dt1 = year dt2 \<and> month dt1 = month dt2)"
        using same True up date_lt_asym by blast
      then have lt: "12 * year dt1 + month dt1 < 12 * year dt2 + month dt2"
        using up b1 b2 by (auto simp: date_lt_def)
      define Y where "Y = (if month dt1 < 12 then year dt1 else year dt1 + 1)"
      define M where "M = (if month dt1 < 12 then month dt1 + 1 else 1)"
      define dtm1 where "dtm1 = \<lparr>year = Y, month = M,
        day = min (days_in_month Y M) (day dt2)\<rparr>"
      have YM: "12 * Y + M = 12 * year dt1 + month dt1 + 1" "1 \<le> M" "M \<le> 12" "1 \<le> Y"
        using b1 by (auto simp: Y_def M_def)
      have "Y \<le> year dt2" using YM lt b2 by linarith
      then have Y: "Y \<le> 9999" using b2 by simp
      have a1: "rd_add (rd_set_months (m0 + 1)) dt2 = Inr dtm1"
        unfolding dtm1_def using b2 YM Y by (intro rd_add_result) (simp_all add: m0_def)
      have "date_lt dt1 dtm1"
        using b1 by (auto simp: date_lt_def dtm1_def Y_def M_def)
      then have n1: "\<not> date_lt dtm1 dt1" using date_lt_asym by blast
      have "rd_adjust True dt1 dt2 (m0 + 1) = Inr (m0 + 1)"
        using a1 n1 by (subst rd_adjust.simps) simp
      then have "rd_adjust True dt1 dt2 m0 = Inr (m0 + 1)"
        using a0 True by (subst rd_adjust.simps) simp
      then show ?thesis using up DTM by simp
    qed
  next
    case down: False
    show ?thesis
    proof (cases "date_lt dt1 dtm0")
      case DTM: False
      then have "rd_adjust False dt1 dt2 m0 = Inr m0"
        using a0 by (subst rd_adjust.simps) simp
      then show ?thesis using down DTM by simp
    next
      case DTM: True
      note True = DTM
      have ne: "\<not> (year dt1 = year dt2 \<and> month dt1 = month dt2)"
        using same True down by auto
      have "date_le dt2 dt1" using down by (simp add: not_date_lt)
      then have lt: "12 * year dt2 + month dt2 < 12 * year dt1 + month dt1"
        using ne b1 b2 by (auto simp: date_le_def date_lt_def)
      define Y where "Y = (if 1 < month dt1 then year dt1 else year dt1 - 1)"
      define M where "M = (if 1 < month dt1 then month dt1 - 1 else 12)"
      define dtm1 where "dtm1 = \<lparr>year = Y, month = M,
        day = min (days_in_month Y M) (day dt2)\<rparr>"
      have YM: "12 * Y + M = 12 * year dt1 + month dt1 - 1" "1 \<le> M" "M \<le> 12" "Y \<le> 9999"
        using b1 by (auto simp: Y_def M_def)
      have "year dt2 \<le> Y" using YM lt b2 by linarith
      then have Y: "1 \<le> Y" using b2 by simp
      have a1: "rd_add (rd_set_months (m0 - 1)) dt2 = Inr dtm1"
        unfolding dtm1_def using b2 YM Y by (intro rd_add_result) (simp_all add: m0_def)
      have "date_lt dtm1 dt1"
        using b1 by (auto simp: date_lt_def dtm1_def Y_def M_def)
      then have n1: "\<not> date_lt dt1 dtm1" using date_lt_asym by blast
      have "rd_adjust False dt1 dt2 (m0 - 1) = Inr (m0 - 1)"
        using a1 n1 by (subst rd_adjust.simps) simp
      then have "rd_adjust False dt1 dt2 m0 = Inr (m0 - 1)"
        using a0 True by (subst rd_adjust.simps) simp
      then show ?thesis using down DTM by simp
    qed
  qed
qed

lemma rd_set_months_years:
  "fst (rd_set_months r) = (if 0 \<le> r then r div 12 else - ((- r) div 12))"
  by (auto simp: rd_set_months_def Let_def)

lemma date_le_index:
  assumes "1 \<le> month a" "month a \<le> 12" "1 \<le> month b" "month b \<le> 12"
  shows "date_le a b \<longleftrightarrow>
    12 * year a + month a < 12 * year b + month b
    \<or> (12 * year a + month a = 12 * year b + month b \<and> day a \<le> day b)"
proof -
  have e: "a = b \<longleftrightarrow> year a = year b \<and> month a = month b \<and> day a = day b"
    by (cases a; cases b) auto
  have i: "12 * year a + month a < 12 * year b + month b
      \<longleftrightarrow> year a < year b \<or> (year a = year b \<and> month a < month b)"
    using assms by linarith
  have j: "12 * year a + month a = 12 * year b + month b
      \<longleftrightarrow> year a = year b \<and> month a = month b"
    using assms by presburger
  show ?thesis unfolding i j date_le_def date_lt_def e by auto
qed

lemma clamp_day:
  assumes "valid_date d"
  shows "min (days_in_month (year d + n) (month d)) (day d) = day (clamp_add_years d n)"
proof -
  have b: "1 \<le> day d" "day d \<le> days_in_month (year d) (month d)"
    using assms by (simp_all add: valid_date_def)
  show ?thesis
  proof (cases "month d = 2")
    case False
    then show ?thesis using b by (simp add: clamp_add_years_def days_in_month_def)
  next
    case True
    then show ?thesis
      using b by (auto simp: clamp_add_years_def days_in_month_def DAYS_IN_MONTH_def
          split: if_splits)
  qed
qed

lemma relativedelta_years_ge:
  assumes v1: "valid_date dt1" and v2: "valid_date dt2" and n: "1 \<le> n"
  shows "\<exists>k. relativedelta_years dt1 dt2 = Inr k
    \<and> (n \<le> k \<longleftrightarrow> date_le (clamp_add_years dt2 n) dt1)"
proof -
  define m0 where "m0 = (year dt1 - year dt2) * 12 + (month dt1 - month dt2)"
  define dtm0 where "dtm0 = \<lparr>year = year dt1, month = month dt1,
    day = min (days_in_month (year dt1) (month dt1)) (day dt2)\<rparr>"
  define r where "r = m0 + (if date_lt dt1 dt2 then (if date_lt dtm0 dt1 then 1 else 0)
               else (if date_lt dt1 dtm0 then - 1 else 0))"
  have b1: "1 \<le> month dt1" "month dt1 \<le> 12"
    using v1 by (simp_all add: valid_date_def)
  have b2: "1 \<le> month dt2" "month dt2 \<le> 12" "day dt2 \<le> days_in_month (year dt2) (month dt2)"
    using v2 by (simp_all add: valid_date_def)
  have adj: "rd_adjust (date_lt dt1 dt2) dt1 dt2 m0 = Inr r"
    unfolding r_def using v1 v2 m0_def dtm0_def by (rule rd_adjust_value)
  have k: "relativedelta_years dt1 dt2 = Inr (fst (rd_set_months r))"
    using adj by (simp add: relativedelta_years_def Let_def m0_def)
  have same: "dtm0 = dt2" if "year dt1 = year dt2" "month dt1 = month dt2"
    using that b2 by (simp add: dtm0_def min_def)
  have bc: "1 \<le> month (clamp_add_years dt2 n)" "month (clamp_add_years dt2 n) \<le> 12"
    using b2 by (simp_all add: clamp_add_years_def)
  note le = date_le_index [OF bc b1]
  have cy: "year (clamp_add_years dt2 n) = year dt2 + n"
    "month (clamp_add_years dt2 n) = month dt2"
    by (simp_all add: clamp_add_years_def)
  show ?thesis
  proof (cases "date_lt dt1 dt2")
    case up: True
    have i: "12 * year dt1 + month dt1 \<le> 12 * year dt2 + month dt2"
      using up b1 b2 by (auto simp: date_lt_def)
    have "r \<le> 0"
    proof (cases "date_lt dtm0 dt1")
      case False
      then show ?thesis using up i by (simp add: r_def m0_def)
    next
      case True
      have "\<not> (year dt1 = year dt2 \<and> month dt1 = month dt2)"
        using same True up date_lt_asym by blast
      then have "12 * year dt1 + month dt1 < 12 * year dt2 + month dt2"
        using up b1 b2 by (auto simp: date_lt_def)
      then show ?thesis using up True by (simp add: r_def m0_def)
    qed
    then have "0 \<le> (- r) div 12" "0 \<le> r \<longrightarrow> r = 0"
      by (simp_all add: pos_imp_zdiv_nonneg_iff)
    then have "fst (rd_set_months r) \<le> 0"
      by (auto simp: rd_set_months_years)
    moreover have "\<not> date_le (clamp_add_years dt2 n) dt1"
      unfolding le cy using i n by auto
    ultimately show ?thesis using k n by auto
  next
    case down: False
    then have ge: "date_le dt2 dt1" by (simp add: not_date_lt)
    have r: "r = m0 + (if date_lt dt1 dtm0 then - 1 else 0)"
      using down by (simp add: r_def)
    have c: "date_lt dt1 dtm0 \<longleftrightarrow> day dt1 < min (days_in_month (year dt1) (month dt1)) (day dt2)"
      by (simp add: date_lt_def dtm0_def)
    have i: "12 * year dt2 + month dt2 \<le> 12 * year dt1 + month dt1"
      using ge b1 b2 by (auto simp: date_le_def date_lt_def)
    have pos: "0 \<le> r"
    proof (cases "date_lt dt1 dtm0")
      case False
      then show ?thesis using i by (simp add: r m0_def)
    next
      case True
      have "\<not> (year dt1 = year dt2 \<and> month dt1 = month dt2)"
        using same True down by auto
      then have "12 * year dt2 + month dt2 < 12 * year dt1 + month dt1"
        using ge b1 b2 by (auto simp: date_le_def date_lt_def)
      then show ?thesis using True by (simp add: r m0_def)
    qed
    have d: "r = 12 * (r div 12) + r mod 12" "0 \<le> r mod 12" "r mod 12 < 12"
      by simp_all
    have kk: "n \<le> fst (rd_set_months r) \<longleftrightarrow> 12 * n \<le> r"
      using pos d by (simp add: rd_set_months_years) linarith
    have "12 * n \<le> r \<longleftrightarrow> date_le (clamp_add_years dt2 n) dt1"
    proof -
      consider (lt) "12 * (year dt2 + n) + month dt2 < 12 * year dt1 + month dt1"
        | (eq) "12 * (year dt2 + n) + month dt2 = 12 * year dt1 + month dt1"
        | (gt) "12 * year dt1 + month dt1 < 12 * (year dt2 + n) + month dt2"
        by linarith
      then show ?thesis
      proof cases
        case lt
        then have "12 * n \<le> r" by (simp add: r m0_def)
        then show ?thesis unfolding le cy using lt by simp
      next
        case gt
        then have "\<not> 12 * n \<le> r" by (simp add: r m0_def)
        then show ?thesis unfolding le cy using gt by simp
      next
        case eq
        then have ym: "year dt1 = year dt2 + n" "month dt1 = month dt2"
          using b1(1,2) b2(1,2) by presburger+
        have m: "m0 = 12 * n" using eq by (simp add: m0_def)
        have cd: "min (days_in_month (year dt1) (month dt1)) (day dt2)
            = day (clamp_add_years dt2 n)"
          unfolding ym by (rule clamp_day [OF v2])
        show ?thesis
          unfolding le cy r m c cd using eq by auto
      qed
    qed
    then show ?thesis using k kk by auto
  qed
qed

lemma validate_inputs_eq:
  assumes "relativedelta_years today birth = Inr years" "safe_add_years birth 14 = Inr d14"
  shows "validate_inputs g birth issue today
    = Inr (violated (validation_rules (MAX_BIRTH g) (MAX_ISSUE g) birth issue today years d14))"
  unfolding validate_inputs_def assms validation_rules_def violated_def Let_def
  by (simp add: not_date_le not_less)

text \<open>
  Claim C7, as amended. For well-formed dates \<open>birth\<close> and \<open>today\<close> with a birth year
  up to 9985, \<^verbatim>\<open>validate_inputs\<close> returns the messages of exactly the violated rules
  among its seven rules, in the order of the rules, each rule being checked on its own:
  the whole elapsed years are at least 14 exactly when the birth date plus 14 years, with
  29 February cut to 28 February, is not after today; that date is the bound of the fifth
  rule; and the upper bounds of the two range rules are the constants \<^verbatim>\<open>MAX_BIRTH\<close>
  and \<^verbatim>\<open>MAX_ISSUE\<close>, the day on which the module was loaded, and not the argument
  \<^verbatim>\<open>today\<close>. For a birth year after 9985 the call raises \<^verbatim>\<open>ValueError\<close>.
\<close>

theorem validate_inputs_reports_all:
  assumes "valid_date birth" "valid_date today"
  shows "(year birth \<le> 9985 \<longrightarrow>
          (\<exists>years. relativedelta_years today birth = Inr years
             \<and> (14 \<le> years \<longleftrightarrow> date_le (clamp_add_years birth 14) today)
             \<and> safe_add_years birth 14 = Inr (clamp_add_years birth 14)
             \<and> validate_inputs g birth issue today
                = Inr (violated (validation_rules (MAX_BIRTH g) (MAX_ISSUE g)
                         birth issue today years (clamp_add_years birth 14)))))
     \<and> (9986 \<le> year birth \<longrightarrow> validate_inputs g birth issue today = Inl ValueError)"
proof (intro conjI impI)
  obtain years where y: "relativedelta_years today birth = Inr years"
    and yy: "14 \<le> years \<longleftrightarrow> date_le (clamp_add_years birth 14) today"
    using relativedelta_years_ge [OF assms(2,1), of 14] by auto
  have b: "1 \<le> year birth"
    using assms(1) by (simp add: valid_date_def MINYEAR_def)
  {
    assume "year birth \<le> 9985"
    then have d: "safe_add_years birth 14 = Inr (clamp_add_years birth 14)"
      using assms(1) b by (intro safe_add_years_value) simp_all
    show "\<exists>years. relativedelta_years today birth = Inr years
        \<and> (14 \<le> years \<longleftrightarrow> date_le (clamp_add_years birth 14) today)
        \<and> safe_add_years birth 14 = Inr (clamp_add_years birth 14)
        \<and> validate_inputs g birth issue today
           = Inr (violated (validation_rules (MAX_BIRTH g) (MAX_ISSUE g)
                    birth issue today years (clamp_add_years birth 14)))"
      using y yy d validate_inputs_eq [OF y d] by blast
  }
  {
    assume "9986 \<le> year birth"
    moreover have "c_int (year birth + 14)"
      using assms(1) by (simp add: c_int_def valid_date_def MINYEAR_def MAXYEAR_def)
    ultimately have "safe_add_years birth 14 = Inl ValueError"
      using assms(1) by (intro safe_add_years_out_of_range) simp_all
    then show "validate_inputs g birth issue today = Inl ValueError"
      using y by (simp add: validate_inputs_def Let_def)
  }
qed

lemmas rd_eval =
  relativedelta_years_def rd_adjust.simps rd_add_def rd_set_months_def

theorem validate_inputs_reports_all_witness:
  "valid_date \<lparr>year = 2030, month = 1, day = 1\<rparr>
   \<and> valid_date \<lparr>year = 2024, month = 1, day = 1\<rparr>
   \<and> validate_inputs
        \<lparr>MAX_BIRTH = \<lparr>year = 2024, month = 1, day = 1\<rparr>,
         MAX_ISSUE = \<lparr>year = 2024, month = 1, day = 1\<rparr>\<rparr>
        \<lparr>year = 2030, month = 1, day = 1\<rparr> \<lparr>year = 2025, month = 1, day = 2\<rparr>
        \<lparr>year = 2024, month = 1, day = 1\<rparr>
      = Inr [BirthInFuture, IssueInFuture, IssueBeforeBirth, Under14, IssueBefore14,
             BirthOutOfRange MIN_BIRTH \<lparr>year = 2024, month = 1, day = 1\<rparr>,
             IssueOutOfRange MIN_ISSUE \<lparr>year = 2024, month = 1, day = 1\<rparr>]"
  using validate_inputs_reports_all [of "\<lparr>year = 2030, month = 1, day = 1\<rparr>"
      "\<lparr>year = 2024, month = 1, day = 1\<rparr>"
      "\<lparr>MAX_BIRTH = \<lparr>year = 2024, month = 1, day = 1\<rparr>,
        MAX_ISSUE = \<lparr>year = 2024, month = 1, day = 1\<rparr>\<rparr>"
      "\<lparr>year = 2025, month = 1, day = 2\<rparr>"]
  by (simp add: validation_rules_def violated_def rd_eval date_eval MIN_BIRTH_def MIN_ISSUE_def
      clamp_add_years_def Let_def)

theorem validate_inputs_reports_all_counterexample:
  "relativedelta_years \<lparr>year = 2024, month = 1, day = 2\<rparr>
      \<lparr>year = 2000, month = 1, day = 1\<rparr> = Inr 24
   \<and> safe_add_years \<lparr>year = 2000, month = 1, day = 1\<rparr> 14
      = Inr \<lparr>year = 2014, month = 1, day = 1\<rparr>
   \<and> validate_spec \<lparr>year = 2000, month = 1, day = 1\<rparr> \<lparr>year = 2024, month = 1, day = 2\<rparr>
        \<lparr>year = 2024, month = 1, day = 2\<rparr> 24 \<lparr>year = 2014, month = 1, day = 1\<rparr> = []
   \<and> validate_inputs
        \<lparr>MAX_BIRTH = \<lparr>year = 2024, month = 1, day = 1\<rparr>,
         MAX_ISSUE = \<lparr>year = 2024, month = 1, day = 1\<rparr>\<rparr>
        \<lparr>year = 2000, month = 1, day = 1\<rparr> \<lparr>year = 2024, month = 1, day = 2\<rparr>
        \<lparr>year = 2024, month = 1, day = 2\<rparr>
      = Inr [IssueOutOfRange MIN_ISSUE \<lparr>year = 2024, month = 1, day = 1\<rparr>]
   \<and> valid_date \<lparr>year = 9990, month = 1, day = 1\<rparr>
   \<and> validate_inputs
        \<lparr>MAX_BIRTH = \<lparr>year = 9999, month = 1, day = 1\<rparr>,
         MAX_ISSUE = \<lparr>year = 9999, month = 1, day = 1\<rparr>\<rparr>
        \<lparr>year = 9990, month = 1, day = 1\<rparr> \<lparr>year = 9999, month = 1, day = 1\<rparr>
        \<lparr>year = 9999, month = 1, day = 1\<rparr>
      = Inl ValueError"
  by (simp add: validate_inputs_def validate_spec_def validation_rules_def violated_def rd_eval
      date_eval MIN_BIRTH_def MIN_ISSUE_def Let_def)

section \<open>The composed message\<close>

lemma render_loop_eq:
  assumes "\<forall>r \<in> set rs. \<exists>bl. blocks r = Some bl \<and> bl lang = Some (seg r)"
  shows "render_loop lang i rs parts =
    Inr (parts @ map (\<lambda>(j, r). strip (sentence_at j (seg r) @ seg_rest (seg r)))
                   (zip [i ..< i + length rs] rs))"
  using assms
proof (induction rs arbitrary: i parts)
  case Nil
  then show ?case by simp
next
  case (Cons r rs)
  then obtain bl where bl: "blocks r = Some bl" "bl lang = Some (seg r)" by auto
  have rest: "\<forall>r \<in> set rs. \<exists>bl. blocks r = Some bl \<and> bl lang = Some (seg r)"
    using Cons.prems by simp
  have u: "[i ..< i + length (r # rs)] = i # [Suc i ..< Suc i + length rs]"
    by (subst upt_conv_Cons) simp_all
  have z: "zip [i ..< i + length (r # rs)] (r # rs)
      = (i, r) # zip [Suc i ..< Suc i + length rs] rs"
    unfolding u by simp
  show ?case
    unfolding z using Cons.IH [OF rest, of "Suc i"] bl
    by (simp add: sentence_at_def Let_def)
qed

lemma sort_by_priority_set: "set (sort_by_priority xs) = set xs \<inter> set PRIORITY"
  by (auto simp: sort_by_priority_def)

lemma compose_text_eq:
  assumes "intro_texts lang = Some intro" "closing_texts lang = Some closing"
    "\<forall>r \<in> set PRIORITY. \<exists>bl. blocks r = Some bl \<and> bl lang = Some (seg r)"
  shows "compose_text lang reqs = Inr (compose_spec intro closing seg (sort_by_priority reqs))"
proof -
  have "\<forall>r \<in> set (sort_by_priority reqs). \<exists>bl. blocks r = Some bl \<and> bl lang = Some (seg r)"
    using assms(3) by (simp add: sort_by_priority_set)
  then have "render_loop lang 0 (sort_by_priority reqs) [] =
    Inr (map (\<lambda>(j, r). strip (sentence_at j (seg r) @ seg_rest (seg r)))
           (zip [0 ..< length (sort_by_priority reqs)] (sort_by_priority reqs)))"
    using render_loop_eq [of "sort_by_priority reqs" lang seg 0 "[]"] by simp
  then show ?thesis
    using assms(1,2) by (simp add: compose_text_def render_middle_adaptive_def compose_spec_def)
qed

lemma tables_Russian:
  "intro_texts ''Russian'' = Some intro_Russian"
  "closing_texts ''Russian'' = Some closing_Russian"
  "\<forall>r \<in> set PRIORITY. \<exists>bl. blocks r = Some bl \<and> bl ''Russian'' = Some (segment_of ''Russian'' r)"
  by (simp_all add: intro_texts_def closing_texts_def blocks_def PRIORITY_def segment_of_def)

lemma tables_English:
  "intro_texts ''English'' = Some intro_English"
  "closing_texts ''English'' = Some closing_English"
  "\<forall>r \<in> set PRIORITY. \<exists>bl. blocks r = Some bl \<and> bl ''English'' = Some (segment_of ''English'' r)"
  by (simp_all add: intro_texts_def closing_texts_def blocks_def PRIORITY_def segment_of_def)



text \<open>
  Claim C9. For each of the two languages, and every selection, the composed message is
  the text described by the specification for the selection in priority order: the intro
  of the language, a blank line, the blocks joined by blank lines, a blank line and the
  closing of the language, trimmed; the block at position 0 starts with the lead
  sentence of its category, the block at position 1 with the additional sentence, every
  later block with the final sentence, each followed by the trailing text of the category
  and trimmed.
\<close>

theorem compose_text_structure:
  "compose_text ''Russian'' reqs
     = Inr (compose_spec intro_Russian closing_Russian (segment_of ''Russian'')
              (sort_by_priority reqs))
   \<and> compose_text ''English'' reqs
     = Inr (compose_spec intro_English closing_English (segment_of ''English'')
              (sort_by_priority reqs))"
  using compose_text_eq [OF tables_Russian, of reqs] compose_text_eq [OF tables_English, of reqs]
  by simp

theorem compose_text_structure_witness:
  "compose_text ''English'' [''UB'', ''ID'']
      = Inr (strip (intro_English @ ''\<newline>\<newline>''
               @ (strip (ID_English_lead @ ID_English_rest) @ ''\<newline>\<newline>''
                  @ strip (UB_English_add @ UB_English_rest))
               @ ''\<newline>\<newline>'' @ closing_English))
   \<and> compose_text ''Russian'' [''UB'', ''SOF'', ''ID'']
      = Inr (strip (intro_Russian @ ''\<newline>\<newline>''
               @ (strip (SOF_Russian_lead @ SOF_Russian_rest) @ ''\<newline>\<newline>''
                  @ strip (ID_Russian_add @ ID_Russian_rest) @ ''\<newline>\<newline>''
                  @ strip (UB_Russian_final @ UB_Russian_rest))
               @ ''\<newline>\<newline>'' @ closing_Russian))"
  using compose_text_structure [of "[''UB'', ''ID'']"]
    compose_text_structure [of "[''UB'', ''SOF'', ''ID'']"]
  by (simp add: PRIORITY_def sort_by_priority_def compose_spec_def sentence_at_def
      segment_of_def blocks_def upt_rec)

section \<open>Escaping for the script\<close>

lemma replace_scan_char:
  "replace_scan [c] new s = concat (map (\<lambda>x. if x = c then new else [x]) s)"
  by (induction s) auto

lemma str_replace_char:
  "str_replace [c] new s = concat (map (\<lambda>x. if x = c then new else [x]) s)"
  by (simp add: str_replace_def replace_scan_char)

lemma concat_map_concat_map:
  "concat (map f (concat (map g s))) = concat (map (\<lambda>x. concat (map f (g x))) s)"
  by (induction s) auto

lemma escape_quotes:
  "str_replace [CHR 0x60] [CHR 0x5C, CHR 0x60] (str_replace [CHR 0x5C] [CHR 0x5C, CHR 0x5C] s)
     = concat (map esc_quote s)"
proof -
  have "concat (map (\<lambda>x. if x = CHR 0x60 then [CHR 0x5C, CHR 0x60] else [x])
          (if x = CHR 0x5C then [CHR 0x5C, CHR 0x5C] else [x])) = esc_quote x" for x
    by (simp add: esc_quote_def)
  then show ?thesis
    by (simp add: str_replace_char concat_map_concat_map)
qed

lemma esc_quote_not_brace: "\<not> prefix [CHR ''{''] (esc_quote d @ t)" if "d \<noteq> CHR ''{''"
  using that by (simp add: esc_quote_def)

lemma esc_quote_not_dollar:
  "replace_scan ''${'' new (esc_quote c @ t) = esc_quote c @ replace_scan ''${'' new t"
  if "c \<noteq> CHR ''$''"
  using that by (simp add: esc_quote_def)

lemma escape_dollar_eq:
  "replace_scan ''${'' [CHR 0x5C, CHR ''$'', CHR ''{''] (concat (map esc_quote s))
     = escape_dollar s"
proof (induction s rule: escape_dollar.induct)
  case 1
  show ?case by simp
next
  case (2 c s)
  show ?case
  proof (cases "c = CHR ''$''")
    case False
    then show ?thesis using 2 by (simp add: esc_quote_not_dollar)
  next
    case c: True
    show ?thesis
    proof (cases s)
      case Nil
      then show ?thesis using c by (simp add: esc_quote_def)
    next
      case (Cons d t)
      show ?thesis
      proof (cases "d = CHR ''{''")
        case True
        then show ?thesis using c Cons 2 by (simp add: esc_quote_def)
      next
        case False
        then have "\<not> prefix [CHR ''{''] (esc_quote d @ concat (map esc_quote t))"
          by (rule esc_quote_not_brace)
        then show ?thesis using c Cons False 2 by (simp add: esc_quote_def)
      qed
    qed
  qed
qed

lemma js_escape_unfold:
  "js_escape s =
     concat (map (\<lambda>x. if x = CHR 0x0A then [CHR 0x5C, CHR ''n''] else [x])
       (concat (map (\<lambda>x. if x = CHR 0x0D then [] else [x]) (escape_dollar s))))"
proof -
  have e: "str_replace ''${'' [CHR 0x5C, CHR ''$'', CHR ''{''] (concat (map esc_quote s))
      = escape_dollar s"
    by (simp add: str_replace_def escape_dollar_eq)
  show ?thesis
    unfolding js_escape_def escape_quotes e by (simp only: str_replace_char)
qed

lemma js_escape_pass_eq:
  "concat (map (\<lambda>x. if x = CHR 0x0A then [CHR 0x5C, CHR ''n''] else [x])
     (concat (map (\<lambda>x. if x = CHR 0x0D then [] else [x]) (escape_dollar s))))
   = js_escape_pass s"
  by (induction s rule: js_escape_pass.induct) (simp_all add: esc_quote_def)

text \<open>
  Claim C10. For every string, \<^verbatim>\<open>js_escape\<close> is the result of one pass over the input
  in which a backslash becomes two backslashes, a backtick becomes a backslash and a
  backtick, the pair \<^verbatim>\<open>${\<close> becomes a backslash and the pair, a carriage return
  disappears, a newline becomes a backslash and the letter n, and every other character
  stays: no escape that was inserted is escaped again. The result holds neither a
  carriage return nor a newline.
\<close>

theorem js_escape_single_pass:
  "js_escape s = js_escape_pass s
   \<and> CHR 0x0D \<notin> set (js_escape s) \<and> CHR 0x0A \<notin> set (js_escape s)"
proof -
  have "js_escape s = js_escape_pass s"
    by (simp add: js_escape_unfold js_escape_pass_eq)
  moreover have "CHR 0x0D \<notin> set (js_escape s)" "CHR 0x0A \<notin> set (js_escape s)"
    unfolding js_escape_unfold by (auto split: if_splits)
  ultimately show ?thesis by simp
qed

theorem js_escape_single_pass_witness:
  "js_escape (''a$'' @ [CHR 0x0D] @ ''{b'' @ [CHR 0x5C, CHR 0x60, CHR 0x0A] @ ''${x}$${'')
     = ''a${b'' @ [CHR 0x5C, CHR 0x5C, CHR 0x5C, CHR 0x60, CHR 0x5C] @ ''n''
       @ [CHR 0x5C] @ ''${x}$'' @ [CHR 0x5C] @ ''${''
   \<and> CHR 0x0D \<notin> set (js_escape (''a$'' @ [CHR 0x0D] @ ''{b'' @ [CHR 0x5C, CHR 0x60, CHR 0x0A]
                                  @ ''${x}$${''))"
  using js_escape_single_pass [of "''a$'' @ [CHR 0x0D] @ ''{b'' @ [CHR 0x5C, CHR 0x60, CHR 0x0A]
      @ ''${x}$${''"]
  by simp

end
